theory Spec2Isabelle
  imports Main
begin

section \<open>Go values\<close>

text \<open>
  A Go slice is \<open>None\<close> when it is \<open>nil\<close> and \<open>Some xs\<close> otherwise; \<open>elems\<close> is what
  \<open>range\<close> visits, \<open>slice_len\<close> is \<open>len\<close> and \<open>append1 s x\<close> is \<open>append(s, x)\<close>,
  which never gives a nil slice.  A pointer is an \<open>option\<close> as well.  Byte slices and
  strings are \<open>string\<close>; Go's \<open>int\<close>, \<open>int64\<close> and \<open>time.Duration\<close> are \<open>int\<close>.
\<close>

type_synonym 'a slice = "'a list option"

definition elems :: "'a slice \<Rightarrow> 'a list" where
  "elems s = (case s of None \<Rightarrow> [] | Some xs \<Rightarrow> xs)"

definition slice_len :: "'a slice \<Rightarrow> nat" where
  "slice_len s = length (elems s)"

definition append1 :: "'a slice \<Rightarrow> 'a \<Rightarrow> 'a slice" where
  "append1 s x = Some (elems s @ [x])"

text \<open>An \<open>error\<close> value; \<open>Error\<close> is its message.  \<open>Errorf\<close> is \<open>fmt.Errorf("%s", b)\<close>.\<close>

datatype go_error = GoError string

fun Error :: "go_error \<Rightarrow> string" where
  "Error (GoError msg) = msg"

definition Errorf :: "string \<Rightarrow> go_error" where
  "Errorf b = GoError b"

text \<open>\<open>os.Getenv\<close>: the value of the variable, empty when it is not set.\<close>

definition Getenv :: "(string \<rightharpoonup> string) \<Rightarrow> string \<Rightarrow> string" where
  "Getenv env k = (case env k of None \<Rightarrow> [] | Some v \<Rightarrow> v)"

definition Second :: int where
  "Second = 1000000000"

section \<open>Values of the plugin framework\<close>

text \<open>
  \<open>types.String\<close>, \<open>types.Bool\<close>, \<open>types.Int64\<close> and \<open>types.Int32\<close> are null, unknown
  or known.  The \<open>Value...\<close> readers give the zero value for null and unknown.
\<close>

datatype tf_string = StringNull | StringUnknown | StringValue string
datatype tf_bool = BoolNull | BoolUnknown | BoolValue bool
datatype tf_int64 = Int64Null | Int64Unknown | Int64Value int
datatype tf_int32 = Int32Null | Int32Unknown | Int32Value int

fun ValueString :: "tf_string \<Rightarrow> string" where
  "ValueString (StringValue s) = s"
| "ValueString _ = []"

fun ValueStringPointer :: "tf_string \<Rightarrow> string option" where
  "ValueStringPointer StringNull = None"
| "ValueStringPointer StringUnknown = Some []"
| "ValueStringPointer (StringValue s) = Some s"

fun ValueBool :: "tf_bool \<Rightarrow> bool" where
  "ValueBool (BoolValue b) = b"
| "ValueBool _ = False"

fun ValueInt32 :: "tf_int32 \<Rightarrow> int" where
  "ValueInt32 (Int32Value i) = i"
| "ValueInt32 _ = 0"

text \<open>The conversion \<open>int32(i)\<close> of a Go \<open>int\<close> keeps the low 32 bits, read as signed.\<close>

definition int32 :: "int \<Rightarrow> int" where
  "int32 i = (i + 2 ^ 31) mod 2 ^ 32 - 2 ^ 31"

text \<open>
  Diagnostics.  \<open>Path\<close> is the attribute a diagnostic is about, \<open>None\<close> when it
  has none.  \<open>Append\<close> skips a diagnostic the collection already holds;
  \<open>AddError\<close> appends one error diagnostic through \<open>Append\<close>, and
  \<open>AddAttributeError\<close> one that is about the attribute at \<open>path.Root(name)\<close>.
\<close>

datatype severity = SeverityError | SeverityWarning

record diagnostic =
  Severity :: severity
  Summary :: string
  Detail :: string
  Path :: "string option"

type_synonym diagnostics = "diagnostic list"

fun Append :: "diagnostics \<Rightarrow> diagnostics \<Rightarrow> diagnostics" where
  "Append ds [] = ds"
| "Append ds (d # rest) = Append (if d \<in> set ds then ds else ds @ [d]) rest"

definition AddError :: "string \<Rightarrow> string \<Rightarrow> diagnostics \<Rightarrow> diagnostics" where
  "AddError summary detail ds =
     Append ds [\<lparr>Severity = SeverityError, Summary = summary, Detail = detail, Path = None\<rparr>]"

definition AddAttributeError :: "string \<Rightarrow> string \<Rightarrow> string \<Rightarrow> diagnostics \<Rightarrow> diagnostics" where
  "AddAttributeError name summary detail ds =
     Append ds [\<lparr>Severity = SeverityError, Summary = summary, Detail = detail, Path = Some name\<rparr>]"

definition HasError :: "diagnostics \<Rightarrow> bool" where
  "HasError ds = list_ex (\<lambda>d. Severity d = SeverityError) ds"

section \<open>Lists of the plugin framework\<close>

text \<open>
  An \<open>attr.Value\<close> of a primitive type, its \<open>Type\<close>, and the name \<open>%T\<close> prints for it.
  A \<open>types.List\<close> carries its element type and is null, unknown or known; the zero
  value of the Go type is the null list with no element type, \<open>ListNull NoType\<close>.
\<close>

datatype attr_type = StringType | BoolType | Int64Type | Int32Type | NoType

datatype attr_value = StringV tf_string | BoolV tf_bool | Int64V tf_int64 | Int32V tf_int32

fun Type_of :: "attr_value \<Rightarrow> attr_type" where
  "Type_of (StringV _) = StringType"
| "Type_of (BoolV _) = BoolType"
| "Type_of (Int64V _) = Int64Type"
| "Type_of (Int32V _) = Int32Type"

fun TypeName :: "attr_value \<Rightarrow> string" where
  "TypeName (StringV _) = ''basetypes.StringValue''"
| "TypeName (BoolV _) = ''basetypes.BoolValue''"
| "TypeName (Int64V _) = ''basetypes.Int64Value''"
| "TypeName (Int32V _) = ''basetypes.Int32Value''"

datatype tf_list = ListNull attr_type | ListUnknown attr_type | ListKnown attr_type "attr_value list"

fun IsNull :: "tf_list \<Rightarrow> bool" where
  "IsNull (ListNull _) = True"
| "IsNull _ = False"

fun IsUnknown :: "tf_list \<Rightarrow> bool" where
  "IsUnknown (ListUnknown _) = True"
| "IsUnknown _ = False"

fun Elements :: "tf_list \<Rightarrow> attr_value list" where
  "Elements (ListKnown _ es) = es"
| "Elements _ = []"

text \<open>
  \<open>types.ListValue\<close>: one error diagnostic for every element whose type is not the
  element type (the detail abridged to the index and the type found); with an error
  the list is unknown, otherwise it is the known list of the elements.
\<close>

fun Itoa :: "nat \<Rightarrow> string" where
  "Itoa n = (if n < 10 then [char_of (48 + n)] else Itoa (n div 10) @ [char_of (48 + n mod 10)])"

declare Itoa.simps [simp del]

fun ListValue_diags :: "attr_type \<Rightarrow> nat \<Rightarrow> attr_value list \<Rightarrow> diagnostics \<Rightarrow> diagnostics" where
  "ListValue_diags elementType idx [] diags = diags"
| "ListValue_diags elementType idx (element # rest) diags =
     ListValue_diags elementType (Suc idx) rest
       (if Type_of element \<noteq> elementType then
          AddError ''Invalid List Element Type''
            (''List Index ('' @ Itoa idx @ '') Element Type: '' @ TypeName element) diags
        else diags)"

definition ListValue :: "attr_type \<Rightarrow> attr_value list \<Rightarrow> tf_list \<times> diagnostics" where
  "ListValue elementType elements =
     (let diags = ListValue_diags elementType 0 elements []
      in if HasError diags then (ListUnknown elementType, diags)
         else (ListKnown elementType elements, []))"

text \<open>
  \<open>types.ListValueFrom(ctx, types.StringType, s)\<close> for a slice of strings: the null
  list for a nil slice, otherwise the known list of its strings.
\<close>

definition ListValueFrom :: "string slice \<Rightarrow> tf_list \<times> diagnostics" where
  "ListValueFrom s =
     (case s of
        None \<Rightarrow> (ListNull StringType, [])
      | Some xs \<Rightarrow> (ListKnown StringType (map (\<lambda>x. StringV (StringValue x)) xs), []))"

section \<open>Wire records read from the API\<close>

text \<open>
  The fields of \<open>netbirdApi.Network\<close>, \<open>netbirdApi.Nameserver\<close> and
  \<open>netbirdApi.NameserverGroup\<close> that the provider reads.
\<close>

record netbirdApi_Network =
  Description :: "string option"
  Name :: string
  Policies :: "string slice"
  Resources :: "string slice"
  Routers :: "string slice"
  RoutingPeersCount :: int

record netbirdApi_Nameserver =
  Ip :: string
  NsType :: string
  Port :: int

record netbirdApi_NameserverGroup =
  Description :: string
  Domains :: "string slice"
  Enabled :: bool
  Groups :: "string slice"
  Id :: string
  Name :: string
  Nameservers :: "netbirdApi_Nameserver slice"
  Primary :: bool
  SearchDomainsEnabled :: bool

section \<open>The HTTP client wrapper\<close>

text \<open>
  A request as \<open>http.NewRequest\<close> builds it.  The header is Go's
  \<open>map[string][]string\<close>; the body is the JSON document \<open>json.Marshal\<close> encodes, or
  \<open>None\<close> for a nil body.
\<close>

datatype json = JString string | JArray "json list" | JObject "(string \<times> json) list"

record http_request =
  Method :: string
  URL :: string
  Header :: "string \<rightharpoonup> string list"
  Body :: "json option"

definition Header_Set :: "string \<Rightarrow> string \<Rightarrow> http_request \<Rightarrow> http_request" where
  "Header_Set k v req = req\<lparr>Header := (Header req)(k \<mapsto> [v])\<rparr>"

text \<open>
  A response as \<open>httpClient.Do\<close> returns it: the status code, and what
  \<open>io.ReadAll(resp.Body)\<close> gives, an error or the bytes (never a nil slice).
\<close>

record http_response =
  StatusCode :: int
  ReadAll :: "go_error + string"

record http_Client =
  Timeout :: int

record Client =
  BaseUrl :: string
  BearerToken :: string
  AccessToken :: string
  httpClient :: http_Client

text \<open>
  One call of \<open>http.Client.Do\<close>: the provider's client whose \<open>doRequest\<close> made it
  and the request as sent.  The world outside the provider is the record \<open>sys\<close>:
  \<open>NewRequest_url\<close> is what \<open>http.NewRequest\<close> makes of the URL string it is given,
  the error of \<open>url.Parse\<close> or the parsed URL written out again (so with its path
  escaped), which is the URL of the request; \<open>Do\<close> answers a call, given the calls
  made before it, with a transport error or a response; \<open>Unmarshal_...\<close> is
  \<open>json.Unmarshal\<close> of a response body into a wire record.
\<close>

record call =
  Via :: Client
  Sent :: http_request

record sys =
  NewRequest_url :: "string \<Rightarrow> go_error + string"
  Do :: "call list \<Rightarrow> call \<Rightarrow> go_error + http_response"
  Unmarshal_Network :: "string \<Rightarrow> go_error + netbirdApi_Network"
  Unmarshal_NameserverGroup :: "string \<Rightarrow> go_error + netbirdApi_NameserverGroup"

definition NewRequest :: "sys \<Rightarrow> string \<Rightarrow> string \<Rightarrow> json option \<Rightarrow> go_error + http_request" where
  "NewRequest w method url body =
     (case NewRequest_url w url of
        Inl err \<Rightarrow> Inl err
      | Inr u \<Rightarrow> Inr \<lparr>Method = method, URL = u, Header = Map.empty, Body = body\<rparr>)"

definition NewClient :: "string \<Rightarrow> string \<Rightarrow> string \<Rightarrow> Client" where
  "NewClient baseURL bearerToken accessToken =
     \<lparr>BaseUrl = baseURL, BearerToken = bearerToken, AccessToken = accessToken,
      httpClient = \<lparr>Timeout = 60 * Second\<rparr>\<rparr>"

text \<open>The two header assignments that open \<open>doRequest\<close>.\<close>

definition doRequest_headers :: "Client \<Rightarrow> http_request \<Rightarrow> http_request" where
  "doRequest_headers s req =
     (let req = (if BearerToken s \<noteq> [] then
                   Header_Set ''Authorization'' (''Bearer '' @ BearerToken s) req else req);
          req = (if AccessToken s \<noteq> [] then
                   Header_Set ''Authorization'' (''Token '' @ AccessToken s) req else req)
      in req)"

text \<open>
  \<open>doRequest\<close> returns Go's pair \<open>([]byte, error)\<close>, \<open>None\<close> for \<open>nil\<close>, and the log of
  calls with this one added.
\<close>

definition doRequest ::
  "Client \<Rightarrow> sys \<Rightarrow> http_request \<Rightarrow> call list \<Rightarrow> (string option \<times> go_error option) \<times> call list" where
  "doRequest s w req log =
     (let c = \<lparr>Via = s, Sent = doRequest_headers s req\<rparr>;
          log' = log @ [c]
      in case Do w log c of
           Inl err \<Rightarrow> ((None, Some err), log')
         | Inr resp \<Rightarrow>
             (case ReadAll resp of
                Inl err \<Rightarrow> ((None, Some err), log')
              | Inr body \<Rightarrow>
                  if StatusCode resp \<ge> 400 then ((None, Some (Errorf body)), log')
                  else ((Some body, None), log')))"

section \<open>The provider root\<close>

record NetbirdProviderModel =
  Endpoint :: tf_string
  BearerToken :: tf_string
  AccessToken :: tf_string

record ConfigureResponse =
  Diagnostics :: diagnostics
  DataSourceData :: "Client option"
  ResourceData :: "Client option"

text \<open>
  \<open>NetbirdProvider.Configure\<close>.  \<open>env\<close> is the process environment; \<open>config\<close> is what
  \<open>req.Config.Get(ctx, &data)\<close> gives: the decoded model and its diagnostics.  The
  response the framework hands in is empty.
\<close>

definition Configure ::
  "(string \<rightharpoonup> string) \<Rightarrow> NetbirdProviderModel \<times> diagnostics \<Rightarrow> ConfigureResponse" where
  "Configure env config =
     (let data = fst config;
          resp = \<lparr>Diagnostics = Append [] (snd config), DataSourceData = None, ResourceData = None\<rparr>
      in if HasError (Diagnostics resp) then resp
         else
           let bearerToken = Getenv env ''NETBIRD_BEARER_TOKEN'';
               accessToken = Getenv env ''NETBIRD_ACCESS_TOKEN'';
               endpoint = Getenv env ''NETBIRD_ENDPOINT'';
               endpoint = (if ValueString (Endpoint data) \<noteq> []
                           then ValueString (Endpoint data) else endpoint);
               endpoint = (if endpoint = [] then ''https://api.netbird.io'' else endpoint);
               bearerToken = (if ValueString (NetbirdProviderModel.BearerToken data) \<noteq> []
                              then ValueString (NetbirdProviderModel.BearerToken data)
                              else bearerToken);
               accessToken = (if ValueString (NetbirdProviderModel.AccessToken data) \<noteq> []
                              then ValueString (NetbirdProviderModel.AccessToken data)
                              else accessToken);
               resp = (if bearerToken = [] \<and> accessToken = [] then
                         resp\<lparr>Diagnostics := AddError ''Bearer token and access token missing.''
                           (''The provider must be configured with either the `bearer_token` or the `access_token` to authenticate to Netbird. '' @
                            ''Set one of these values in the configuration. '' @
                            ''If either is already set, ensure the value is not empty. '' @
                            ''If this was not expected, please check for NETBIRD_* environment variables. '' @
                            ''See the provider documentation for more information'')
                           (Diagnostics resp)\<rparr>
                       else resp);
               resp = (if bearerToken \<noteq> [] \<and> accessToken \<noteq> [] then
                         resp\<lparr>Diagnostics := AddError ''Conflicting arguments: Bearer token and access token.''
                           (''The provider must be configured with either the `bearer_token` or the `access_token` to authenticate to Netbird. '' @
                            ''Only set one of these values in the configuration. '' @
                            ''If this was not expected, please check for NETBIRD_* environment variables. '' @
                            ''See the provider documentation for more information'')
                           (Diagnostics resp)\<rparr>
                       else resp);
               client = NewClient endpoint bearerToken accessToken
           in resp\<lparr>DataSourceData := Some client, ResourceData := Some client\<rparr>)"

section \<open>Field-mapping converters\<close>

definition derefString :: "string option \<Rightarrow> tf_string" where
  "derefString input = (case input of None \<Rightarrow> StringNull | Some s \<Rightarrow> StringValue s)"

definition derefStringSlice :: "string slice option \<Rightarrow> string slice" where
  "derefStringSlice s = (case s of None \<Rightarrow> None | Some xs \<Rightarrow> xs)"

definition convertStringSliceToListValue :: "string slice \<Rightarrow> tf_list \<times> diagnostics" where
  "convertStringSliceToListValue strings =
     (let stringValueList = foldl (\<lambda>acc val. append1 acc (StringV (StringValue val))) None (elems strings);
          diags = []
      in if slice_len stringValueList = 0 then (ListNull StringType, diags)
         else
           (case ListValue StringType (elems stringValueList) of
              (listValue, diags) \<Rightarrow>
                if HasError diags then (ListNull StringType, diags) else (listValue, diags)))"

definition nullStringToEmptyString :: "tf_string \<Rightarrow> tf_string" where
  "nullStringToEmptyString input = (if ValueString input = [] then StringNull else input)"

text \<open>The loop of \<open>convertListToStringSlice\<close> over the elements, and the function.\<close>

fun convertListToStringSlice_loop ::
  "attr_value list \<Rightarrow> string slice \<Rightarrow> diagnostics \<Rightarrow> string slice \<times> diagnostics" where
  "convertListToStringSlice_loop [] result diags = (result, [])"
| "convertListToStringSlice_loop (elem # rest) result diags =
     (case elem of
        StringV strVal \<Rightarrow> convertListToStringSlice_loop rest (append1 result (ValueString strVal)) diags
      | _ \<Rightarrow> (None, AddError ''Unexpected type'' (''unexpected type: '' @ TypeName elem) diags))"

definition convertListToStringSlice :: "tf_list \<Rightarrow> string slice \<times> diagnostics" where
  "convertListToStringSlice list =
     (let result = Some []; diags = []
      in if IsNull list \<or> IsUnknown list then (result, [])
         else convertListToStringSlice_loop (Elements list) result diags)"

section \<open>Policy rules\<close>

record ResourceModel =
  ID :: tf_string
  Type :: tf_string

record PortRangeModel =
  Start :: tf_int32
  End :: tf_int32

record PolicyRuleModel =
  ID :: tf_string
  Name :: tf_string
  Description :: tf_string
  Enabled :: tf_bool
  Action :: tf_string
  Bidirectional :: tf_bool
  Protocol :: tf_string
  Ports :: tf_list
  PortRanges :: "PortRangeModel slice"
  Sources :: tf_list
  Destinations :: tf_list
  SourceResource :: "ResourceModel option"
  DestinationResource :: "ResourceModel option"

text \<open>The wire records \<open>netbirdApi.Resource\<close>, \<open>RulePortRange\<close> and \<open>PolicyRuleUpdate\<close>.\<close>

record netbirdApi_Resource =
  Id :: string
  Type :: string

record netbirdApi_RulePortRange =
  Start :: int
  End :: int

record netbirdApi_PolicyRuleUpdate =
  Name :: string
  Description :: "string option"
  Enabled :: bool
  Action :: string
  Bidirectional :: bool
  Protocol :: string
  Ports :: "string slice option"
  PortRanges :: "netbirdApi_RulePortRange slice option"
  Sources :: "string slice option"
  SourceResource :: "netbirdApi_Resource option"
  Destinations :: "string slice option"
  DestinationResource :: "netbirdApi_Resource option"

definition convertToRulesResourcesApiModel ::
  "ResourceModel option \<Rightarrow> netbirdApi_Resource option \<times> diagnostics" where
  "convertToRulesResourcesApiModel modelResource =
     (let diags = []
      in case modelResource of
           None \<Rightarrow> (None, diags)
         | Some m \<Rightarrow>
             (Some \<lparr>netbirdApi_Resource.Id = ValueString (ResourceModel.ID m),
                    netbirdApi_Resource.Type = ValueString (ResourceModel.Type m)\<rparr>, diags))"

definition convertToRulesPortRangesApiModel ::
  "PortRangeModel slice option \<Rightarrow> netbirdApi_RulePortRange slice \<times> diagnostics" where
  "convertToRulesPortRangesApiModel modelRanges =
     (let portRanges = None; diags = []
      in case modelRanges of
           None \<Rightarrow> (portRanges, diags)
         | Some ranges \<Rightarrow>
             (foldl (\<lambda>acc portRange. append1 acc
                       \<lparr>netbirdApi_RulePortRange.Start = ValueInt32 (PortRangeModel.Start portRange),
                        netbirdApi_RulePortRange.End = ValueInt32 (PortRangeModel.End portRange)\<rparr>)
                portRanges (elems ranges), diags))"

text \<open>
  The loop of \<open>convertToRulesUpdateApiModel\<close> over the rules.  Every path through its
  body ends in a \<open>return\<close>, the last one right after the \<open>append\<close>, so the rules after
  the first are not visited.  From \<open>sourceResource, diags := ...\<close> on, \<open>diags\<close> is a
  new variable of the loop body.
\<close>

fun convertToRulesUpdateApiModel_loop ::
  "PolicyRuleModel list \<Rightarrow> netbirdApi_PolicyRuleUpdate slice \<Rightarrow> diagnostics \<Rightarrow>
   netbirdApi_PolicyRuleUpdate slice \<times> diagnostics" where
  "convertToRulesUpdateApiModel_loop [] apiRules diags = (apiRules, diags)"
| "convertToRulesUpdateApiModel_loop (modelRule # rest) apiRules diags =
     (case convertListToStringSlice (PolicyRuleModel.Ports modelRule) of (ports, newDiags) \<Rightarrow>
      let diags = Append diags newDiags in
      if HasError diags then (apiRules, diags) else
      case convertToRulesPortRangesApiModel (Some (PolicyRuleModel.PortRanges modelRule)) of (portRanges, newDiags) \<Rightarrow>
      let diags = Append diags newDiags in
      if HasError diags then (apiRules, diags) else
      case convertListToStringSlice (PolicyRuleModel.Sources modelRule) of (sources, newDiags) \<Rightarrow>
      let diags = Append diags newDiags in
      if HasError diags then (apiRules, diags) else
      case convertToRulesResourcesApiModel (PolicyRuleModel.SourceResource modelRule) of (sourceResource, diags) \<Rightarrow>
      if HasError diags then (apiRules, diags) else
      case convertListToStringSlice (PolicyRuleModel.Destinations modelRule) of (destinations, diags) \<Rightarrow>
      if HasError diags then (apiRules, diags) else
      case convertToRulesResourcesApiModel (PolicyRuleModel.SourceResource modelRule) of (destinationResource, diags) \<Rightarrow>
      if HasError diags then (apiRules, diags) else
      let apiRules = append1 apiRules
            \<lparr>netbirdApi_PolicyRuleUpdate.Name = ValueString (PolicyRuleModel.Name modelRule),
             netbirdApi_PolicyRuleUpdate.Description = ValueStringPointer (PolicyRuleModel.Description modelRule),
             netbirdApi_PolicyRuleUpdate.Enabled = ValueBool (PolicyRuleModel.Enabled modelRule),
             netbirdApi_PolicyRuleUpdate.Action = ValueString (PolicyRuleModel.Action modelRule),
             netbirdApi_PolicyRuleUpdate.Bidirectional = ValueBool (PolicyRuleModel.Bidirectional modelRule),
             netbirdApi_PolicyRuleUpdate.Protocol = ValueString (PolicyRuleModel.Protocol modelRule),
             netbirdApi_PolicyRuleUpdate.Ports = Some ports,
             netbirdApi_PolicyRuleUpdate.PortRanges = Some portRanges,
             netbirdApi_PolicyRuleUpdate.Sources = Some sources,
             netbirdApi_PolicyRuleUpdate.SourceResource = sourceResource,
             netbirdApi_PolicyRuleUpdate.Destinations = Some destinations,
             netbirdApi_PolicyRuleUpdate.DestinationResource = destinationResource\<rparr>
      in (apiRules, diags))"

definition convertToRulesUpdateApiModel ::
  "PolicyRuleModel slice option \<Rightarrow> netbirdApi_PolicyRuleUpdate slice \<times> diagnostics" where
  "convertToRulesUpdateApiModel modelRules =
     (let apiRules = None
      in case modelRules of
           None \<Rightarrow> (apiRules, [])
         | Some rules \<Rightarrow>
             let diags = [] in convertToRulesUpdateApiModel_loop (elems rules) apiRules diags)"

section \<open>Resource handlers\<close>

text \<open>
  A handler gets the client \<open>r.client\<close>, the world, the state or plan that
  \<open>req.State.Get\<close> or \<open>req.Plan.Get\<close> decodes into \<open>data\<close> with the diagnostics of
  that decoding, and the log of calls so far.  It returns the response and the log.
  The response starts with no diagnostics and the prior state; \<open>State.Set\<close> stores
  \<open>Some data\<close> and \<open>State.RemoveResource\<close> stores \<open>None\<close>.
\<close>

record 'm Response =
  Diagnostics :: diagnostics
  State :: "'m option"

subsection \<open>Network\<close>

record NetworkResourceModel =
  ID :: tf_string
  Name :: tf_string
  Description :: tf_string
  Routers :: tf_list
  RoutingPeersCount :: tf_int64
  Resources :: tf_list
  Policies :: tf_list

text \<open>
  \<open>NetworkResource.readIntoModel\<close> returns its diagnostics and \<open>data\<close> as it leaves
  it.  The assignment of nil to \<open>responseData.Description\<close> in the inner \<open>else\<close>
  changes nothing of \<open>data\<close>.
\<close>

definition NetworkResource_readIntoModel ::
  "Client \<Rightarrow> sys \<Rightarrow> NetworkResourceModel \<Rightarrow> call list \<Rightarrow>
   (diagnostics \<times> NetworkResourceModel) \<times> call list" where
  "NetworkResource_readIntoModel c w data log =
     (let diags = [];
          reqURL = BaseUrl c @ ''/api/networks/'' @ ValueString (NetworkResourceModel.ID data)
      in case NewRequest w ''GET'' reqURL None of
           Inl err \<Rightarrow> ((AddError ''Error creating request'' (Error err) diags, data), log)
         | Inr httpReq \<Rightarrow>
             (case doRequest c w httpReq log of
                ((responseBody, Some err), log) \<Rightarrow>
                  ((AddError ''Error fetching network'' (Error err) diags, data), log)
              | ((None, None), log) \<Rightarrow>
                  ((diags, data\<lparr>NetworkResourceModel.ID := StringNull\<rparr>), log)
              | ((Some body, None), log) \<Rightarrow>
                  (case Unmarshal_Network w body of
                     Inl err \<Rightarrow> ((AddError ''Error parsing response'' (Error err) diags, data), log)
                   | Inr responseData \<Rightarrow>
                       let data = data\<lparr>NetworkResourceModel.Name :=
                                    StringValue (netbirdApi_Network.Name responseData)\<rparr>;
                           data =
                             (if (case netbirdApi_Network.Description responseData of
                                    None \<Rightarrow> False | Some d \<Rightarrow> d \<noteq> [])
                                 \<or> ValueString (NetworkResourceModel.Description data) \<noteq> []
                              then
                                (case netbirdApi_Network.Description responseData of
                                   Some d \<Rightarrow> data\<lparr>NetworkResourceModel.Description := StringValue d\<rparr>
                                 | None \<Rightarrow> data)
                              else data);
                           data = data\<lparr>NetworkResourceModel.RoutingPeersCount :=
                                    Int64Value (netbirdApi_Network.RoutingPeersCount responseData)\<rparr>;
                           routers = ListValueFrom (netbirdApi_Network.Routers responseData);
                           diags = Append diags (snd routers);
                           data = data\<lparr>NetworkResourceModel.Routers := fst routers\<rparr>;
                           resources = ListValueFrom (netbirdApi_Network.Resources responseData);
                           data = data\<lparr>NetworkResourceModel.Resources := fst resources\<rparr>;
                           diags = Append diags (snd resources);
                           policies = ListValueFrom (netbirdApi_Network.Policies responseData);
                           data = data\<lparr>NetworkResourceModel.Policies := fst policies\<rparr>;
                           diags = Append diags (snd policies)
                       in ((diags, data), log))))"

definition NetworkResource_Read ::
  "Client \<Rightarrow> sys \<Rightarrow> NetworkResourceModel \<Rightarrow> diagnostics \<Rightarrow> call list \<Rightarrow>
   NetworkResourceModel Response \<times> call list" where
  "NetworkResource_Read c w state got log =
     (let data = state;
          resp = \<lparr>Diagnostics = Append [] got, State = Some state\<rparr>
      in if HasError (Response.Diagnostics resp) then (resp, log)
         else
           (case NetworkResource_readIntoModel c w data log of
              ((diags, data), log) \<Rightarrow>
                let resp = resp\<lparr>Response.Diagnostics := Append (Response.Diagnostics resp) diags\<rparr>
                in if HasError (Response.Diagnostics resp) then (resp, log)
                   else (resp\<lparr>State := Some data\<rparr>, log)))"

text \<open>
  \<open>NetworkResource.Update\<close>.  \<open>json.Marshal\<close> of a map of strings does not fail and
  writes the keys in sorted order.
\<close>

definition NetworkResource_Update ::
  "Client \<Rightarrow> sys \<Rightarrow> NetworkResourceModel \<Rightarrow> diagnostics \<Rightarrow> NetworkResourceModel \<Rightarrow>
   call list \<Rightarrow> NetworkResourceModel Response \<times> call list" where
  "NetworkResource_Update c w plan got state log =
     (let data = plan;
          resp = \<lparr>Diagnostics = Append [] got, State = Some state\<rparr>
      in if HasError (Response.Diagnostics resp) then (resp, log)
         else
           let requestBody = JObject
                 [(''description'', JString (ValueString (NetworkResourceModel.Description data))),
                  (''name'', JString (ValueString (NetworkResourceModel.Name data)))];
               reqURL = BaseUrl c @ ''/api/networks/'' @ ValueString (NetworkResourceModel.ID data)
           in case NewRequest w ''PUT'' reqURL (Some requestBody) of
                Inl err \<Rightarrow>
                  (resp\<lparr>Response.Diagnostics :=
                     AddError ''Error creating request'' (Error err) (Response.Diagnostics resp)\<rparr>, log)
              | Inr httpReq \<Rightarrow>
                  let httpReq = Header_Set ''Content-Type'' ''application/json'' httpReq
                  in case doRequest c w httpReq log of
                       ((_, Some err), log) \<Rightarrow>
                         (resp\<lparr>Response.Diagnostics :=
                            AddError ''Error updating network'' (Error err) (Response.Diagnostics resp)\<rparr>, log)
                     | ((_, None), log) \<Rightarrow>
                         (case NetworkResource_readIntoModel c w data log of
                            ((diags, data), log) \<Rightarrow>
                              let resp = resp\<lparr>Response.Diagnostics :=
                                           Append (Response.Diagnostics resp) diags\<rparr>
                              in if HasError (Response.Diagnostics resp) then (resp, log)
                                 else (resp\<lparr>State := Some data\<rparr>, log)))"

definition NetworkResource_Delete ::
  "Client \<Rightarrow> sys \<Rightarrow> NetworkResourceModel \<Rightarrow> diagnostics \<Rightarrow> call list \<Rightarrow>
   NetworkResourceModel Response \<times> call list" where
  "NetworkResource_Delete c w state got log =
     (let data = state;
          resp = \<lparr>Diagnostics = Append [] got, State = Some state\<rparr>
      in if HasError (Response.Diagnostics resp) then (resp, log)
         else
           let reqURL = BaseUrl c @ ''/api/networks/'' @ ValueString (NetworkResourceModel.ID data)
           in case NewRequest w ''DELETE'' reqURL None of
                Inl err \<Rightarrow>
                  (resp\<lparr>Response.Diagnostics :=
                     AddError ''Error creating request'' (Error err) (Response.Diagnostics resp)\<rparr>, log)
              | Inr httpReq \<Rightarrow>
                  (case doRequest c w httpReq log of
                     ((_, Some err), log) \<Rightarrow>
                       (resp\<lparr>Response.Diagnostics :=
                          AddError ''Error deleting network'' (Error err) (Response.Diagnostics resp)\<rparr>, log)
                   | ((_, None), log) \<Rightarrow> (resp\<lparr>State := None\<rparr>, log)))"

subsection \<open>Nameserver group\<close>

record NameserverResourceModel =
  Ip :: tf_string
  NsType :: tf_string
  Port :: tf_int32

record NameserverGroupResourceModel =
  ID :: tf_string
  Name :: tf_string
  Description :: tf_string
  Nameservers :: "NameserverResourceModel slice"
  PeerGroups :: tf_list
  Domains :: tf_list
  Primary :: tf_bool
  SearchDomainsEnabled :: tf_bool
  Enabled :: tf_bool

text \<open>
  \<open>readNameserverGroupIntoModel\<close>; its callers pass the address of a local, so
  \<open>data\<close> is not nil.  \<open>types.BoolPointerValue\<close> of the address of a field is the known
  value.
\<close>

definition readNameserverGroupIntoModel ::
  "Client \<Rightarrow> sys \<Rightarrow> NameserverGroupResourceModel \<Rightarrow> call list \<Rightarrow>
   (diagnostics \<times> NameserverGroupResourceModel) \<times> call list" where
  "readNameserverGroupIntoModel c w data log =
     (let diags = [];
          reqURL = BaseUrl c @ ''/api/dns/nameservers/'' @ ValueString (NameserverGroupResourceModel.ID data)
      in case NewRequest w ''GET'' reqURL None of
           Inl err \<Rightarrow> ((AddError ''Error creating request'' (Error err) diags, data), log)
         | Inr httpReq \<Rightarrow>
             (case doRequest c w httpReq log of
                ((responseBody, Some err), log) \<Rightarrow>
                  ((AddError ''Error fetching network'' (Error err) diags, data), log)
              | ((None, None), log) \<Rightarrow>
                  ((diags, data\<lparr>NameserverGroupResourceModel.ID := StringNull\<rparr>), log)
              | ((Some body, None), log) \<Rightarrow>
                  (case Unmarshal_NameserverGroup w body of
                     Inl err \<Rightarrow> ((AddError ''Error parsing response'' (Error err) diags, data), log)
                   | Inr responseData \<Rightarrow>
                       let data = data\<lparr>NameserverGroupResourceModel.Name :=
                                    StringValue (netbirdApi_NameserverGroup.Name responseData)\<rparr>;
                           data = data\<lparr>NameserverGroupResourceModel.Description :=
                                    nullStringToEmptyString
                                      (derefString (Some (netbirdApi_NameserverGroup.Description responseData)))\<rparr>;
                           nameservers =
                             foldl (\<lambda>acc nameserver. append1 acc
                                      \<lparr>NameserverResourceModel.Ip = StringValue (netbirdApi_Nameserver.Ip nameserver),
                                       NameserverResourceModel.NsType = StringValue (netbirdApi_Nameserver.NsType nameserver),
                                       NameserverResourceModel.Port = Int32Value (int32 (netbirdApi_Nameserver.Port nameserver))\<rparr>)
                               None (elems (netbirdApi_NameserverGroup.Nameservers responseData));
                           data = data\<lparr>NameserverGroupResourceModel.Nameservers := nameservers\<rparr>;
                           peerGroups = convertStringSliceToListValue (netbirdApi_NameserverGroup.Groups responseData);
                           data = data\<lparr>NameserverGroupResourceModel.PeerGroups := fst peerGroups\<rparr>;
                           diags = snd peerGroups
                       in if HasError diags then ((diags, data), log)
                          else
                            let data = data\<lparr>NameserverGroupResourceModel.Primary :=
                                         BoolValue (netbirdApi_NameserverGroup.Primary responseData)\<rparr>;
                                domains = convertStringSliceToListValue (netbirdApi_NameserverGroup.Domains responseData);
                                data = data\<lparr>NameserverGroupResourceModel.Domains := fst domains\<rparr>;
                                diags = snd domains
                            in if HasError diags then ((diags, data), log)
                               else
                                 let data = data\<lparr>NameserverGroupResourceModel.SearchDomainsEnabled :=
                                              BoolValue (netbirdApi_NameserverGroup.SearchDomainsEnabled responseData)\<rparr>;
                                     data = data\<lparr>NameserverGroupResourceModel.Enabled :=
                                              BoolValue (netbirdApi_NameserverGroup.Enabled responseData)\<rparr>
                                 in ((diags, data), log))))"

definition NameserverGroupResource_Read ::
  "Client \<Rightarrow> sys \<Rightarrow> NameserverGroupResourceModel \<Rightarrow> diagnostics \<Rightarrow> call list \<Rightarrow>
   NameserverGroupResourceModel Response \<times> call list" where
  "NameserverGroupResource_Read c w state got log =
     (let data = state;
          resp = \<lparr>Diagnostics = Append [] got, State = Some state\<rparr>
      in if HasError (Response.Diagnostics resp) then (resp, log)
         else
           (case readNameserverGroupIntoModel c w data log of
              ((diags, data), log) \<Rightarrow>
                let resp = resp\<lparr>Response.Diagnostics := Append (Response.Diagnostics resp) diags\<rparr>
                in if HasError (Response.Diagnostics resp) then (resp, log)
                   else (resp\<lparr>State := Some data\<rparr>, log)))"

definition NameserverGroupResource_Delete ::
  "Client \<Rightarrow> sys \<Rightarrow> NameserverGroupResourceModel \<Rightarrow> diagnostics \<Rightarrow> call list \<Rightarrow>
   NameserverGroupResourceModel Response \<times> call list" where
  "NameserverGroupResource_Delete c w state got log =
     (let data = state;
          resp = \<lparr>Diagnostics = Append [] got, State = Some state\<rparr>
      in if HasError (Response.Diagnostics resp) then (resp, log)
         else
           let reqURL = BaseUrl c @ ''/api/dns/nameservers/'' @ ValueString (NameserverGroupResourceModel.ID data)
           in case NewRequest w ''DELETE'' reqURL None of
                Inl err \<Rightarrow>
                  (resp\<lparr>Response.Diagnostics :=
                     AddError ''Error creating request'' (Error err) (Response.Diagnostics resp)\<rparr>, log)
              | Inr httpReq \<Rightarrow>
                  (case doRequest c w httpReq log of
                     ((_, Some err), log) \<Rightarrow>
                       (resp\<lparr>Response.Diagnostics :=
                          AddError ''Error deleting network'' (Error err) (Response.Diagnostics resp)\<rparr>, log)
                   | ((_, None), log) \<Rightarrow> (resp\<lparr>State := None\<rparr>, log)))"

subsection \<open>Policy, group, network router and network resource\<close>

record PolicyModel =
  ID :: tf_string
  Name :: tf_string
  Description :: tf_string
  Enabled :: tf_bool
  SourcePostureChecks :: tf_list
  Rules :: "PolicyRuleModel slice"

record GroupResourceResourceModel =
  ID :: tf_string
  Type :: tf_string

record GroupResourceModel =
  ID :: tf_string
  Name :: tf_string
  Peers :: tf_list
  Resources :: "GroupResourceResourceModel slice"
  PeersCount :: tf_int64
  ResourcesCount :: tf_int64
  Issued :: tf_string

record NetworkRouterResourceModel =
  ID :: tf_string
  NetworkId :: tf_string
  Peer :: tf_string
  PeerGroups :: tf_list
  Metric :: tf_int32
  Masquerade :: tf_bool
  Enabled :: tf_bool

record NetworkResourceResourceModel =
  ID :: tf_string
  NetworkId :: tf_string
  Name :: tf_string
  Description :: tf_string
  Address :: tf_string
  PeerGroups :: tf_list
  Enabled :: tf_bool

definition PolicyResource_Delete ::
  "Client \<Rightarrow> sys \<Rightarrow> PolicyModel \<Rightarrow> diagnostics \<Rightarrow> call list \<Rightarrow>
   PolicyModel Response \<times> call list" where
  "PolicyResource_Delete c w state got log =
     (let data = state;
          resp = \<lparr>Diagnostics = Append [] got, State = Some state\<rparr>
      in if HasError (Response.Diagnostics resp) then (resp, log)
         else
           let reqURL = BaseUrl c @ ''/api/policies/'' @ ValueString (PolicyModel.ID data)
           in case NewRequest w ''DELETE'' reqURL None of
                Inl err \<Rightarrow>
                  (resp\<lparr>Response.Diagnostics :=
                     AddError ''Error creating request'' (Error err) (Response.Diagnostics resp)\<rparr>, log)
              | Inr httpReq \<Rightarrow>
                  (case doRequest c w httpReq log of
                     ((_, Some err), log) \<Rightarrow>
                       (resp\<lparr>Response.Diagnostics :=
                          AddError ''Error deleting network'' (Error err) (Response.Diagnostics resp)\<rparr>, log)
                   | ((_, None), log) \<Rightarrow> (resp\<lparr>State := None\<rparr>, log)))"

definition GroupResource_Delete ::
  "Client \<Rightarrow> sys \<Rightarrow> GroupResourceModel \<Rightarrow> diagnostics \<Rightarrow> call list \<Rightarrow>
   GroupResourceModel Response \<times> call list" where
  "GroupResource_Delete c w state got log =
     (let data = state;
          resp = \<lparr>Diagnostics = Append [] got, State = Some state\<rparr>
      in if HasError (Response.Diagnostics resp) then (resp, log)
         else
           let reqURL = BaseUrl c @ ''/api/groups/'' @ ValueString (GroupResourceModel.ID data)
           in case NewRequest w ''DELETE'' reqURL None of
                Inl err \<Rightarrow>
                  (resp\<lparr>Response.Diagnostics :=
                     AddError ''Error creating request'' (Error err) (Response.Diagnostics resp)\<rparr>, log)
              | Inr httpReq \<Rightarrow>
                  (case doRequest c w httpReq log of
                     ((_, Some err), log) \<Rightarrow>
                       (resp\<lparr>Response.Diagnostics :=
                          AddError ''Error deleting network'' (Error err) (Response.Diagnostics resp)\<rparr>, log)
                   | ((_, None), log) \<Rightarrow> (resp\<lparr>State := None\<rparr>, log)))"

definition NetworkRouterResource_Delete ::
  "Client \<Rightarrow> sys \<Rightarrow> NetworkRouterResourceModel \<Rightarrow> diagnostics \<Rightarrow> call list \<Rightarrow>
   NetworkRouterResourceModel Response \<times> call list" where
  "NetworkRouterResource_Delete c w state got log =
     (let data = state;
          resp = \<lparr>Diagnostics = Append [] got, State = Some state\<rparr>
      in if HasError (Response.Diagnostics resp) then (resp, log)
         else
           let reqURL = BaseUrl c @ ''/api/networks/'' @ ValueString (NetworkRouterResourceModel.NetworkId data)
                          @ ''/routers/'' @ ValueString (NetworkRouterResourceModel.ID data)
           in case NewRequest w ''DELETE'' reqURL None of
                Inl err \<Rightarrow>
                  (resp\<lparr>Response.Diagnostics :=
                     AddError ''Error creating request'' (Error err) (Response.Diagnostics resp)\<rparr>, log)
              | Inr httpReq \<Rightarrow>
                  (case doRequest c w httpReq log of
                     ((_, Some err), log) \<Rightarrow>
                       (resp\<lparr>Response.Diagnostics :=
                          AddError ''Error deleting network'' (Error err) (Response.Diagnostics resp)\<rparr>, log)
                   | ((_, None), log) \<Rightarrow> (resp\<lparr>State := None\<rparr>, log)))"

definition NetworkResourceResource_Delete ::
  "Client \<Rightarrow> sys \<Rightarrow> NetworkResourceResourceModel \<Rightarrow> diagnostics \<Rightarrow> call list \<Rightarrow>
   NetworkResourceResourceModel Response \<times> call list" where
  "NetworkResourceResource_Delete c w state got log =
     (let data = state;
          resp = \<lparr>Diagnostics = Append [] got, State = Some state\<rparr>
      in if HasError (Response.Diagnostics resp) then (resp, log)
         else
           let reqURL = BaseUrl c @ ''/api/networks/'' @ ValueString (NetworkResourceResourceModel.NetworkId data)
                          @ ''/resources/'' @ ValueString (NetworkResourceResourceModel.ID data)
           in case NewRequest w ''DELETE'' reqURL None of
                Inl err \<Rightarrow>
                  (resp\<lparr>Response.Diagnostics :=
                     AddError ''Error creating request'' (Error err) (Response.Diagnostics resp)\<rparr>, log)
              | Inr httpReq \<Rightarrow>
                  (case doRequest c w httpReq log of
                     ((_, Some err), log) \<Rightarrow>
                       (resp\<lparr>Response.Diagnostics :=
                          AddError ''Error deleting network'' (Error err) (Response.Diagnostics resp)\<rparr>, log)
                   | ((_, None), log) \<Rightarrow> (resp\<lparr>State := None\<rparr>, log)))"

subsection \<open>DNS settings\<close>

record DnsSettingsResourceModel =
  ID :: tf_string
  DisabledManagementGroups :: tf_list

text \<open>
  \<open>DnsSettingsResource.Delete\<close>.  The body is \<open>json.Marshal\<close> of a
  \<open>netbirdApi.DNSSettings\<close> whose \<open>DisabledManagementGroups\<close> is the empty slice.
\<close>

definition DnsSettingsResource_Delete ::
  "Client \<Rightarrow> sys \<Rightarrow> DnsSettingsResourceModel \<Rightarrow> diagnostics \<Rightarrow> call list \<Rightarrow>
   DnsSettingsResourceModel Response \<times> call list" where
  "DnsSettingsResource_Delete c w state got log =
     (let data = state;
          resp = \<lparr>Diagnostics = Append [] got, State = Some state\<rparr>
      in if HasError (Response.Diagnostics resp) then (resp, log)
         else
           let requestBody = JObject [(''disabled_management_groups'', JArray [])];
               reqURL = BaseUrl c @ ''/api/dns/settings''
           in case NewRequest w ''PUT'' reqURL (Some requestBody) of
                Inl err \<Rightarrow>
                  (resp\<lparr>Response.Diagnostics :=
                     AddError ''Error creating request'' (Error err) (Response.Diagnostics resp)\<rparr>, log)
              | Inr httpReq \<Rightarrow>
                  let httpReq = Header_Set ''Content-Type'' ''application/json'' httpReq
                  in case doRequest c w httpReq log of
                       ((_, Some err), log) \<Rightarrow>
                         (resp\<lparr>Response.Diagnostics :=
                            AddError ''Error updating network'' (Error err) (Response.Diagnostics resp)\<rparr>, log)
                     | ((_, None), log) \<Rightarrow> (resp\<lparr>State := None\<rparr>, log))"

section \<open>Creating, reading and updating\<close>

subsection \<open>Wire records and the library\<close>

text \<open>
  The fields that the handlers read or write of the other records of the package
  \<open>netbirdApi\<close>.  A \<open>time.Time\<close> is kept as its count of nanoseconds.
\<close>

datatype go_time = UnixNano int

record netbirdApi_GroupMinimum =
  Id :: string
  Issued :: "string option"
  Name :: string
  PeersCount :: int
  ResourcesCount :: int

record netbirdApi_NetworkRouter =
  Enabled :: bool
  Id :: string
  Masquerade :: bool
  Metric :: int
  Peer :: "string option"
  PeerGroups :: "string slice option"

record netbirdApi_NetworkRouterRequest =
  Enabled :: bool
  Masquerade :: bool
  Metric :: int
  Peer :: "string option"
  PeerGroups :: "string slice option"

record netbirdApi_NetworkResource =
  Address :: string
  Description :: "string option"
  Enabled :: bool
  Groups :: "netbirdApi_GroupMinimum slice"
  Id :: string
  Name :: string

record netbirdApi_NetworkResourceRequest =
  Address :: string
  Description :: "string option"
  Enabled :: bool
  Groups :: "string slice"
  Name :: string

record netbirdApi_PeerMinimum =
  Id :: string

record netbirdApi_Group =
  Id :: string
  Issued :: "string option"
  Name :: string
  Peers :: "netbirdApi_PeerMinimum slice"
  PeersCount :: int
  Resources :: "netbirdApi_Resource slice"
  ResourcesCount :: int

record netbirdApi_GroupRequest =
  Name :: string
  Peers :: "string slice option"
  Resources :: "netbirdApi_Resource slice option"

record netbirdApi_DNSSettings =
  DisabledManagementGroups :: "string slice"

record netbirdApi_PolicyRule =
  Action :: string
  Bidirectional :: bool
  Description :: "string option"
  DestinationResource :: "netbirdApi_Resource option"
  Destinations :: "netbirdApi_GroupMinimum slice option"
  Enabled :: bool
  Id :: "string option"
  Name :: string
  PortRanges :: "netbirdApi_RulePortRange slice option"
  Ports :: "string slice option"
  Protocol :: string
  SourceResource :: "netbirdApi_Resource option"
  Sources :: "netbirdApi_GroupMinimum slice option"

record netbirdApi_Policy =
  Description :: "string option"
  Enabled :: bool
  Id :: "string option"
  Name :: string
  Rules :: "netbirdApi_PolicyRule slice"
  SourcePostureChecks :: "string slice"

record netbirdApi_PolicyCreate =
  Description :: "string option"
  Enabled :: bool
  Name :: string
  Rules :: "netbirdApi_PolicyRuleUpdate slice"
  SourcePostureChecks :: "string slice option"

record netbirdApi_PolicyUpdate =
  Description :: "string option"
  Enabled :: bool
  Name :: string
  Rules :: "netbirdApi_PolicyRuleUpdate slice"
  SourcePostureChecks :: "string slice option"

record netbirdApi_NameserverGroupRequest =
  Description :: string
  Domains :: "string slice"
  Enabled :: bool
  Groups :: "string slice"
  Name :: string
  Nameservers :: "netbirdApi_Nameserver slice"
  Primary :: bool
  SearchDomainsEnabled :: bool

record netbirdApi_PeerBatch =
  AccessiblePeersCount :: int
  ApprovalRequired :: bool
  CityName :: string
  Connected :: bool
  ConnectionIp :: string
  CountryCode :: string
  DnsLabel :: string
  ExtraDnsLabels :: "string slice"
  GeonameId :: int
  Groups :: "netbirdApi_GroupMinimum slice"
  Hostname :: string
  Id :: string
  InactivityExpirationEnabled :: bool
  Ip :: string
  KernelVersion :: string
  LastLogin :: go_time
  LastSeen :: go_time
  LoginExpirationEnabled :: bool
  LoginExpired :: bool
  Name :: string
  Os :: string
  SerialNumber :: string
  SshEnabled :: bool
  UiVersion :: string
  UserId :: string
  Version :: string

text \<open>The models of the data sources.\<close>

record PeerGroupDataSourceModel =
  ID :: tf_string
  Name :: tf_string
  PeersCount :: tf_int64
  ResourcesCount :: tf_int64
  Issued :: tf_string

record PeerDataSourceModel =
  ID :: tf_string
  Name :: tf_string
  IP :: tf_string
  ConnectionIP :: tf_string
  Connected :: tf_bool
  LastSeen :: tf_string
  OS :: tf_string
  KernelVersion :: tf_string
  GeonameID :: tf_int64
  Version :: tf_string
  Groups :: "PeerGroupDataSourceModel slice"
  SSHEnabled :: tf_bool
  UserID :: tf_string
  Hostname :: tf_string
  UIVersion :: tf_string
  DNSLabel :: tf_string
  LoginExpirationEnabled :: tf_bool
  LoginExpired :: tf_bool
  LastLogin :: tf_string
  InactivityExpirationEnabled :: tf_bool
  ApprovalRequired :: tf_bool
  CountryCode :: tf_string
  CityName :: tf_string
  SerialNumber :: tf_string
  ExtraDNSLabels :: "tf_string slice"
  AccessiblePeersCount :: tf_int64

record PeersDataSourceModel =
  Name :: tf_string
  IP :: tf_string
  Peers :: "PeerDataSourceModel slice"

text \<open>
  A value of type \<open>interface{}\<close> that \<open>json.Unmarshal\<close> puts into a map: a string, or
  something else.
\<close>

datatype go_any = AnyString string | AnyOther

text \<open>
  The library functions the other handlers call, as a second record of the world:
  \<open>json.Unmarshal\<close> of a response body into a map, a wire record or a slice of
  models; \<open>json.Marshal\<close> of a request record; \<open>ElementsAs\<close> of a list into a slice
  of strings; \<open>Encode\<close> of a \<open>url.Values\<close>; \<open>Time.String\<close>; and \<open>strconv.Quote\<close> without the
  two quotation marks that enclose its result.
\<close>

record lib =
  Unmarshal_map :: "string \<Rightarrow> go_error + (string \<rightharpoonup> go_any)"
  Unmarshal_NetworkRouter :: "string \<Rightarrow> go_error + netbirdApi_NetworkRouter"
  Unmarshal_NetworkResource :: "string \<Rightarrow> go_error + netbirdApi_NetworkResource"
  Unmarshal_Group :: "string \<Rightarrow> go_error + netbirdApi_Group"
  Unmarshal_DNSSettings :: "string \<Rightarrow> go_error + netbirdApi_DNSSettings"
  Unmarshal_Policy :: "string \<Rightarrow> go_error + netbirdApi_Policy"
  Unmarshal_PeerBatch :: "string \<Rightarrow> go_error + netbirdApi_PeerBatch"
  Unmarshal_PeerBatchList :: "string \<Rightarrow> go_error + netbirdApi_PeerBatch slice"
  Unmarshal_PeerModels :: "string \<Rightarrow> go_error + PeerDataSourceModel slice"
  Marshal_NetworkRouterRequest :: "netbirdApi_NetworkRouterRequest \<Rightarrow> go_error + json"
  Marshal_NetworkResourceRequest :: "netbirdApi_NetworkResourceRequest \<Rightarrow> go_error + json"
  Marshal_GroupRequest :: "netbirdApi_GroupRequest \<Rightarrow> go_error + json"
  Marshal_DNSSettings :: "netbirdApi_DNSSettings \<Rightarrow> go_error + json"
  Marshal_PolicyCreate :: "netbirdApi_PolicyCreate \<Rightarrow> go_error + json"
  Marshal_PolicyUpdate :: "netbirdApi_PolicyUpdate \<Rightarrow> go_error + json"
  Marshal_NameserverGroupRequest :: "netbirdApi_NameserverGroupRequest \<Rightarrow> go_error + json"
  ElementsAs :: "tf_list \<Rightarrow> diagnostics \<times> string slice"
  Values_Encode :: "(string \<times> string list) list \<Rightarrow> string"
  Time_String :: "go_time \<Rightarrow> string"
  Quote_inner :: "string \<Rightarrow> string"

text \<open>The bytes of a byte slice: none for the nil slice.\<close>

definition bytes :: "string option \<Rightarrow> string" where
  "bytes b = (case b of None \<Rightarrow> [] | Some bs \<Rightarrow> bs)"

text \<open>
  A handler that can panic ends with \<open>Panic\<close> and the message, or returns with
  \<open>Return\<close>.
\<close>

datatype 'a outcome = Panic string | Return 'a

text \<open>
  \<open>String()\<close> of a \<open>types.String\<close>: \<open><null>\<close>, \<open><unknown>\<close>, or the value quoted.
\<close>

definition String_of :: "lib \<Rightarrow> tf_string \<Rightarrow> string" where
  "String_of lb s =
     (case s of
        StringNull \<Rightarrow> ''<null>''
      | StringUnknown \<Rightarrow> ''<unknown>''
      | StringValue v \<Rightarrow> [CHR 0x22] @ Quote_inner lb v @ [CHR 0x22])"

subsection \<open>Network\<close>

text \<open>
  \<open>NetworkResource.Create\<close>.  The response starts with no state.  The type assertion
  \<open>responseData["id"].(string)\<close> panics when the map has no string under \<open>id\<close>.
\<close>

definition NetworkResource_Create ::
  "Client \<Rightarrow> sys \<Rightarrow> lib \<Rightarrow> NetworkResourceModel \<Rightarrow> diagnostics \<Rightarrow> call list \<Rightarrow>
   NetworkResourceModel Response outcome \<times> call list" where
  "NetworkResource_Create c w lb plan got log =
     (let data = plan;
          resp = \<lparr>Diagnostics = Append [] got, State = None\<rparr>
      in if HasError (Response.Diagnostics resp) then (Return resp, log)
         else
           let requestBody = JObject
                 [(''description'', JString (ValueString (NetworkResourceModel.Description data))),
                  (''name'', JString (ValueString (NetworkResourceModel.Name data)))];
               reqURL = BaseUrl c @ ''/api/networks''
           in case NewRequest w ''POST'' reqURL (Some requestBody) of
                Inl err \<Rightarrow>
                  (Return (resp\<lparr>Response.Diagnostics :=
                     AddError ''Error creating request'' (Error err) (Response.Diagnostics resp)\<rparr>), log)
              | Inr httpReq \<Rightarrow>
                  let httpReq = Header_Set ''Content-Type'' ''application/json'' httpReq
                  in case doRequest c w httpReq log of
                       ((responseBody, Some err), log) \<Rightarrow>
                         (Return (resp\<lparr>Response.Diagnostics :=
                            AddError ''Error making API request'' (Error err) (Response.Diagnostics resp)\<rparr>), log)
                     | ((responseBody, None), log) \<Rightarrow>
                         (case Unmarshal_map lb (bytes responseBody) of
                            Inl err \<Rightarrow>
                              (Return (resp\<lparr>Response.Diagnostics :=
                                 AddError ''Error parsing response'' (Error err) (Response.Diagnostics resp)\<rparr>), log)
                          | Inr responseData \<Rightarrow>
                              (case responseData ''id'' of
                                 Some (AnyString s) \<Rightarrow>
                                   let data = data\<lparr>NetworkResourceModel.ID := StringValue s\<rparr>
                                   in (case NetworkResource_readIntoModel c w data log of
                                         ((diags, data), log) \<Rightarrow>
                                           let resp = resp\<lparr>Response.Diagnostics :=
                                                        Append (Response.Diagnostics resp) diags\<rparr>
                                           in if HasError (Response.Diagnostics resp) then (Return resp, log)
                                              else (Return (resp\<lparr>State := Some data\<rparr>), log))
                               | _ \<Rightarrow> (Panic ''interface conversion: interface {} is not string'', log))))"

subsection \<open>Network router\<close>

definition modelToApiRequest ::
  "NetworkRouterResourceModel \<Rightarrow> netbirdApi_NetworkRouterRequest option \<times> diagnostics" where
  "modelToApiRequest data =
     (case convertListToStringSlice (NetworkRouterResourceModel.PeerGroups data) of
        (peerGroups, diags) \<Rightarrow>
          if HasError diags then (None, diags)
          else (Some \<lparr>netbirdApi_NetworkRouterRequest.Enabled = ValueBool (NetworkRouterResourceModel.Enabled data),
                      netbirdApi_NetworkRouterRequest.Masquerade = ValueBool (NetworkRouterResourceModel.Masquerade data),
                      netbirdApi_NetworkRouterRequest.Metric = ValueInt32 (NetworkRouterResourceModel.Metric data),
                      netbirdApi_NetworkRouterRequest.Peer = ValueStringPointer (NetworkRouterResourceModel.Peer data),
                      netbirdApi_NetworkRouterRequest.PeerGroups = Some peerGroups\<rparr>, diags))"

text \<open>\<open>NetworkRouterResource.readIntoModel\<close>; its callers pass a pointer that is not nil.\<close>

definition NetworkRouterResource_readIntoModel ::
  "Client \<Rightarrow> sys \<Rightarrow> lib \<Rightarrow> NetworkRouterResourceModel \<Rightarrow> call list \<Rightarrow>
   (diagnostics \<times> NetworkRouterResourceModel) \<times> call list" where
  "NetworkRouterResource_readIntoModel c w lb data log =
     (let diags = [];
          reqURL = BaseUrl c @ ''/api/networks/'' @ ValueString (NetworkRouterResourceModel.NetworkId data)
                     @ ''/routers/'' @ ValueString (NetworkRouterResourceModel.ID data)
      in case NewRequest w ''GET'' reqURL None of
           Inl err \<Rightarrow> ((AddError ''Error creating request'' (Error err) diags, data), log)
         | Inr httpReq \<Rightarrow>
             (case doRequest c w httpReq log of
                ((responseBody, Some err), log) \<Rightarrow>
                  ((AddError ''Error fetching network'' (Error err) diags, data), log)
              | ((None, None), log) \<Rightarrow>
                  ((diags, data\<lparr>NetworkRouterResourceModel.ID := StringNull\<rparr>), log)
              | ((Some body, None), log) \<Rightarrow>
                  (case Unmarshal_NetworkRouter lb body of
                     Inl err \<Rightarrow> ((AddError ''Error parsing response'' (Error err) diags, data), log)
                   | Inr responseData \<Rightarrow>
                       let data = data\<lparr>NetworkRouterResourceModel.Peer :=
                                    derefString (netbirdApi_NetworkRouter.Peer responseData)\<rparr>
                       in (case convertStringSliceToListValue
                                 (derefStringSlice (netbirdApi_NetworkRouter.PeerGroups responseData)) of
                             (peerGroups, diags) \<Rightarrow>
                               if HasError diags then ((diags, data), log)
                               else
                                 let data = data\<lparr>NetworkRouterResourceModel.PeerGroups := peerGroups\<rparr>;
                                     data = data\<lparr>NetworkRouterResourceModel.Metric :=
                                              Int32Value (int32 (netbirdApi_NetworkRouter.Metric responseData))\<rparr>;
                                     data = data\<lparr>NetworkRouterResourceModel.Enabled :=
                                              BoolValue (netbirdApi_NetworkRouter.Enabled responseData)\<rparr>;
                                     data = data\<lparr>NetworkRouterResourceModel.Masquerade :=
                                              BoolValue (netbirdApi_NetworkRouter.Masquerade responseData)\<rparr>
                                 in ((diags, data), log)))))"

definition NetworkRouterResource_Create ::
  "Client \<Rightarrow> sys \<Rightarrow> lib \<Rightarrow> NetworkRouterResourceModel \<Rightarrow> diagnostics \<Rightarrow> call list \<Rightarrow>
   NetworkRouterResourceModel Response \<times> call list" where
  "NetworkRouterResource_Create c w lb plan got log =
     (let data = plan;
          resp = \<lparr>Diagnostics = Append [] got, State = None\<rparr>
      in if HasError (Response.Diagnostics resp) then (resp, log)
         else
           (case modelToApiRequest data of
              (apiData, diags) \<Rightarrow>
                let resp = resp\<lparr>Response.Diagnostics := Append (Response.Diagnostics resp) diags\<rparr>
                in if HasError (Response.Diagnostics resp) then (resp, log)
                   else
                     (case apiData of
                        None \<Rightarrow>
                          (resp\<lparr>Response.Diagnostics :=
                             AddError ''nul pointer error'' ''Got nil pointer to NetworkRouterResourceModel''
                               (Response.Diagnostics resp)\<rparr>, log)
                      | Some apiData \<Rightarrow>
                          (case Marshal_NetworkRouterRequest lb apiData of
                             Inl err \<Rightarrow>
                               (resp\<lparr>Response.Diagnostics :=
                                  AddError ''Error marshaling request body'' (Error err) (Response.Diagnostics resp)\<rparr>, log)
                           | Inr requestBody \<Rightarrow>
                               let reqURL = BaseUrl c @ ''/api/networks/''
                                     @ ValueString (NetworkRouterResourceModel.NetworkId data) @ ''/routers''
                               in case NewRequest w ''POST'' reqURL (Some requestBody) of
                                    Inl err \<Rightarrow>
                                      (resp\<lparr>Response.Diagnostics :=
                                         AddError ''Error creating request'' (Error err) (Response.Diagnostics resp)\<rparr>, log)
                                  | Inr httpReq \<Rightarrow>
                                      let httpReq = Header_Set ''Content-Type'' ''application/json'' httpReq
                                      in case doRequest c w httpReq log of
                                           ((responseBody, Some err), log) \<Rightarrow>
                                             (resp\<lparr>Response.Diagnostics :=
                                                AddError ''Error making API request'' (Error err)
                                                  (Response.Diagnostics resp)\<rparr>, log)
                                         | ((responseBody, None), log) \<Rightarrow>
                                             (case Unmarshal_NetworkRouter lb (bytes responseBody) of
                                                Inl err \<Rightarrow>
                                                  (resp\<lparr>Response.Diagnostics :=
                                                     AddError ''Error parsing response'' (Error err)
                                                       (Response.Diagnostics resp)\<rparr>, log)
                                              | Inr responseData \<Rightarrow>
                                                  let data = data\<lparr>NetworkRouterResourceModel.ID :=
                                                               StringValue (netbirdApi_NetworkRouter.Id responseData)\<rparr>
                                                  in (case NetworkRouterResource_readIntoModel c w lb data log of
                                                        ((diags, data), log) \<Rightarrow>
                                                          let resp = resp\<lparr>Response.Diagnostics :=
                                                                       Append (Response.Diagnostics resp) diags\<rparr>
                                                          in if HasError (Response.Diagnostics resp) then (resp, log)
                                                             else (resp\<lparr>State := Some data\<rparr>, log)))))))"

definition NetworkRouterResource_Read ::
  "Client \<Rightarrow> sys \<Rightarrow> lib \<Rightarrow> NetworkRouterResourceModel \<Rightarrow> diagnostics \<Rightarrow> call list \<Rightarrow>
   NetworkRouterResourceModel Response \<times> call list" where
  "NetworkRouterResource_Read c w lb state got log =
     (let data = state;
          resp = \<lparr>Diagnostics = Append [] got, State = Some state\<rparr>
      in if HasError (Response.Diagnostics resp) then (resp, log)
         else
           (case NetworkRouterResource_readIntoModel c w lb data log of
              ((diags, data), log) \<Rightarrow>
                let resp = resp\<lparr>Response.Diagnostics := Append (Response.Diagnostics resp) diags\<rparr>
                in if HasError (Response.Diagnostics resp) then (resp, log)
                   else (resp\<lparr>State := Some data\<rparr>, log)))"

definition NetworkRouterResource_Update ::
  "Client \<Rightarrow> sys \<Rightarrow> lib \<Rightarrow> NetworkRouterResourceModel \<Rightarrow> diagnostics \<Rightarrow>
   NetworkRouterResourceModel \<Rightarrow> call list \<Rightarrow> NetworkRouterResourceModel Response \<times> call list" where
  "NetworkRouterResource_Update c w lb plan got state log =
     (let data = plan;
          resp = \<lparr>Diagnostics = Append [] got, State = Some state\<rparr>
      in if HasError (Response.Diagnostics resp) then (resp, log)
         else
           (case modelToApiRequest data of
              (apiData, diags) \<Rightarrow>
                let resp = resp\<lparr>Response.Diagnostics := Append (Response.Diagnostics resp) diags\<rparr>
                in if HasError (Response.Diagnostics resp) then (resp, log)
                   else
                     (case apiData of
                        None \<Rightarrow>
                          (resp\<lparr>Response.Diagnostics :=
                             AddError ''nul pointer error'' ''Got nil pointer to NetworkRouterResourceModel''
                               (Response.Diagnostics resp)\<rparr>, log)
                      | Some apiData \<Rightarrow>
                          (case Marshal_NetworkRouterRequest lb apiData of
                             Inl err \<Rightarrow>
                               (resp\<lparr>Response.Diagnostics :=
                                  AddError ''Error marshaling request body'' (Error err) (Response.Diagnostics resp)\<rparr>, log)
                           | Inr requestBody \<Rightarrow>
                               let reqURL = BaseUrl c @ ''/api/networks/''
                                     @ ValueString (NetworkRouterResourceModel.NetworkId data)
                                     @ ''/routers/'' @ ValueString (NetworkRouterResourceModel.ID data)
                               in case NewRequest w ''PUT'' reqURL (Some requestBody) of
                                    Inl err \<Rightarrow>
                                      (resp\<lparr>Response.Diagnostics :=
                                         AddError ''Error creating request'' (Error err) (Response.Diagnostics resp)\<rparr>, log)
                                  | Inr httpReq \<Rightarrow>
                                      let httpReq = Header_Set ''Content-Type'' ''application/json'' httpReq
                                      in case doRequest c w httpReq log of
                                           ((_, Some err), log) \<Rightarrow>
                                             (resp\<lparr>Response.Diagnostics :=
                                                AddError ''Error updating network'' (Error err)
                                                  (Response.Diagnostics resp)\<rparr>, log)
                                         | ((_, None), log) \<Rightarrow>
                                             (case NetworkRouterResource_readIntoModel c w lb data log of
                                                ((diags, data), log) \<Rightarrow>
                                                  let resp = resp\<lparr>Response.Diagnostics :=
                                                               Append (Response.Diagnostics resp) diags\<rparr>
                                                  in if HasError (Response.Diagnostics resp) then (resp, log)
                                                     else (resp\<lparr>State := Some data\<rparr>, log))))))"

subsection \<open>Network resource\<close>

definition convertGroupMinimumToIdList ::
  "netbirdApi_GroupMinimum slice option \<Rightarrow> tf_list \<times> diagnostics" where
  "convertGroupMinimumToIdList groupList =
     (let diags = []; idList = None
      in case groupList of
           None \<Rightarrow> (ListNull StringType, diags)
         | Some groups \<Rightarrow>
             convertStringSliceToListValue
               (foldl (\<lambda>acc group. append1 acc (netbirdApi_GroupMinimum.Id group)) idList (elems groups)))"

definition resourceModelToApiRequest ::
  "NetworkResourceResourceModel \<Rightarrow> netbirdApi_NetworkResourceRequest option \<times> diagnostics" where
  "resourceModelToApiRequest data =
     (case convertListToStringSlice (NetworkResourceResourceModel.PeerGroups data) of
        (peerGroups, diags) \<Rightarrow>
          if HasError diags then (None, diags)
          else (Some \<lparr>netbirdApi_NetworkResourceRequest.Address = ValueString (NetworkResourceResourceModel.Address data),
                      netbirdApi_NetworkResourceRequest.Description =
                        ValueStringPointer (NetworkResourceResourceModel.Description data),
                      netbirdApi_NetworkResourceRequest.Enabled = ValueBool (NetworkResourceResourceModel.Enabled data),
                      netbirdApi_NetworkResourceRequest.Groups = peerGroups,
                      netbirdApi_NetworkResourceRequest.Name = ValueString (NetworkResourceResourceModel.Name data)\<rparr>,
                diags))"

text \<open>\<open>NetworkResourceResource.readIntoModel\<close>; its callers pass a pointer that is not nil.\<close>

definition NetworkResourceResource_readIntoModel ::
  "Client \<Rightarrow> sys \<Rightarrow> lib \<Rightarrow> NetworkResourceResourceModel \<Rightarrow> call list \<Rightarrow>
   (diagnostics \<times> NetworkResourceResourceModel) \<times> call list" where
  "NetworkResourceResource_readIntoModel c w lb data log =
     (let diags = [];
          reqURL = BaseUrl c @ ''/api/networks/'' @ ValueString (NetworkResourceResourceModel.NetworkId data)
                     @ ''/resources/'' @ ValueString (NetworkResourceResourceModel.ID data)
      in case NewRequest w ''GET'' reqURL None of
           Inl err \<Rightarrow> ((AddError ''Error creating request'' (Error err) diags, data), log)
         | Inr httpReq \<Rightarrow>
             (case doRequest c w httpReq log of
                ((responseBody, Some err), log) \<Rightarrow>
                  ((AddError ''Error fetching network'' (Error err) diags, data), log)
              | ((None, None), log) \<Rightarrow>
                  ((diags, data\<lparr>NetworkResourceResourceModel.ID := StringNull\<rparr>), log)
              | ((Some body, None), log) \<Rightarrow>
                  (case Unmarshal_NetworkResource lb body of
                     Inl err \<Rightarrow> ((AddError ''Error parsing response'' (Error err) diags, data), log)
                   | Inr responseData \<Rightarrow>
                       let data = data\<lparr>NetworkResourceResourceModel.Name :=
                                    StringValue (netbirdApi_NetworkResource.Name responseData)\<rparr>;
                           data = data\<lparr>NetworkResourceResourceModel.Description :=
                                    derefString (netbirdApi_NetworkResource.Description responseData)\<rparr>
                       in (case convertGroupMinimumToIdList
                                 (Some (netbirdApi_NetworkResource.Groups responseData)) of
                             (peerGroups, diags) \<Rightarrow>
                               if HasError diags then ((diags, data), log)
                               else
                                 let data = data\<lparr>NetworkResourceResourceModel.PeerGroups := peerGroups\<rparr>;
                                     data = data\<lparr>NetworkResourceResourceModel.Address :=
                                              StringValue (netbirdApi_NetworkResource.Address responseData)\<rparr>;
                                     data = data\<lparr>NetworkResourceResourceModel.Enabled :=
                                              BoolValue (netbirdApi_NetworkResource.Enabled responseData)\<rparr>
                                 in ((diags, data), log)))))"

definition NetworkResourceResource_Create ::
  "Client \<Rightarrow> sys \<Rightarrow> lib \<Rightarrow> NetworkResourceResourceModel \<Rightarrow> diagnostics \<Rightarrow> call list \<Rightarrow>
   NetworkResourceResourceModel Response \<times> call list" where
  "NetworkResourceResource_Create c w lb plan got log =
     (let data = plan;
          resp = \<lparr>Diagnostics = Append [] got, State = None\<rparr>
      in if HasError (Response.Diagnostics resp) then (resp, log)
         else
           (case resourceModelToApiRequest data of
              (apiData, diags) \<Rightarrow>
                let resp = resp\<lparr>Response.Diagnostics := Append (Response.Diagnostics resp) diags\<rparr>
                in if HasError (Response.Diagnostics resp) then (resp, log)
                   else
                     (case apiData of
                        None \<Rightarrow>
                          (resp\<lparr>Response.Diagnostics :=
                             AddError ''nul pointer error'' ''Got nil pointer to NetworkResourceResourceModel''
                               (Response.Diagnostics resp)\<rparr>, log)
                      | Some apiData \<Rightarrow>
                          (case Marshal_NetworkResourceRequest lb apiData of
                             Inl err \<Rightarrow>
                               (resp\<lparr>Response.Diagnostics :=
                                  AddError ''Error marshaling request body'' (Error err) (Response.Diagnostics resp)\<rparr>, log)
                           | Inr requestBody \<Rightarrow>
                               let reqURL = BaseUrl c @ ''/api/networks/''
                                     @ ValueString (NetworkResourceResourceModel.NetworkId data) @ ''/resources''
                               in case NewRequest w ''POST'' reqURL (Some requestBody) of
                                    Inl err \<Rightarrow>
                                      (resp\<lparr>Response.Diagnostics :=
                                         AddError ''Error creating request'' (Error err) (Response.Diagnostics resp)\<rparr>, log)
                                  | Inr httpReq \<Rightarrow>
                                      let httpReq = Header_Set ''Content-Type'' ''application/json'' httpReq
                                      in case doRequest c w httpReq log of
                                           ((responseBody, Some err), log) \<Rightarrow>
                                             (resp\<lparr>Response.Diagnostics :=
                                                AddError ''Error making API request'' (Error err)
                                                  (Response.Diagnostics resp)\<rparr>, log)
                                         | ((responseBody, None), log) \<Rightarrow>
                                             (case Unmarshal_NetworkResource lb (bytes responseBody) of
                                                Inl err \<Rightarrow>
                                                  (resp\<lparr>Response.Diagnostics :=
                                                     AddError ''Error parsing response'' (Error err)
                                                       (Response.Diagnostics resp)\<rparr>, log)
                                              | Inr responseData \<Rightarrow>
                                                  let data = data\<lparr>NetworkResourceResourceModel.ID :=
                                                               StringValue (netbirdApi_NetworkResource.Id responseData)\<rparr>
                                                  in (case NetworkResourceResource_readIntoModel c w lb data log of
                                                        ((diags, data), log) \<Rightarrow>
                                                          let resp = resp\<lparr>Response.Diagnostics :=
                                                                       Append (Response.Diagnostics resp) diags\<rparr>
                                                          in if HasError (Response.Diagnostics resp) then (resp, log)
                                                             else (resp\<lparr>State := Some data\<rparr>, log)))))))"

definition NetworkResourceResource_Read ::
  "Client \<Rightarrow> sys \<Rightarrow> lib \<Rightarrow> NetworkResourceResourceModel \<Rightarrow> diagnostics \<Rightarrow> call list \<Rightarrow>
   NetworkResourceResourceModel Response \<times> call list" where
  "NetworkResourceResource_Read c w lb state got log =
     (let data = state;
          resp = \<lparr>Diagnostics = Append [] got, State = Some state\<rparr>
      in if HasError (Response.Diagnostics resp) then (resp, log)
         else
           (case NetworkResourceResource_readIntoModel c w lb data log of
              ((diags, data), log) \<Rightarrow>
                let resp = resp\<lparr>Response.Diagnostics := Append (Response.Diagnostics resp) diags\<rparr>
                in if HasError (Response.Diagnostics resp) then (resp, log)
                   else (resp\<lparr>State := Some data\<rparr>, log)))"

definition NetworkResourceResource_Update ::
  "Client \<Rightarrow> sys \<Rightarrow> lib \<Rightarrow> NetworkResourceResourceModel \<Rightarrow> diagnostics \<Rightarrow>
   NetworkResourceResourceModel \<Rightarrow> call list \<Rightarrow> NetworkResourceResourceModel Response \<times> call list" where
  "NetworkResourceResource_Update c w lb plan got state log =
     (let data = plan;
          resp = \<lparr>Diagnostics = Append [] got, State = Some state\<rparr>
      in if HasError (Response.Diagnostics resp) then (resp, log)
         else
           (case resourceModelToApiRequest data of
              (apiData, diags) \<Rightarrow>
                let resp = resp\<lparr>Response.Diagnostics := Append (Response.Diagnostics resp) diags\<rparr>
                in if HasError (Response.Diagnostics resp) then (resp, log)
                   else
                     (case apiData of
                        None \<Rightarrow>
                          (resp\<lparr>Response.Diagnostics :=
                             AddError ''nul pointer error'' ''Got nil pointer to NetworkResourceResourceModel''
                               (Response.Diagnostics resp)\<rparr>, log)
                      | Some apiData \<Rightarrow>
                          (case Marshal_NetworkResourceRequest lb apiData of
                             Inl err \<Rightarrow>
                               (resp\<lparr>Response.Diagnostics :=
                                  AddError ''Error marshaling request body'' (Error err) (Response.Diagnostics resp)\<rparr>, log)
                           | Inr requestBody \<Rightarrow>
                               let reqURL = BaseUrl c @ ''/api/networks/''
                                     @ ValueString (NetworkResourceResourceModel.NetworkId data)
                                     @ ''/resources/'' @ ValueString (NetworkResourceResourceModel.ID data)
                               in case NewRequest w ''PUT'' reqURL (Some requestBody) of
                                    Inl err \<Rightarrow>
                                      (resp\<lparr>Response.Diagnostics :=
                                         AddError ''Error creating request'' (Error err) (Response.Diagnostics resp)\<rparr>, log)
                                  | Inr httpReq \<Rightarrow>
                                      let httpReq = Header_Set ''Content-Type'' ''application/json'' httpReq
                                      in case doRequest c w httpReq log of
                                           ((_, Some err), log) \<Rightarrow>
                                             (resp\<lparr>Response.Diagnostics :=
                                                AddError ''Error updating network'' (Error err)
                                                  (Response.Diagnostics resp)\<rparr>, log)
                                         | ((_, None), log) \<Rightarrow>
                                             (case NetworkResourceResource_readIntoModel c w lb data log of
                                                ((diags, data), log) \<Rightarrow>
                                                  let resp = resp\<lparr>Response.Diagnostics :=
                                                               Append (Response.Diagnostics resp) diags\<rparr>
                                                  in if HasError (Response.Diagnostics resp) then (resp, log)
                                                     else (resp\<lparr>State := Some data\<rparr>, log))))))"

subsection \<open>Group\<close>

text \<open>
  \<open>GroupResource.Create\<close> and \<open>Update\<close> store the state whatever the diagnostics of
  \<open>types.ListValueFrom\<close> are; they do not take the name from the response.
\<close>

definition GroupResource_Create ::
  "Client \<Rightarrow> sys \<Rightarrow> lib \<Rightarrow> GroupResourceModel \<Rightarrow> diagnostics \<Rightarrow> call list \<Rightarrow>
   GroupResourceModel Response \<times> call list" where
  "GroupResource_Create c w lb plan got log =
     (let data = plan;
          resp = \<lparr>Diagnostics = Append [] got, State = None\<rparr>
      in if HasError (Response.Diagnostics resp) then (resp, log)
         else
           (case ElementsAs lb (GroupResourceModel.Peers data) of
              (diags, peersList) \<Rightarrow>
                let resp = resp\<lparr>Response.Diagnostics := Append (Response.Diagnostics resp) diags\<rparr>
                in if HasError (Response.Diagnostics resp) then (resp, log)
                   else
                     let resourcesList =
                           foldl (\<lambda>acc res. append1 acc
                                    \<lparr>netbirdApi_Resource.Id = ValueString (GroupResourceResourceModel.ID res),
                                     netbirdApi_Resource.Type = ValueString (GroupResourceResourceModel.Type res)\<rparr>)
                             None (elems (GroupResourceModel.Resources data))
                     in case Marshal_GroupRequest lb
                               \<lparr>netbirdApi_GroupRequest.Name = ValueString (GroupResourceModel.Name data),
                                netbirdApi_GroupRequest.Peers = Some peersList,
                                netbirdApi_GroupRequest.Resources = Some resourcesList\<rparr> of
                          Inl err \<Rightarrow>
                            (resp\<lparr>Response.Diagnostics :=
                               AddError ''Error marshaling request body'' (Error err) (Response.Diagnostics resp)\<rparr>, log)
                        | Inr requestBody \<Rightarrow>
                            let reqURL = BaseUrl c @ ''/api/groups''
                            in case NewRequest w ''POST'' reqURL (Some requestBody) of
                                 Inl err \<Rightarrow>
                                   (resp\<lparr>Response.Diagnostics :=
                                      AddError ''Error creating request'' (Error err) (Response.Diagnostics resp)\<rparr>, log)
                               | Inr httpReq \<Rightarrow>
                                   let httpReq = Header_Set ''Content-Type'' ''application/json'' httpReq
                                   in case doRequest c w httpReq log of
                                        ((responseBody, Some err), log) \<Rightarrow>
                                          (resp\<lparr>Response.Diagnostics :=
                                             AddError ''Error creating group'' (Error err) (Response.Diagnostics resp)\<rparr>, log)
                                      | ((responseBody, None), log) \<Rightarrow>
                                          (case Unmarshal_Group lb (bytes responseBody) of
                                             Inl err \<Rightarrow>
                                               (resp\<lparr>Response.Diagnostics :=
                                                  AddError ''Error parsing response'' (Error err)
                                                    (Response.Diagnostics resp)\<rparr>, log)
                                           | Inr responseData \<Rightarrow>
                                               (let data = data\<lparr>GroupResourceModel.ID := StringValue (netbirdApi_Group.Id responseData)\<rparr>;
                                          data = data\<lparr>GroupResourceModel.PeersCount := Int64Value (netbirdApi_Group.PeersCount responseData)\<rparr>;
                                          data = data\<lparr>GroupResourceModel.ResourcesCount :=
                                                   Int64Value (netbirdApi_Group.ResourcesCount responseData)\<rparr>;
                                          data = (case netbirdApi_Group.Issued responseData of
                                                    Some issued \<Rightarrow> data\<lparr>GroupResourceModel.Issued := StringValue issued\<rparr>
                                                  | None \<Rightarrow> data);
                                          updatedPeersList = foldl (\<lambda>acc peer. append1 acc (netbirdApi_PeerMinimum.Id peer)) None
                                                               (elems (netbirdApi_Group.Peers responseData));
                                          peers = ListValueFrom updatedPeersList;
                                          data = data\<lparr>GroupResourceModel.Peers := fst peers\<rparr>;
                                          resp = resp\<lparr>Response.Diagnostics := Append (Response.Diagnostics resp) (snd peers)\<rparr>;
                                          updatedResourcesList =
                                            foldl (\<lambda>acc res. append1 acc
                                                     \<lparr>GroupResourceResourceModel.ID = StringValue (netbirdApi_Resource.Id res),
                                                      GroupResourceResourceModel.Type = StringValue (netbirdApi_Resource.Type res)\<rparr>)
                                              None (elems (netbirdApi_Group.Resources responseData));
                                          data = data\<lparr>GroupResourceModel.Resources := updatedResourcesList\<rparr>
                                      in (resp\<lparr>State := Some data\<rparr>, log)))))"

definition GroupResource_Update ::
  "Client \<Rightarrow> sys \<Rightarrow> lib \<Rightarrow> GroupResourceModel \<Rightarrow> diagnostics \<Rightarrow> GroupResourceModel \<Rightarrow> call list \<Rightarrow>
   GroupResourceModel Response \<times> call list" where
  "GroupResource_Update c w lb plan got state log =
     (let data = plan;
          resp = \<lparr>Diagnostics = Append [] got, State = Some state\<rparr>
      in if HasError (Response.Diagnostics resp) then (resp, log)
         else
           (case ElementsAs lb (GroupResourceModel.Peers data) of
              (diags, peersList) \<Rightarrow>
                let resp = resp\<lparr>Response.Diagnostics := Append (Response.Diagnostics resp) diags\<rparr>
                in if HasError (Response.Diagnostics resp) then (resp, log)
                   else
                     let resourcesList =
                           foldl (\<lambda>acc res. append1 acc
                                    \<lparr>netbirdApi_Resource.Id = ValueString (GroupResourceResourceModel.ID res),
                                     netbirdApi_Resource.Type = ValueString (GroupResourceResourceModel.Type res)\<rparr>)
                             None (elems (GroupResourceModel.Resources data))
                     in case Marshal_GroupRequest lb
                               \<lparr>netbirdApi_GroupRequest.Name = ValueString (GroupResourceModel.Name data),
                                netbirdApi_GroupRequest.Peers = Some peersList,
                                netbirdApi_GroupRequest.Resources = Some resourcesList\<rparr> of
                          Inl err \<Rightarrow>
                            (resp\<lparr>Response.Diagnostics :=
                               AddError ''Error marshaling request body'' (Error err) (Response.Diagnostics resp)\<rparr>, log)
                        | Inr requestBody \<Rightarrow>
                            let reqURL = BaseUrl c @ ''/api/groups/'' @ ValueString (GroupResourceModel.ID data)
                            in case NewRequest w ''PUT'' reqURL (Some requestBody) of
                                 Inl err \<Rightarrow>
                                   (resp\<lparr>Response.Diagnostics :=
                                      AddError ''Error creating request'' (Error err) (Response.Diagnostics resp)\<rparr>, log)
                               | Inr httpReq \<Rightarrow>
                                   let httpReq = Header_Set ''Content-Type'' ''application/json'' httpReq
                                   in case doRequest c w httpReq log of
                                        ((responseBody, Some err), log) \<Rightarrow>
                                          (resp\<lparr>Response.Diagnostics :=
                                             AddError ''Error updating group'' (Error err) (Response.Diagnostics resp)\<rparr>, log)
                                      | ((responseBody, None), log) \<Rightarrow>
                                          (case Unmarshal_Group lb (bytes responseBody) of
                                             Inl err \<Rightarrow>
                                               (resp\<lparr>Response.Diagnostics :=
                                                  AddError ''Error parsing response'' (Error err)
                                                    (Response.Diagnostics resp)\<rparr>, log)
                                           | Inr responseData \<Rightarrow>
                                               (let data = data\<lparr>GroupResourceModel.ID := StringValue (netbirdApi_Group.Id responseData)\<rparr>;
                                          data = data\<lparr>GroupResourceModel.PeersCount := Int64Value (netbirdApi_Group.PeersCount responseData)\<rparr>;
                                          data = data\<lparr>GroupResourceModel.ResourcesCount :=
                                                   Int64Value (netbirdApi_Group.ResourcesCount responseData)\<rparr>;
                                          data = (case netbirdApi_Group.Issued responseData of
                                                    Some issued \<Rightarrow> data\<lparr>GroupResourceModel.Issued := StringValue issued\<rparr>
                                                  | None \<Rightarrow> data);
                                          updatedPeersList = foldl (\<lambda>acc peer. append1 acc (netbirdApi_PeerMinimum.Id peer)) None
                                                               (elems (netbirdApi_Group.Peers responseData));
                                          peers = ListValueFrom updatedPeersList;
                                          data = data\<lparr>GroupResourceModel.Peers := fst peers\<rparr>;
                                          resp = resp\<lparr>Response.Diagnostics := Append (Response.Diagnostics resp) (snd peers)\<rparr>;
                                          updatedResourcesList =
                                            foldl (\<lambda>acc res. append1 acc
                                                     \<lparr>GroupResourceResourceModel.ID = StringValue (netbirdApi_Resource.Id res),
                                                      GroupResourceResourceModel.Type = StringValue (netbirdApi_Resource.Type res)\<rparr>)
                                              None (elems (netbirdApi_Group.Resources responseData));
                                          data = data\<lparr>GroupResourceModel.Resources := updatedResourcesList\<rparr>
                                      in (resp\<lparr>State := Some data\<rparr>, log)))))"

text \<open>
  \<open>GroupResource.Read\<close>.  In the branch for a nil body the identifier is set on the
  local \<open>data\<close> only: the handler returns without storing it.
\<close>

definition GroupResource_Read ::
  "Client \<Rightarrow> sys \<Rightarrow> lib \<Rightarrow> GroupResourceModel \<Rightarrow> diagnostics \<Rightarrow> call list \<Rightarrow>
   GroupResourceModel Response \<times> call list" where
  "GroupResource_Read c w lb state got log =
     (let data = state;
          resp = \<lparr>Diagnostics = Append [] got, State = Some state\<rparr>
      in if HasError (Response.Diagnostics resp) then (resp, log)
         else
           let reqURL = BaseUrl c @ ''/api/groups/'' @ ValueString (GroupResourceModel.ID data)
           in case NewRequest w ''GET'' reqURL None of
                Inl err \<Rightarrow>
                  (resp\<lparr>Response.Diagnostics :=
                     AddError ''Error creating request'' (Error err) (Response.Diagnostics resp)\<rparr>, log)
              | Inr httpReq \<Rightarrow>
                  (case doRequest c w httpReq log of
                     ((responseBody, Some err), log) \<Rightarrow>
                       (resp\<lparr>Response.Diagnostics :=
                          AddError ''Error fetching group'' (Error err) (Response.Diagnostics resp)\<rparr>, log)
                   | ((None, None), log) \<Rightarrow> (resp, log)
                   | ((Some body, None), log) \<Rightarrow>
                       (case Unmarshal_Group lb body of
                          Inl err \<Rightarrow>
                            (resp\<lparr>Response.Diagnostics :=
                               AddError ''Error parsing response'' (Error err) (Response.Diagnostics resp)\<rparr>, log)
                        | Inr responseData \<Rightarrow>
                            (let data = data\<lparr>GroupResourceModel.Name := StringValue (netbirdApi_Group.Name responseData)\<rparr>;
                                 data = data\<lparr>GroupResourceModel.PeersCount :=
                                          Int64Value (netbirdApi_Group.PeersCount responseData)\<rparr>;
                                 data = data\<lparr>GroupResourceModel.ResourcesCount :=
                                          Int64Value (netbirdApi_Group.ResourcesCount responseData)\<rparr>;
                                 data = (case netbirdApi_Group.Issued responseData of
                                           Some issued \<Rightarrow> data\<lparr>GroupResourceModel.Issued := StringValue issued\<rparr>
                                         | None \<Rightarrow> data);
                                 peersList = foldl (\<lambda>acc peer. append1 acc (netbirdApi_PeerMinimum.Id peer)) None
                                               (elems (netbirdApi_Group.Peers responseData));
                                 peers = ListValueFrom peersList;
                                 data = data\<lparr>GroupResourceModel.Peers := fst peers\<rparr>;
                                 resp = resp\<lparr>Response.Diagnostics :=
                                          Append (Response.Diagnostics resp) (snd peers)\<rparr>;
                                 resourcesList =
                                   foldl (\<lambda>acc res. append1 acc
                                            \<lparr>GroupResourceResourceModel.ID = StringValue (netbirdApi_Resource.Id res),
                                             GroupResourceResourceModel.Type = StringValue (netbirdApi_Resource.Type res)\<rparr>)
                                     None (elems (netbirdApi_Group.Resources responseData));
                                 data = data\<lparr>GroupResourceModel.Resources := resourcesList\<rparr>
                             in (resp\<lparr>State := Some data\<rparr>, log)))))"

subsection \<open>DNS settings\<close>

definition dnsSettingsModelToApi :: "DnsSettingsResourceModel \<Rightarrow> netbirdApi_DNSSettings \<times> diagnostics" where
  "dnsSettingsModelToApi data =
     (case convertListToStringSlice (DnsSettingsResourceModel.DisabledManagementGroups data) of
        (groups, diags) \<Rightarrow> (\<lparr>netbirdApi_DNSSettings.DisabledManagementGroups = groups\<rparr>, diags))"

text \<open>\<open>updateDnsSettings\<close>: the body of the response, or nil with the diagnostics.\<close>

definition updateDnsSettings ::
  "Client \<Rightarrow> sys \<Rightarrow> lib \<Rightarrow> DnsSettingsResourceModel \<Rightarrow> call list \<Rightarrow>
   (string option \<times> diagnostics) \<times> call list" where
  "updateDnsSettings c w lb data log =
     (case dnsSettingsModelToApi data of
        (apiModel, diags) \<Rightarrow>
          if HasError diags then ((None, diags), log)
          else
            (case Marshal_DNSSettings lb apiModel of
               Inl err \<Rightarrow> ((None, AddError ''Error marshaling request body'' (Error err) diags), log)
             | Inr requestBody \<Rightarrow>
                 let reqURL = BaseUrl c @ ''/api/dns/settings''
                 in case NewRequest w ''PUT'' reqURL (Some requestBody) of
                      Inl err \<Rightarrow> ((None, AddError ''Error creating request'' (Error err) diags), log)
                    | Inr httpReq \<Rightarrow>
                        let httpReq = Header_Set ''Content-Type'' ''application/json'' httpReq
                        in case doRequest c w httpReq log of
                             ((responseBody, Some err), log) \<Rightarrow>
                               ((None, AddError ''Error making API request'' (Error err) diags), log)
                           | ((responseBody, None), log) \<Rightarrow> ((responseBody, diags), log)))"

definition readDnsSettingsIntoModel ::
  "Client \<Rightarrow> sys \<Rightarrow> lib \<Rightarrow> DnsSettingsResourceModel \<Rightarrow> call list \<Rightarrow>
   (diagnostics \<times> DnsSettingsResourceModel) \<times> call list" where
  "readDnsSettingsIntoModel c w lb data log =
     (let diags = [];
          reqURL = BaseUrl c @ ''/api/dns/settings''
      in case NewRequest w ''GET'' reqURL None of
           Inl err \<Rightarrow> ((AddError ''Error creating request'' (Error err) diags, data), log)
         | Inr httpReq \<Rightarrow>
             (case doRequest c w httpReq log of
                ((responseBody, Some err), log) \<Rightarrow>
                  ((AddError ''Error fetching network'' (Error err) diags, data), log)
              | ((None, None), log) \<Rightarrow>
                  ((diags, data\<lparr>DnsSettingsResourceModel.ID := StringNull\<rparr>), log)
              | ((Some body, None), log) \<Rightarrow>
                  (case Unmarshal_DNSSettings lb body of
                     Inl err \<Rightarrow> ((AddError ''Error parsing response'' (Error err) diags, data), log)
                   | Inr responseData \<Rightarrow>
                       (case ListValueFrom (netbirdApi_DNSSettings.DisabledManagementGroups responseData) of
                          (disabledManagementGroups, newDiags) \<Rightarrow>
                            ((Append diags newDiags,
                              data\<lparr>DnsSettingsResourceModel.DisabledManagementGroups :=
                                     disabledManagementGroups\<rparr>), log)))))"

text \<open>
  \<open>DnsSettingsResource.Create\<close>: the response of the update is decoded into a map
  that is not used, the identifier is the constant \<open>dns-settings\<close>, and the settings
  are read back.
\<close>

definition DnsSettingsResource_Create ::
  "Client \<Rightarrow> sys \<Rightarrow> lib \<Rightarrow> DnsSettingsResourceModel \<Rightarrow> diagnostics \<Rightarrow> call list \<Rightarrow>
   DnsSettingsResourceModel Response \<times> call list" where
  "DnsSettingsResource_Create c w lb plan got log =
     (let data = plan;
          resp = \<lparr>Diagnostics = Append [] got, State = None\<rparr>
      in if HasError (Response.Diagnostics resp) then (resp, log)
         else
           (case updateDnsSettings c w lb data log of
              ((responseBody, diags), log) \<Rightarrow>
                let resp = resp\<lparr>Response.Diagnostics := Append (Response.Diagnostics resp) diags\<rparr>
                in if HasError (Response.Diagnostics resp) then (resp, log)
                   else
                     (case Unmarshal_map lb (bytes responseBody) of
                        Inl err \<Rightarrow>
                          (resp\<lparr>Response.Diagnostics :=
                             AddError ''Error parsing response'' (Error err) (Response.Diagnostics resp)\<rparr>, log)
                      | Inr responseData \<Rightarrow>
                          let data = data\<lparr>DnsSettingsResourceModel.ID := StringValue ''dns-settings''\<rparr>
                          in case readDnsSettingsIntoModel c w lb data log of
                               ((diags, data), log) \<Rightarrow>
                                 let resp = resp\<lparr>Response.Diagnostics :=
                                              Append (Response.Diagnostics resp) diags\<rparr>
                                 in if HasError (Response.Diagnostics resp) then (resp, log)
                                    else (resp\<lparr>State := Some data\<rparr>, log))))"

definition DnsSettingsResource_Read ::
  "Client \<Rightarrow> sys \<Rightarrow> lib \<Rightarrow> DnsSettingsResourceModel \<Rightarrow> diagnostics \<Rightarrow> call list \<Rightarrow>
   DnsSettingsResourceModel Response \<times> call list" where
  "DnsSettingsResource_Read c w lb state got log =
     (let data = state;
          resp = \<lparr>Diagnostics = Append [] got, State = Some state\<rparr>
      in if HasError (Response.Diagnostics resp) then (resp, log)
         else
           (case readDnsSettingsIntoModel c w lb data log of
              ((diags, data), log) \<Rightarrow>
                let resp = resp\<lparr>Response.Diagnostics := Append (Response.Diagnostics resp) diags\<rparr>
                in if HasError (Response.Diagnostics resp) then (resp, log)
                   else (resp\<lparr>State := Some data\<rparr>, log)))"

definition DnsSettingsResource_Update ::
  "Client \<Rightarrow> sys \<Rightarrow> lib \<Rightarrow> DnsSettingsResourceModel \<Rightarrow> diagnostics \<Rightarrow> DnsSettingsResourceModel \<Rightarrow> call list \<Rightarrow>
   DnsSettingsResourceModel Response \<times> call list" where
  "DnsSettingsResource_Update c w lb plan got state log =
     (let data = plan;
          resp = \<lparr>Diagnostics = Append [] got, State = Some state\<rparr>
      in if HasError (Response.Diagnostics resp) then (resp, log)
         else
           (case updateDnsSettings c w lb data log of
              ((responseBody, diags), log) \<Rightarrow>
                let resp = resp\<lparr>Response.Diagnostics := Append (Response.Diagnostics resp) diags\<rparr>
                in if HasError (Response.Diagnostics resp) then (resp, log)
                   else
                     (case readDnsSettingsIntoModel c w lb data log of
                        ((diags, data), log) \<Rightarrow>
                          let resp = resp\<lparr>Response.Diagnostics :=
                                       Append (Response.Diagnostics resp) diags\<rparr>
                          in if HasError (Response.Diagnostics resp) then (resp, log)
                             else (resp\<lparr>State := Some data\<rparr>, log))))"

subsection \<open>Policy\<close>

definition convertResourceModel :: "netbirdApi_Resource option \<Rightarrow> ResourceModel option" where
  "convertResourceModel resource =
     (case resource of
        None \<Rightarrow> None
      | Some r \<Rightarrow> Some \<lparr>ResourceModel.ID = StringValue (netbirdApi_Resource.Id r),
                         ResourceModel.Type = StringValue (netbirdApi_Resource.Type r)\<rparr>)"

definition convertPortRangesToList :: "netbirdApi_RulePortRange slice option \<Rightarrow> PortRangeModel slice" where
  "convertPortRangesToList portRanges =
     (let terraformPortRanges = None
      in case portRanges of
           None \<Rightarrow> None
         | Some ranges \<Rightarrow>
             foldl (\<lambda>acc portRange. append1 acc
                      \<lparr>PortRangeModel.Start = Int32Value (int32 (netbirdApi_RulePortRange.Start portRange)),
                       PortRangeModel.End = Int32Value (int32 (netbirdApi_RulePortRange.End portRange))\<rparr>)
               terraformPortRanges (elems ranges))"

text \<open>
  The loop of \<open>convertRulesFromAPI\<close>.  The body declares a \<open>diags\<close> of its own with
  \<open>ports, diags := ...\<close>, written \<open>diags'\<close> here; the \<open>diags\<close> that the function
  returns after the loop is the one declared before it, which nothing assigns.
\<close>

fun convertRulesFromAPI_loop ::
  "netbirdApi_PolicyRule list \<Rightarrow> PolicyRuleModel slice \<Rightarrow> diagnostics \<Rightarrow>
   PolicyRuleModel slice \<times> diagnostics" where
  "convertRulesFromAPI_loop [] rules diags = (rules, diags)"
| "convertRulesFromAPI_loop (dataRule # rest) rules diags =
     (case convertStringSliceToListValue (derefStringSlice (netbirdApi_PolicyRule.Ports dataRule)) of (ports, diags') \<Rightarrow>
      if HasError diags' then (rules, diags') else
      case convertGroupMinimumToIdList (netbirdApi_PolicyRule.Sources dataRule) of (sources, diags') \<Rightarrow>
      if HasError diags' then (rules, diags') else
      case convertGroupMinimumToIdList (netbirdApi_PolicyRule.Destinations dataRule) of (destinations, diags') \<Rightarrow>
      if HasError diags' then (rules, diags') else
      convertRulesFromAPI_loop rest
        (append1 rules
           \<lparr>PolicyRuleModel.ID = derefString (netbirdApi_PolicyRule.Id dataRule),
            PolicyRuleModel.Name = StringValue (netbirdApi_PolicyRule.Name dataRule),
            PolicyRuleModel.Description = derefString (netbirdApi_PolicyRule.Description dataRule),
            PolicyRuleModel.Enabled = BoolValue (netbirdApi_PolicyRule.Enabled dataRule),
            PolicyRuleModel.Action = StringValue (netbirdApi_PolicyRule.Action dataRule),
            PolicyRuleModel.Bidirectional = BoolValue (netbirdApi_PolicyRule.Bidirectional dataRule),
            PolicyRuleModel.Protocol = StringValue (netbirdApi_PolicyRule.Protocol dataRule),
            PolicyRuleModel.Ports = ports,
            PolicyRuleModel.PortRanges = convertPortRangesToList (netbirdApi_PolicyRule.PortRanges dataRule),
            PolicyRuleModel.Sources = sources,
            PolicyRuleModel.Destinations = destinations,
            PolicyRuleModel.SourceResource = convertResourceModel (netbirdApi_PolicyRule.SourceResource dataRule),
            PolicyRuleModel.DestinationResource =
              convertResourceModel (netbirdApi_PolicyRule.DestinationResource dataRule)\<rparr>)
        diags)"

definition convertRulesFromAPI ::
  "netbirdApi_PolicyRule slice option \<Rightarrow> PolicyRuleModel slice \<times> diagnostics" where
  "convertRulesFromAPI data =
     (let rules = None; diags = []
      in case data of
           None \<Rightarrow> (rules, diags)
         | Some dataRules \<Rightarrow> convertRulesFromAPI_loop (elems dataRules) rules diags)"

text \<open>
  \<open>convertPolicyFromApiModel\<close> starts from the zero value of \<open>PolicyModel\<close>: null
  strings, a null boolean, the null list with no element type and no rules.
\<close>

definition convertPolicyFromApiModel :: "netbirdApi_Policy \<Rightarrow> PolicyModel \<times> diagnostics" where
  "convertPolicyFromApiModel data =
     (let diags = ([] :: diagnostics);
          policyModel = \<lparr>PolicyModel.ID = StringNull, PolicyModel.Name = StringNull,
                         PolicyModel.Description = StringNull, PolicyModel.Enabled = BoolNull,
                         PolicyModel.SourcePostureChecks = ListNull NoType, PolicyModel.Rules = None\<rparr>;
          policyModel = policyModel\<lparr>PolicyModel.ID := derefString (netbirdApi_Policy.Id data)\<rparr>;
          policyModel = policyModel\<lparr>PolicyModel.Name := StringValue (netbirdApi_Policy.Name data)\<rparr>;
          policyModel = policyModel\<lparr>PolicyModel.Description := derefString (netbirdApi_Policy.Description data)\<rparr>;
          policyModel = policyModel\<lparr>PolicyModel.Enabled := BoolValue (netbirdApi_Policy.Enabled data)\<rparr>;
          sourcePostureChecks =
            foldl (\<lambda>acc val. append1 acc (StringV (StringValue val))) None
              (elems (netbirdApi_Policy.SourcePostureChecks data))
      in case ListValue StringType (elems sourcePostureChecks) of
           (sourcePostureChecksListValue, diags) \<Rightarrow>
             if HasError diags then (policyModel, diags)
             else
               let policyModel = policyModel\<lparr>PolicyModel.SourcePostureChecks := sourcePostureChecksListValue\<rparr>
               in case convertRulesFromAPI (Some (netbirdApi_Policy.Rules data)) of
                    (rules, diags) \<Rightarrow>
                      if HasError diags then (policyModel, diags)
                      else (policyModel\<lparr>PolicyModel.Rules := rules\<rparr>, diags))"

text \<open>
  \<open>PolicyResource.Create\<close> and \<open>Update\<close>.  The call of \<open>tflog.Info\<close> writes the body
  to the log of the plugin and is left out.  After \<open>convertPolicyFromApiModel\<close> the
  handler tests the diagnostics of that call, not those of the response.
\<close>

definition PolicyResource_Create ::
  "Client \<Rightarrow> sys \<Rightarrow> lib \<Rightarrow> PolicyModel \<Rightarrow> diagnostics \<Rightarrow> call list \<Rightarrow>
   PolicyModel Response \<times> call list" where
  "PolicyResource_Create c w lb plan got log =
     (let data = plan;
          resp = \<lparr>Diagnostics = Append [] got, State = None\<rparr>
      in if HasError (Response.Diagnostics resp) then (resp, log)
         else
           (case convertListToStringSlice (PolicyModel.SourcePostureChecks data) of
              (sourcePostureChecks, diags) \<Rightarrow>
                let resp = resp\<lparr>Response.Diagnostics := Append (Response.Diagnostics resp) diags\<rparr>
                in if HasError (Response.Diagnostics resp) then (resp, log)
                   else
                     (case convertToRulesUpdateApiModel (Some (PolicyModel.Rules data)) of
                        (rules, diags) \<Rightarrow>
                          let resp = resp\<lparr>Response.Diagnostics := Append (Response.Diagnostics resp) diags\<rparr>
                          in if HasError (Response.Diagnostics resp) then (resp, log)
                             else
                               let policy =
                                     \<lparr>netbirdApi_PolicyCreate.Description = ValueStringPointer (PolicyModel.Description data),
                                      netbirdApi_PolicyCreate.Enabled = ValueBool (PolicyModel.Enabled data),
                                      netbirdApi_PolicyCreate.Name = ValueString (PolicyModel.Name data),
                                      netbirdApi_PolicyCreate.Rules = rules,
                                      netbirdApi_PolicyCreate.SourcePostureChecks = Some sourcePostureChecks\<rparr>
                               in case Marshal_PolicyCreate lb policy of
                                    Inl err \<Rightarrow>
                                      (resp\<lparr>Response.Diagnostics :=
                                         AddError ''JSON Encoding Error'' (Error err) (Response.Diagnostics resp)\<rparr>, log)
                                  | Inr jsonData \<Rightarrow>
                                      (case NewRequest w ''POST'' (BaseUrl c @ ''/api/policies'') (Some jsonData) of
                                         Inl err \<Rightarrow>
                                           (resp\<lparr>Response.Diagnostics :=
                                              AddError ''Request Creation Error'' (Error err)
                                                (Response.Diagnostics resp)\<rparr>, log)
                                       | Inr request \<Rightarrow>
                                           let request = Header_Set ''Content-Type'' ''application/json'' request
                                           in case doRequest c w request log of
                                                ((body, Some err), log) \<Rightarrow>
                                                  (resp\<lparr>Response.Diagnostics :=
                                                     AddError ''API Error'' (Error err) (Response.Diagnostics resp)\<rparr>, log)
                                              | ((body, None), log) \<Rightarrow>
                                                  (case Unmarshal_Policy lb (bytes body) of
                                                     Inl err \<Rightarrow>
                                                       (resp\<lparr>Response.Diagnostics :=
                                                          AddError ''JSON Decoding Error'' (Error err)
                                                            (Response.Diagnostics resp)\<rparr>, log)
                                                   | Inr createdPolicy \<Rightarrow>
                                                       (case convertPolicyFromApiModel createdPolicy of
                                                          (data, diags) \<Rightarrow>
                                                            let resp = resp\<lparr>Response.Diagnostics :=
                                                                         Append (Response.Diagnostics resp) diags\<rparr>
                                                            in if HasError diags then (resp, log)
                                                               else (resp\<lparr>State := Some data\<rparr>, log)))))))"

definition PolicyResource_Update ::
  "Client \<Rightarrow> sys \<Rightarrow> lib \<Rightarrow> PolicyModel \<Rightarrow> diagnostics \<Rightarrow> PolicyModel \<Rightarrow> call list \<Rightarrow>
   PolicyModel Response \<times> call list" where
  "PolicyResource_Update c w lb plan got state log =
     (let data = plan;
          resp = \<lparr>Diagnostics = Append [] got, State = Some state\<rparr>
      in if HasError (Response.Diagnostics resp) then (resp, log)
         else
           (case convertListToStringSlice (PolicyModel.SourcePostureChecks data) of
              (sourcePostureChecks, diags) \<Rightarrow>
                let resp = resp\<lparr>Response.Diagnostics := Append (Response.Diagnostics resp) diags\<rparr>
                in if HasError (Response.Diagnostics resp) then (resp, log)
                   else
                     (case convertToRulesUpdateApiModel (Some (PolicyModel.Rules data)) of
                        (rules, diags) \<Rightarrow>
                          let resp = resp\<lparr>Response.Diagnostics := Append (Response.Diagnostics resp) diags\<rparr>
                          in if HasError (Response.Diagnostics resp) then (resp, log)
                             else
                               let policy =
                                     \<lparr>netbirdApi_PolicyUpdate.Description = ValueStringPointer (PolicyModel.Description data),
                                      netbirdApi_PolicyUpdate.Enabled = ValueBool (PolicyModel.Enabled data),
                                      netbirdApi_PolicyUpdate.Name = ValueString (PolicyModel.Name data),
                                      netbirdApi_PolicyUpdate.Rules = rules,
                                      netbirdApi_PolicyUpdate.SourcePostureChecks = Some sourcePostureChecks\<rparr>
                               in case Marshal_PolicyUpdate lb policy of
                                    Inl err \<Rightarrow>
                                      (resp\<lparr>Response.Diagnostics :=
                                         AddError ''JSON Encoding Error'' (Error err) (Response.Diagnostics resp)\<rparr>, log)
                                  | Inr jsonData \<Rightarrow>
                                      (case NewRequest w ''PUT'' (BaseUrl c @ ''/api/policies/'' @ ValueString (PolicyModel.ID data)) (Some jsonData) of
                                         Inl err \<Rightarrow>
                                           (resp\<lparr>Response.Diagnostics :=
                                              AddError ''Request Creation Error'' (Error err)
                                                (Response.Diagnostics resp)\<rparr>, log)
                                       | Inr request \<Rightarrow>
                                           let request = Header_Set ''Content-Type'' ''application/json'' request
                                           in case doRequest c w request log of
                                                ((body, Some err), log) \<Rightarrow>
                                                  (resp\<lparr>Response.Diagnostics :=
                                                     AddError ''API Error'' (Error err) (Response.Diagnostics resp)\<rparr>, log)
                                              | ((body, None), log) \<Rightarrow>
                                                  (case Unmarshal_Policy lb (bytes body) of
                                                     Inl err \<Rightarrow>
                                                       (resp\<lparr>Response.Diagnostics :=
                                                          AddError ''JSON Decoding Error'' (Error err)
                                                            (Response.Diagnostics resp)\<rparr>, log)
                                                   | Inr createdPolicy \<Rightarrow>
                                                       (case convertPolicyFromApiModel createdPolicy of
                                                          (data, diags) \<Rightarrow>
                                                            let resp = resp\<lparr>Response.Diagnostics :=
                                                                         Append (Response.Diagnostics resp) diags\<rparr>
                                                            in if HasError diags then (resp, log)
                                                               else (resp\<lparr>State := Some data\<rparr>, log)))))))"

text \<open>
  \<open>PolicyResource.Read\<close>.  For a nil body the identifier is set on the local \<open>data\<close>
  only and the handler returns without storing it.
\<close>

definition PolicyResource_Read ::
  "Client \<Rightarrow> sys \<Rightarrow> lib \<Rightarrow> PolicyModel \<Rightarrow> diagnostics \<Rightarrow> call list \<Rightarrow>
   PolicyModel Response \<times> call list" where
  "PolicyResource_Read c w lb state got log =
     (let data = state;
          resp = \<lparr>Diagnostics = Append [] got, State = Some state\<rparr>
      in if HasError (Response.Diagnostics resp) then (resp, log)
         else
           let reqURL = BaseUrl c @ ''/api/policies/'' @ ValueString (PolicyModel.ID data)
           in case NewRequest w ''GET'' reqURL None of
                Inl err \<Rightarrow>
                  (resp\<lparr>Response.Diagnostics :=
                     AddError ''Error creating request'' (Error err) (Response.Diagnostics resp)\<rparr>, log)
              | Inr httpReq \<Rightarrow>
                  (case doRequest c w httpReq log of
                     ((responseBody, Some err), log) \<Rightarrow>
                       (resp\<lparr>Response.Diagnostics :=
                          AddError ''Error fetching policy'' (Error err) (Response.Diagnostics resp)\<rparr>, log)
                   | ((None, None), log) \<Rightarrow> (resp, log)
                   | ((Some body, None), log) \<Rightarrow>
                       (case Unmarshal_Policy lb body of
                          Inl err \<Rightarrow>
                            (resp\<lparr>Response.Diagnostics :=
                               AddError ''Error parsing response'' (Error err) (Response.Diagnostics resp)\<rparr>, log)
                        | Inr responseData \<Rightarrow>
                            (case convertPolicyFromApiModel responseData of
                               (data, diags) \<Rightarrow>
                                 let resp = resp\<lparr>Response.Diagnostics :=
                                              Append (Response.Diagnostics resp) diags\<rparr>
                                 in if HasError diags then (resp, log)
                                    else (resp\<lparr>State := Some data\<rparr>, log)))))"

subsection \<open>Nameserver group\<close>

definition nameserverGroupModelToApiRequest ::
  "NameserverGroupResourceModel \<Rightarrow> netbirdApi_NameserverGroupRequest option \<times> diagnostics" where
  "nameserverGroupModelToApiRequest data =
     (case convertListToStringSlice (NameserverGroupResourceModel.PeerGroups data) of
        (peerGroups, diags) \<Rightarrow>
          if HasError diags then (None, diags)
          else
            (case convertListToStringSlice (NameserverGroupResourceModel.Domains data) of
               (domains, diags) \<Rightarrow>
                 if HasError diags then (None, diags)
                 else
                   let nameservers =
                         foldl (\<lambda>acc nameserverConfig. append1 acc
                                  \<lparr>netbirdApi_Nameserver.Ip = ValueString (NameserverResourceModel.Ip nameserverConfig),
                                   netbirdApi_Nameserver.NsType =
                                     ValueString (NameserverResourceModel.NsType nameserverConfig),
                                   netbirdApi_Nameserver.Port =
                                     ValueInt32 (NameserverResourceModel.Port nameserverConfig)\<rparr>)
                           None (elems (NameserverGroupResourceModel.Nameservers data))
                   in (Some \<lparr>netbirdApi_NameserverGroupRequest.Description =
                                ValueString (NameserverGroupResourceModel.Description data),
                              netbirdApi_NameserverGroupRequest.Domains = domains,
                              netbirdApi_NameserverGroupRequest.Enabled =
                                ValueBool (NameserverGroupResourceModel.Enabled data),
                              netbirdApi_NameserverGroupRequest.Groups = peerGroups,
                              netbirdApi_NameserverGroupRequest.Name =
                                ValueString (NameserverGroupResourceModel.Name data),
                              netbirdApi_NameserverGroupRequest.Nameservers = nameservers,
                              netbirdApi_NameserverGroupRequest.Primary =
                                ValueBool (NameserverGroupResourceModel.Primary data),
                              netbirdApi_NameserverGroupRequest.SearchDomainsEnabled =
                                ValueBool (NameserverGroupResourceModel.SearchDomainsEnabled data)\<rparr>,
                       diags)))"

text \<open>
  \<open>NameserverGroupResource.Create\<close> takes the identifier from the response and reads
  the group back; \<open>Update\<close> drops the body of the response and reads the group back.
\<close>

definition NameserverGroupResource_Create ::
  "Client \<Rightarrow> sys \<Rightarrow> lib \<Rightarrow> NameserverGroupResourceModel \<Rightarrow> diagnostics \<Rightarrow> call list \<Rightarrow>
   NameserverGroupResourceModel Response \<times> call list" where
  "NameserverGroupResource_Create c w lb plan got log =
     (let data = plan;
          resp = \<lparr>Diagnostics = Append [] got, State = None\<rparr>
      in if HasError (Response.Diagnostics resp) then (resp, log)
         else
           (case nameserverGroupModelToApiRequest data of
              (apiData, diags) \<Rightarrow>
                let resp = resp\<lparr>Response.Diagnostics := Append (Response.Diagnostics resp) diags\<rparr>
                in if HasError (Response.Diagnostics resp) then (resp, log)
                   else
                     (case apiData of
                        None \<Rightarrow>
                          (resp\<lparr>Response.Diagnostics :=
                             AddError ''nul pointer error'' ''Got nil pointer to NameserverGroupResourceModel''
                               (Response.Diagnostics resp)\<rparr>, log)
                      | Some apiRequest \<Rightarrow>
                          (case Marshal_NameserverGroupRequest lb apiRequest of
                             Inl err \<Rightarrow>
                               (resp\<lparr>Response.Diagnostics :=
                                  AddError ''Error marshaling request body'' (Error err)
                                    (Response.Diagnostics resp)\<rparr>, log)
                           | Inr requestBody \<Rightarrow>
                               let reqURL = BaseUrl c @ ''/api/dns/nameservers''
                               in case NewRequest w ''POST'' reqURL (Some requestBody) of
                                    Inl err \<Rightarrow>
                                      (resp\<lparr>Response.Diagnostics :=
                                         AddError ''Error creating request'' (Error err)
                                           (Response.Diagnostics resp)\<rparr>, log)
                                  | Inr httpReq \<Rightarrow>
                                      let httpReq = Header_Set ''Content-Type'' ''application/json'' httpReq
                                      in case doRequest c w httpReq log of
                                           ((responseBody, Some err), log) \<Rightarrow>
                                             (resp\<lparr>Response.Diagnostics :=
                                                AddError ''Error making API request'' (Error err)
                                                  (Response.Diagnostics resp)\<rparr>, log)
                                         | ((responseBody, None), log) \<Rightarrow>
                                             (case Unmarshal_NameserverGroup w (bytes responseBody) of
                                                Inl err \<Rightarrow>
                                                  (resp\<lparr>Response.Diagnostics :=
                                                     AddError ''Error parsing response'' (Error err)
                                                       (Response.Diagnostics resp)\<rparr>, log)
                                              | Inr responseData \<Rightarrow>
                                                  let data = data\<lparr>NameserverGroupResourceModel.ID :=
                                                               StringValue (netbirdApi_NameserverGroup.Id responseData)\<rparr>
                                                  in case readNameserverGroupIntoModel c w data log of
                                                       ((diags, data), log) \<Rightarrow>
                                                         let resp = resp\<lparr>Response.Diagnostics :=
                                                                      Append (Response.Diagnostics resp) diags\<rparr>
                                                         in if HasError (Response.Diagnostics resp) then (resp, log)
                                                            else (resp\<lparr>State := Some data\<rparr>, log))))))"

definition NameserverGroupResource_Update ::
  "Client \<Rightarrow> sys \<Rightarrow> lib \<Rightarrow> NameserverGroupResourceModel \<Rightarrow> diagnostics \<Rightarrow>
   NameserverGroupResourceModel \<Rightarrow> call list \<Rightarrow>
   NameserverGroupResourceModel Response \<times> call list" where
  "NameserverGroupResource_Update c w lb plan got state log =
     (let data = plan;
          resp = \<lparr>Diagnostics = Append [] got, State = Some state\<rparr>
      in if HasError (Response.Diagnostics resp) then (resp, log)
         else
           (case nameserverGroupModelToApiRequest data of
              (apiData, diags) \<Rightarrow>
                let resp = resp\<lparr>Response.Diagnostics := Append (Response.Diagnostics resp) diags\<rparr>
                in if HasError (Response.Diagnostics resp) then (resp, log)
                   else
                     (case apiData of
                        None \<Rightarrow>
                          (resp\<lparr>Response.Diagnostics :=
                             AddError ''nul pointer error'' ''Got nil pointer to NameserverGroupResourceModel''
                               (Response.Diagnostics resp)\<rparr>, log)
                      | Some apiRequest \<Rightarrow>
                          (case Marshal_NameserverGroupRequest lb apiRequest of
                             Inl err \<Rightarrow>
                               (resp\<lparr>Response.Diagnostics :=
                                  AddError ''Error marshaling request body'' (Error err)
                                    (Response.Diagnostics resp)\<rparr>, log)
                           | Inr requestBody \<Rightarrow>
                               let reqURL = BaseUrl c @ ''/api/dns/nameservers/'' @
                                              ValueString (NameserverGroupResourceModel.ID data)
                               in case NewRequest w ''PUT'' reqURL (Some requestBody) of
                                    Inl err \<Rightarrow>
                                      (resp\<lparr>Response.Diagnostics :=
                                         AddError ''Error creating request'' (Error err)
                                           (Response.Diagnostics resp)\<rparr>, log)
                                  | Inr httpReq \<Rightarrow>
                                      let httpReq = Header_Set ''Content-Type'' ''application/json'' httpReq
                                      in case doRequest c w httpReq log of
                                           ((_, Some err), log) \<Rightarrow>
                                             (resp\<lparr>Response.Diagnostics :=
                                                AddError ''Error updating network'' (Error err)
                                                  (Response.Diagnostics resp)\<rparr>, log)
                                         | ((_, None), log) \<Rightarrow>
                                             (case readNameserverGroupIntoModel c w data log of
                                                ((diags, data), log) \<Rightarrow>
                                                  let resp = resp\<lparr>Response.Diagnostics :=
                                                               Append (Response.Diagnostics resp) diags\<rparr>
                                                  in if HasError (Response.Diagnostics resp) then (resp, log)
                                                     else (resp\<lparr>State := Some data\<rparr>, log))))))"

subsection \<open>Data sources\<close>

definition convertPeerGroups :: "netbirdApi_GroupMinimum slice \<Rightarrow> PeerGroupDataSourceModel slice" where
  "convertPeerGroups groups =
     foldl (\<lambda>convertedGroups group.
              let issued = [];
                  issued = (case netbirdApi_GroupMinimum.Issued group of Some i \<Rightarrow> i | None \<Rightarrow> issued);
                  convertedGroup =
                    \<lparr>PeerGroupDataSourceModel.ID = StringValue (netbirdApi_GroupMinimum.Id group),
                     PeerGroupDataSourceModel.Name = StringValue (netbirdApi_GroupMinimum.Name group),
                     PeerGroupDataSourceModel.PeersCount = Int64Value (netbirdApi_GroupMinimum.PeersCount group),
                     PeerGroupDataSourceModel.ResourcesCount =
                       Int64Value (netbirdApi_GroupMinimum.ResourcesCount group),
                     PeerGroupDataSourceModel.Issued = StringValue issued\<rparr>
              in append1 convertedGroups convertedGroup)
       None (elems groups)"

definition convertStrings :: "string slice \<Rightarrow> tf_string slice" where
  "convertStrings input = foldl (\<lambda>output str. append1 output (StringValue str)) None (elems input)"

text \<open>The model of one peer that the two data sources build from a \<open>netbirdApi.PeerBatch\<close>.\<close>

definition peer_of_batch :: "lib \<Rightarrow> netbirdApi_PeerBatch \<Rightarrow> PeerDataSourceModel" where
  "peer_of_batch lb peerBatch =
     \<lparr>
        PeerDataSourceModel.ID = StringValue (netbirdApi_PeerBatch.Id peerBatch),
        PeerDataSourceModel.Name = StringValue (netbirdApi_PeerBatch.Name peerBatch),
        PeerDataSourceModel.IP = StringValue (netbirdApi_PeerBatch.Ip peerBatch),
        PeerDataSourceModel.ConnectionIP = StringValue (netbirdApi_PeerBatch.ConnectionIp peerBatch),
        PeerDataSourceModel.Connected = BoolValue (netbirdApi_PeerBatch.Connected peerBatch),
        PeerDataSourceModel.LastSeen = StringValue (Time_String lb (netbirdApi_PeerBatch.LastSeen peerBatch)),
        PeerDataSourceModel.OS = StringValue (netbirdApi_PeerBatch.Os peerBatch),
        PeerDataSourceModel.KernelVersion = StringValue (netbirdApi_PeerBatch.KernelVersion peerBatch),
        PeerDataSourceModel.GeonameID = Int64Value (netbirdApi_PeerBatch.GeonameId peerBatch),
        PeerDataSourceModel.Version = StringValue (netbirdApi_PeerBatch.Version peerBatch),
        PeerDataSourceModel.Groups = convertPeerGroups (netbirdApi_PeerBatch.Groups peerBatch),
        PeerDataSourceModel.SSHEnabled = BoolValue (netbirdApi_PeerBatch.SshEnabled peerBatch),
        PeerDataSourceModel.UserID = StringValue (netbirdApi_PeerBatch.UserId peerBatch),
        PeerDataSourceModel.Hostname = StringValue (netbirdApi_PeerBatch.Hostname peerBatch),
        PeerDataSourceModel.UIVersion = StringValue (netbirdApi_PeerBatch.UiVersion peerBatch),
        PeerDataSourceModel.DNSLabel = StringValue (netbirdApi_PeerBatch.DnsLabel peerBatch),
        PeerDataSourceModel.LoginExpirationEnabled = BoolValue (netbirdApi_PeerBatch.LoginExpirationEnabled peerBatch),
        PeerDataSourceModel.LoginExpired = BoolValue (netbirdApi_PeerBatch.LoginExpired peerBatch),
        PeerDataSourceModel.LastLogin = StringValue (Time_String lb (netbirdApi_PeerBatch.LastLogin peerBatch)),
        PeerDataSourceModel.InactivityExpirationEnabled = BoolValue (netbirdApi_PeerBatch.InactivityExpirationEnabled peerBatch),
        PeerDataSourceModel.ApprovalRequired = BoolValue (netbirdApi_PeerBatch.ApprovalRequired peerBatch),
        PeerDataSourceModel.CountryCode = StringValue (netbirdApi_PeerBatch.CountryCode peerBatch),
        PeerDataSourceModel.CityName = StringValue (netbirdApi_PeerBatch.CityName peerBatch),
        PeerDataSourceModel.SerialNumber = StringValue (netbirdApi_PeerBatch.SerialNumber peerBatch),
        PeerDataSourceModel.ExtraDNSLabels = convertStrings (netbirdApi_PeerBatch.ExtraDnsLabels peerBatch),
        PeerDataSourceModel.AccessiblePeersCount = Int64Value (netbirdApi_PeerBatch.AccessiblePeersCount peerBatch)\<rparr>"

text \<open>
  A \<open>url.Values\<close> as the list of its keys with their values, and \<open>Add\<close>.
\<close>

fun Values_Add ::
  "string \<Rightarrow> string \<Rightarrow> (string \<times> string list) list \<Rightarrow> (string \<times> string list) list" where
  "Values_Add key v [] = [(key, [v])]"
| "Values_Add key v ((k, vs) # rest) =
     (if k = key then (k, vs @ [v]) # rest else (k, vs) # Values_Add key v rest)"

fun String_IsNull :: "tf_string \<Rightarrow> bool" where
  "String_IsNull StringNull = True"
| "String_IsNull _ = False"

fun String_IsUnknown :: "tf_string \<Rightarrow> bool" where
  "String_IsUnknown StringUnknown = True"
| "String_IsUnknown _ = False"

text \<open>
  \<open>PeersDataSource.Read\<close>, which filters by name and address.  The calls of
  \<open>tflog\<close> are left out.  The state of a data source starts empty.
\<close>

definition PeersDataSource_Read ::
  "Client \<Rightarrow> sys \<Rightarrow> lib \<Rightarrow> PeersDataSourceModel \<Rightarrow> diagnostics \<Rightarrow> call list \<Rightarrow>
   PeersDataSourceModel Response \<times> call list" where
  "PeersDataSource_Read c w lb config got log =
     (let data = config;
          resp = \<lparr>Diagnostics = Append [] got, State = None\<rparr>
      in if HasError (Response.Diagnostics resp) then (resp, log)
         else
           let endpoint = BaseUrl c @ ''/api/peers'';
               queryParams = [];
               queryParams =
                 (if \<not> String_IsNull (PeersDataSourceModel.Name data) \<and>
                     \<not> String_IsUnknown (PeersDataSourceModel.Name data)
                  then Values_Add ''name'' (ValueString (PeersDataSourceModel.Name data)) queryParams
                  else queryParams);
               queryParams =
                 (if \<not> String_IsNull (PeersDataSourceModel.IP data) \<and>
                     \<not> String_IsUnknown (PeersDataSourceModel.IP data)
                  then Values_Add ''ip'' (ValueString (PeersDataSourceModel.IP data)) queryParams
                  else queryParams);
               endpoint = (if length queryParams > 0
                           then endpoint @ ''?'' @ Values_Encode lb queryParams else endpoint)
           in case NewRequest w ''GET'' endpoint None of
                Inl err \<Rightarrow>
                  (resp\<lparr>Response.Diagnostics :=
                     AddError ''Error Creating Request'' (Error err) (Response.Diagnostics resp)\<rparr>, log)
              | Inr reqHTTP \<Rightarrow>
                  (case doRequest c w reqHTTP log of
                     ((body, Some err), log) \<Rightarrow>
                       (resp\<lparr>Response.Diagnostics :=
                          AddError ''Error Making API Request'' (Error err) (Response.Diagnostics resp)\<rparr>, log)
                   | ((body, None), log) \<Rightarrow>
                       (case Unmarshal_PeerBatchList lb (bytes body) of
                          Inl err \<Rightarrow>
                            (resp\<lparr>Response.Diagnostics :=
                               AddError ''Error Parsing API Response'' (Error err) (Response.Diagnostics resp)\<rparr>, log)
                        | Inr peerBatchList \<Rightarrow>
                            let peers = foldl (\<lambda>peers peerBatch. append1 peers (peer_of_batch lb peerBatch))
                                          None (elems peerBatchList);
                                data = data\<lparr>PeersDataSourceModel.Peers := peers\<rparr>
                            in (resp\<lparr>State := Some data\<rparr>, log))))"

text \<open>
  The \<open>PeersDataSource.Read\<close> of the file \<open>peers_data_source.go\<close>: it decodes the
  body into models that it does not use and stores the configuration.
\<close>

definition PeersDataSource_Read_all ::
  "Client \<Rightarrow> sys \<Rightarrow> lib \<Rightarrow> PeersDataSourceModel \<Rightarrow> diagnostics \<Rightarrow> call list \<Rightarrow>
   PeersDataSourceModel Response \<times> call list" where
  "PeersDataSource_Read_all c w lb config got log =
     (let data = config;
          resp = \<lparr>Diagnostics = Append [] got, State = None\<rparr>
      in if HasError (Response.Diagnostics resp) then (resp, log)
         else
           let endpoint = BaseUrl c @ ''/api/peers''
           in case NewRequest w ''GET'' endpoint None of
                Inl err \<Rightarrow>
                  (resp\<lparr>Response.Diagnostics :=
                     AddError ''Error Creating Request'' (Error err) (Response.Diagnostics resp)\<rparr>, log)
              | Inr reqHTTP \<Rightarrow>
                  (case doRequest c w reqHTTP log of
                     ((body, Some err), log) \<Rightarrow>
                       (resp\<lparr>Response.Diagnostics :=
                          AddError ''Error Making API Request'' (Error err) (Response.Diagnostics resp)\<rparr>, log)
                   | ((body, None), log) \<Rightarrow>
                       (case Unmarshal_PeerModels lb (bytes body) of
                          Inl err \<Rightarrow>
                            (resp\<lparr>Response.Diagnostics :=
                               AddError ''Error Parsing API Response'' (Error err) (Response.Diagnostics resp)\<rparr>, log)
                        | Inr peers \<Rightarrow> (resp\<lparr>State := Some data\<rparr>, log))))"

text \<open>
  \<open>PeerDataSource.Read\<close>.  The test of \<open>data.ID.String()\<close> against the empty string
  adds its error and does not return, so the request is made in either case.
\<close>

definition PeerDataSource_Read ::
  "Client \<Rightarrow> sys \<Rightarrow> lib \<Rightarrow> PeerDataSourceModel \<Rightarrow> diagnostics \<Rightarrow> call list \<Rightarrow>
   PeerDataSourceModel Response \<times> call list" where
  "PeerDataSource_Read c w lb config got log =
     (let data = config;
          resp = \<lparr>Diagnostics = Append [] got, State = None\<rparr>
      in if HasError (Response.Diagnostics resp) then (resp, log)
         else
           let resp = (if String_of lb (PeerDataSourceModel.ID data) = []
                       then resp\<lparr>Response.Diagnostics :=
                              AddAttributeError ''id'' ''ID is invalid'' ''ID must be set to a valid string''
                                (Response.Diagnostics resp)\<rparr>
                       else resp);
               endpoint = BaseUrl c @ ''/api/peers/'' @ ValueString (PeerDataSourceModel.ID data)
           in case NewRequest w ''GET'' endpoint None of
                Inl err \<Rightarrow>
                  (resp\<lparr>Response.Diagnostics :=
                     AddError ''Error Creating Request'' (Error err) (Response.Diagnostics resp)\<rparr>, log)
              | Inr reqHTTP \<Rightarrow>
                  (case doRequest c w reqHTTP log of
                     ((body, Some err), log) \<Rightarrow>
                       (resp\<lparr>Response.Diagnostics :=
                          AddError (''Error Making API Request: '' @ endpoint) (Error err)
                            (Response.Diagnostics resp)\<rparr>, log)
                   | ((body, None), log) \<Rightarrow>
                       (case Unmarshal_PeerBatch lb (bytes body) of
                          Inl err \<Rightarrow>
                            (resp\<lparr>Response.Diagnostics :=
                               AddError ''Error Parsing API Response'' (Error err) (Response.Diagnostics resp)\<rparr>, log)
                        | Inr peerBatch \<Rightarrow>
                            (let
                                 data = data\<lparr>PeerDataSourceModel.ID := StringValue (netbirdApi_PeerBatch.Id peerBatch)\<rparr>;
                                 data = data\<lparr>PeerDataSourceModel.Name := StringValue (netbirdApi_PeerBatch.Name peerBatch)\<rparr>;
                                 data = data\<lparr>PeerDataSourceModel.IP := StringValue (netbirdApi_PeerBatch.Ip peerBatch)\<rparr>;
                                 data = data\<lparr>PeerDataSourceModel.ConnectionIP := StringValue (netbirdApi_PeerBatch.ConnectionIp peerBatch)\<rparr>;
                                 data = data\<lparr>PeerDataSourceModel.Connected := BoolValue (netbirdApi_PeerBatch.Connected peerBatch)\<rparr>;
                                 data = data\<lparr>PeerDataSourceModel.LastSeen := StringValue (Time_String lb (netbirdApi_PeerBatch.LastSeen peerBatch))\<rparr>;
                                 data = data\<lparr>PeerDataSourceModel.OS := StringValue (netbirdApi_PeerBatch.Os peerBatch)\<rparr>;
                                 data = data\<lparr>PeerDataSourceModel.KernelVersion := StringValue (netbirdApi_PeerBatch.KernelVersion peerBatch)\<rparr>;
                                 data = data\<lparr>PeerDataSourceModel.GeonameID := Int64Value (netbirdApi_PeerBatch.GeonameId peerBatch)\<rparr>;
                                 data = data\<lparr>PeerDataSourceModel.Version := StringValue (netbirdApi_PeerBatch.Version peerBatch)\<rparr>;
                                 data = data\<lparr>PeerDataSourceModel.Groups := convertPeerGroups (netbirdApi_PeerBatch.Groups peerBatch)\<rparr>;
                                 data = data\<lparr>PeerDataSourceModel.SSHEnabled := BoolValue (netbirdApi_PeerBatch.SshEnabled peerBatch)\<rparr>;
                                 data = data\<lparr>PeerDataSourceModel.UserID := StringValue (netbirdApi_PeerBatch.UserId peerBatch)\<rparr>;
                                 data = data\<lparr>PeerDataSourceModel.Hostname := StringValue (netbirdApi_PeerBatch.Hostname peerBatch)\<rparr>;
                                 data = data\<lparr>PeerDataSourceModel.UIVersion := StringValue (netbirdApi_PeerBatch.UiVersion peerBatch)\<rparr>;
                                 data = data\<lparr>PeerDataSourceModel.DNSLabel := StringValue (netbirdApi_PeerBatch.DnsLabel peerBatch)\<rparr>;
                                 data = data\<lparr>PeerDataSourceModel.LoginExpirationEnabled := BoolValue (netbirdApi_PeerBatch.LoginExpirationEnabled peerBatch)\<rparr>;
                                 data = data\<lparr>PeerDataSourceModel.LoginExpired := BoolValue (netbirdApi_PeerBatch.LoginExpired peerBatch)\<rparr>;
                                 data = data\<lparr>PeerDataSourceModel.LastLogin := StringValue (Time_String lb (netbirdApi_PeerBatch.LastLogin peerBatch))\<rparr>;
                                 data = data\<lparr>PeerDataSourceModel.InactivityExpirationEnabled := BoolValue (netbirdApi_PeerBatch.InactivityExpirationEnabled peerBatch)\<rparr>;
                                 data = data\<lparr>PeerDataSourceModel.ApprovalRequired := BoolValue (netbirdApi_PeerBatch.ApprovalRequired peerBatch)\<rparr>;
                                 data = data\<lparr>PeerDataSourceModel.CountryCode := StringValue (netbirdApi_PeerBatch.CountryCode peerBatch)\<rparr>;
                                 data = data\<lparr>PeerDataSourceModel.CityName := StringValue (netbirdApi_PeerBatch.CityName peerBatch)\<rparr>;
                                 data = data\<lparr>PeerDataSourceModel.SerialNumber := StringValue (netbirdApi_PeerBatch.SerialNumber peerBatch)\<rparr>;
                                 data = data\<lparr>PeerDataSourceModel.ExtraDNSLabels := convertStrings (netbirdApi_PeerBatch.ExtraDnsLabels peerBatch)\<rparr>;
                                 data = data\<lparr>PeerDataSourceModel.AccessiblePeersCount := Int64Value (netbirdApi_PeerBatch.AccessiblePeersCount peerBatch)\<rparr>
                             in (resp\<lparr>State := Some data\<rparr>, log)))))"

section \<open>Calls through a client\<close>

text \<open>
  \<open>calls_through c k log log'\<close>: the log \<open>log'\<close> is \<open>log\<close> followed by at most \<open>k\<close>
  calls, and each of these is a call of \<open>httpClient.Do\<close> of the client \<open>c\<close>.
\<close>

definition calls_through :: "Client \<Rightarrow> nat \<Rightarrow> call list \<Rightarrow> call list \<Rightarrow> bool" where
  "calls_through c k log log' =
     (take (length log) log' = log \<and> length log' \<le> length log + k
      \<and> list_all (\<lambda>cl. Via cl = c) (drop (length log) log'))"

section \<open>Helper lemmas\<close>

lemma set_Append: "set (Append a b) = set a \<union> set b"
  by (induction b arbitrary: a) auto

lemma HasError_Append: "HasError (Append a b) = (HasError a \<or> HasError b)"
  by (auto simp: HasError_def list_ex_iff set_Append)

lemma HasError_Nil: "\<not> HasError []"
  by (simp add: HasError_def)

lemma AddError_fresh:
  "\<not> HasError ds \<Longrightarrow>
   AddError summary detail ds = ds @ [\<lparr>Severity = SeverityError, Summary = summary, Detail = detail, Path = None\<rparr>]"
proof -
  assume ne: "\<not> HasError ds"
  have "Severity d \<noteq> SeverityError" if "d \<in> set ds" for d
    using ne that unfolding HasError_def list_ex_iff by blast
  then have "\<lparr>Severity = SeverityError, Summary = summary, Detail = detail, Path = None\<rparr> \<notin> set ds"
    by force
  then show ?thesis by (simp add: AddError_def)
qed

lemma HasError_AddError: "HasError (AddError summary detail ds)"
  unfolding AddError_def HasError_Append by (simp add: HasError_def)

lemma doRequest_log:
  "snd (doRequest s w req log) = log @ [\<lparr>Via = s, Sent = doRequest_headers s req\<rparr>]"
  by (simp add: doRequest_def Let_def split: sum.splits)

text \<open>The body and the error that \<open>doRequest\<close> returns are never both nil.\<close>

lemma doRequest_not_nil_nil:
  "fst (doRequest s w req log) \<noteq> (None, None)"
  by (simp add: doRequest_def Let_def split: sum.splits)

lemma foldl_append1:
  "foldl (\<lambda>acc v. append1 acc (f v)) acc xs =
     (if xs = [] then acc else Some (elems acc @ map f xs))"
  by (induction xs arbitrary: acc) (auto simp: append1_def elems_def split: option.splits)

lemma ListValue_diags_strings:
  "ListValue_diags StringType idx (map (\<lambda>x. StringV (StringValue x)) xs) diags = diags"
  by (induction xs arbitrary: idx) auto

lemma ListValue_strings:
  "ListValue StringType (map (\<lambda>x. StringV (StringValue x)) xs) =
     (ListKnown StringType (map (\<lambda>x. StringV (StringValue x)) xs), [])"
  by (simp add: ListValue_def ListValue_diags_strings HasError_def)

lemma convertStringSliceToListValue_eq:
  "convertStringSliceToListValue s =
     (if elems s = [] then (ListNull StringType, [])
      else (ListKnown StringType (map (\<lambda>x. StringV (StringValue x)) (elems s)), []))"
  by (simp add: convertStringSliceToListValue_def foldl_append1 slice_len_def elems_def
      ListValue_strings HasError_def Let_def)

lemma convertListToStringSlice_loop_strings:
  "convertListToStringSlice_loop (map (\<lambda>x. StringV (StringValue x)) xs) result diags =
     (if xs = [] then result else Some (elems result @ xs), [])"
  by (induction xs arbitrary: result) (auto simp: append1_def elems_def split: option.splits)

section \<open>The client wrapper\<close>

text \<open>
  C1, amended.  For every response whose body can be read, \<open>doRequest\<close> fails exactly
  when the status code is at least 400: then it returns no body and an error whose
  message is the response body; for every status below 400 (so also for a 1xx or 3xx
  status, which is not 2xx) it returns the body and no error.
\<close>

theorem doRequest_fails_from_status_400:
  assumes "Do w log \<lparr>Via = s, Sent = doRequest_headers s req\<rparr> = Inr resp"
    and "ReadAll resp = Inr body"
  shows "fst (doRequest s w req log) =
           (if 400 \<le> StatusCode resp then (None, Some (Errorf body)) else (Some body, None))
         \<and> Error (Errorf body) = body
         \<and> (snd (fst (doRequest s w req log)) \<noteq> None) = (400 \<le> StatusCode resp)"
  using assms by (simp add: doRequest_def Let_def Errorf_def)

theorem doRequest_fails_from_status_400_witness:
  "fst (doRequest (NewClient ''https://api.netbird.io'' [] ''nbp_abc'')
          \<lparr>NewRequest_url = (\<lambda>u. Inr u),
           Do = (\<lambda>_ _. Inr \<lparr>StatusCode = 404, ReadAll = Inr ''not found''\<rparr>),
           Unmarshal_Network = (\<lambda>_. Inl (GoError ''eof'')),
           Unmarshal_NameserverGroup = (\<lambda>_. Inl (GoError ''eof''))\<rparr>
          \<lparr>Method = ''GET'', URL = ''https://api.netbird.io/api/networks/n1'',
           Header = Map.empty, Body = None\<rparr> [])
   = (None, Some (GoError ''not found''))"
  using doRequest_fails_from_status_400
    [where s = "NewClient ''https://api.netbird.io'' [] ''nbp_abc''"
       and w = "\<lparr>NewRequest_url = (\<lambda>u. Inr u),
                 Do = (\<lambda>_ _. Inr \<lparr>StatusCode = 404, ReadAll = Inr ''not found''\<rparr>),
                 Unmarshal_Network = (\<lambda>_. Inl (GoError ''eof'')),
                 Unmarshal_NameserverGroup = (\<lambda>_. Inl (GoError ''eof''))\<rparr>"
       and req = "\<lparr>Method = ''GET'', URL = ''https://api.netbird.io/api/networks/n1'',
                   Header = Map.empty, Body = None\<rparr>"
       and log = "[]"
       and resp = "\<lparr>StatusCode = 404, ReadAll = Inr ''not found''\<rparr>"
       and body = "''not found''"]
  by (simp add: Errorf_def)

text \<open>
  C1 as stated fails: a response with status 304 is not 2xx, and \<open>doRequest\<close> returns
  its body with no error.
\<close>

theorem doRequest_status_304_counterexample:
  "\<not> (200 \<le> (304::int) \<and> (304::int) < 300)
   \<and> fst (doRequest (NewClient ''https://api.netbird.io'' [] ''nbp_abc'')
          \<lparr>NewRequest_url = (\<lambda>u. Inr u),
           Do = (\<lambda>_ _. Inr \<lparr>StatusCode = 304, ReadAll = Inr ''cached''\<rparr>),
           Unmarshal_Network = (\<lambda>_. Inl (GoError ''eof'')),
           Unmarshal_NameserverGroup = (\<lambda>_. Inl (GoError ''eof''))\<rparr>
          \<lparr>Method = ''GET'', URL = ''https://api.netbird.io/api/networks/n1'',
           Header = Map.empty, Body = None\<rparr> [])
     = (Some ''cached'', None)"
  by (simp add: doRequest_def Let_def)

text \<open>
  C8.  The request that \<open>doRequest\<close> sends carries, under \<open>Authorization\<close>, the single
  value \<open>Token\<close> plus the access token when the access token is not empty (also when
  the bearer token is not empty: the second assignment overwrites the first), the
  single value \<open>Bearer\<close> plus the bearer token when only the bearer token is not empty,
  and what the caller's request had when both are empty.  No other header changes, and
  a request that came without \<open>Authorization\<close> leaves with at most one value for it.
\<close>

theorem doRequest_authorization_header:
  "(let sent = Sent (last (snd (doRequest s w req log))) in
      (Client.AccessToken s \<noteq> [] \<longrightarrow>
         Header sent ''Authorization'' = Some [''Token '' @ Client.AccessToken s])
    \<and> (Client.AccessToken s = [] \<and> Client.BearerToken s \<noteq> [] \<longrightarrow>
         Header sent ''Authorization'' = Some [''Bearer '' @ Client.BearerToken s])
    \<and> (Client.AccessToken s = [] \<and> Client.BearerToken s = [] \<longrightarrow>
         Header sent ''Authorization'' = Header req ''Authorization'')
    \<and> (\<forall>k. k \<noteq> ''Authorization'' \<longrightarrow> Header sent k = Header req k)
    \<and> (Header req ''Authorization'' = None \<longrightarrow>
         (case Header sent ''Authorization'' of None \<Rightarrow> True | Some vs \<Rightarrow> length vs = 1)))"
  by (simp add: doRequest_log doRequest_headers_def Header_Set_def Let_def)

theorem doRequest_authorization_header_witness:
  "Header (Sent (last (snd (doRequest (NewClient ''https://api.netbird.io'' ''oauth'' ''nbp_abc'')
       \<lparr>NewRequest_url = (\<lambda>u. Inr u),
        Do = (\<lambda>_ _. Inr \<lparr>StatusCode = 200, ReadAll = Inr ''{}''\<rparr>),
        Unmarshal_Network = (\<lambda>_. Inl (GoError ''eof'')),
        Unmarshal_NameserverGroup = (\<lambda>_. Inl (GoError ''eof''))\<rparr>
       \<lparr>Method = ''GET'', URL = ''https://api.netbird.io/api/networks/n1'',
        Header = Map.empty, Body = None\<rparr> []))))
     ''Authorization'' = Some [''Token nbp_abc'']"
  using doRequest_authorization_header
    [where s = "NewClient ''https://api.netbird.io'' ''oauth'' ''nbp_abc''"
       and w = "\<lparr>NewRequest_url = (\<lambda>u. Inr u),
                 Do = (\<lambda>_ _. Inr \<lparr>StatusCode = 200, ReadAll = Inr ''{}''\<rparr>),
                 Unmarshal_Network = (\<lambda>_. Inl (GoError ''eof'')),
                 Unmarshal_NameserverGroup = (\<lambda>_. Inl (GoError ''eof''))\<rparr>"
       and req = "\<lparr>Method = ''GET'', URL = ''https://api.netbird.io/api/networks/n1'',
                   Header = Map.empty, Body = None\<rparr>"
       and log = "[]"]
  by (simp add: Let_def NewClient_def)

section \<open>The provider root\<close>

text \<open>
  C3.  When the configuration was decoded without an error diagnostic (otherwise
  \<open>Configure\<close> returns before it resolves anything), the endpoint, the bearer token
  and the access token are each the configuration field when it is not empty and the
  variable \<open>NETBIRD_ENDPOINT\<close>, \<open>NETBIRD_BEARER_TOKEN\<close> or \<open>NETBIRD_ACCESS_TOKEN\<close>
  otherwise; an empty endpoint becomes \<open>https://api.netbird.io\<close>; the client handed
  to resources and data sources is \<open>NewClient\<close> of the three; and \<open>Configure\<close> adds
  an error diagnostic (exactly one) exactly when both tokens are non-empty or both are
  empty.
\<close>

theorem Configure_resolves_credentials:
  assumes "\<not> HasError (snd config)"
  shows
  "(let data = fst config;
        endpoint = (if ValueString (Endpoint data) \<noteq> [] then ValueString (Endpoint data)
                    else Getenv env ''NETBIRD_ENDPOINT'');
        bearer = (if ValueString (NetbirdProviderModel.BearerToken data) \<noteq> []
                  then ValueString (NetbirdProviderModel.BearerToken data)
                  else Getenv env ''NETBIRD_BEARER_TOKEN'');
        access = (if ValueString (NetbirdProviderModel.AccessToken data) \<noteq> []
                  then ValueString (NetbirdProviderModel.AccessToken data)
                  else Getenv env ''NETBIRD_ACCESS_TOKEN'');
        client = NewClient (if endpoint = [] then ''https://api.netbird.io'' else endpoint)
                   bearer access;
        resp = Configure env config
    in ResourceData resp = Some client \<and> DataSourceData resp = Some client
     \<and> HasError (ConfigureResponse.Diagnostics resp) =
         ((bearer \<noteq> [] \<and> access \<noteq> []) \<or> (bearer = [] \<and> access = []))
     \<and> length (ConfigureResponse.Diagnostics resp) =
         length (Append [] (snd config)) +
         (if (bearer \<noteq> [] \<and> access \<noteq> []) \<or> (bearer = [] \<and> access = []) then 1 else 0))"
proof -
  have ne: "\<not> HasError (Append [] (snd config))"
    using assms by (simp add: HasError_Append HasError_Nil)
  show ?thesis
    using ne
    by (simp add: Configure_def Let_def AddError_fresh HasError_Append)
       (simp add: HasError_def)
qed

theorem Configure_resolves_credentials_witness:
  "\<not> HasError []
   \<and> ResourceData (Configure (Map.empty(''NETBIRD_ACCESS_TOKEN'' \<mapsto> ''from_env'', ''NETBIRD_BEARER_TOKEN'' \<mapsto> ''oauth''))
        (\<lparr>Endpoint = StringNull, BearerToken = StringNull, AccessToken = StringValue ''from_config''\<rparr>, []))
     = Some (NewClient ''https://api.netbird.io'' ''oauth'' ''from_config'')
   \<and> HasError (ConfigureResponse.Diagnostics
        (Configure (Map.empty(''NETBIRD_ACCESS_TOKEN'' \<mapsto> ''from_env'', ''NETBIRD_BEARER_TOKEN'' \<mapsto> ''oauth''))
        (\<lparr>Endpoint = StringNull, BearerToken = StringNull, AccessToken = StringValue ''from_config''\<rparr>, [])))"
  using Configure_resolves_credentials
    [where env = "Map.empty(''NETBIRD_ACCESS_TOKEN'' \<mapsto> ''from_env'', ''NETBIRD_BEARER_TOKEN'' \<mapsto> ''oauth'')"
       and config = "(\<lparr>Endpoint = StringNull, BearerToken = StringNull,
                       AccessToken = StringValue ''from_config''\<rparr>, [])"]
  by (simp add: Let_def Getenv_def HasError_Nil)

section \<open>Field-mapping converters\<close>

text \<open>
  C9.  For every slice of strings \<open>s\<close> (nil or not), converting \<open>s\<close> to a list value
  and back gives the elements of \<open>s\<close> in order, with no diagnostics either way; the
  list value is null exactly when \<open>s\<close> has no element; and the known empty list goes
  to the empty slice and from there to the null list, not back to itself.
\<close>

theorem convertStringSlice_round_trip:
  "elems (fst (convertListToStringSlice (fst (convertStringSliceToListValue s)))) = elems s
   \<and> snd (convertListToStringSlice (fst (convertStringSliceToListValue s))) = []
   \<and> snd (convertStringSliceToListValue s) = []
   \<and> IsNull (fst (convertStringSliceToListValue s)) = (slice_len s = 0)
   \<and> (fst (convertStringSliceToListValue s) = ListNull StringType) = (slice_len s = 0)
   \<and> fst (convertListToStringSlice (ListKnown StringType [])) = Some []
   \<and> fst (convertStringSliceToListValue (fst (convertListToStringSlice (ListKnown StringType []))))
       = ListNull StringType"
  by (simp add: convertStringSliceToListValue_eq convertListToStringSlice_def
      convertListToStringSlice_loop_strings slice_len_def elems_def)

lemma doRequest_ok:
  assumes "Do w log \<lparr>Via = s, Sent = doRequest_headers s req\<rparr> = Inr resp"
    and "ReadAll resp = Inr body" and "StatusCode resp < 400"
  shows "doRequest s w req log =
           ((Some body, None), log @ [\<lparr>Via = s, Sent = doRequest_headers s req\<rparr>])"
  using assms by (simp add: doRequest_def Let_def)

lemma convertStringSliceToListValue_no_diags: "snd (convertStringSliceToListValue s) = []"
  by (simp add: convertStringSliceToListValue_eq)

section \<open>Reading a network\<close>

text \<open>
  Whatever the API answers, \<open>readIntoModel\<close> leaves the identifier as it was: the
  branch for a nil body with a nil error is never taken, since \<open>doRequest\<close> never
  returns that pair.
\<close>

lemma NetworkResource_readIntoModel_keeps_ID:
  "NetworkResourceModel.ID (snd (fst (NetworkResource_readIntoModel c w data log))) =
   NetworkResourceModel.ID data"
  by (simp add: NetworkResource_readIntoModel_def NewRequest_def Let_def doRequest_def
      split: option.splits sum.splits)

text \<open>
  C2 at a failing input.  The API answers the GET for network \<open>n1\<close> with status 404:
  \<open>Read\<close> reports the error diagnostic \<open>Error fetching network\<close> and keeps the state
  with its identifier \<open>n1\<close>; the identifier is not set to null.
\<close>

theorem NetworkResource_Read_absent_record:
  "NetworkResource_Read (NewClient ''https://api.netbird.io'' [] ''nbp_abc'')
     \<lparr>NewRequest_url = (\<lambda>u. Inr u),
         Do = (\<lambda>_ _. Inr \<lparr>StatusCode = 404, ReadAll = Inr ''network not found''\<rparr>),
         Unmarshal_Network = (\<lambda>_. Inl (GoError ''unexpected end of JSON input'')),
         Unmarshal_NameserverGroup = (\<lambda>_. Inl (GoError ''unexpected end of JSON input''))\<rparr>
     \<lparr>NetworkResourceModel.ID = StringValue ''n1'', NetworkResourceModel.Name = StringValue ''example'',
      NetworkResourceModel.Description = StringNull,
      NetworkResourceModel.Routers = ListNull StringType,
      NetworkResourceModel.RoutingPeersCount = Int64Value 0,
      NetworkResourceModel.Resources = ListNull StringType,
      NetworkResourceModel.Policies = ListNull StringType\<rparr> [] []
   = (\<lparr>Response.Diagnostics = [\<lparr>Severity = SeverityError, Summary = ''Error fetching network'',
                                 Detail = ''network not found'', Path = None\<rparr>],
       State = Some \<lparr>NetworkResourceModel.ID = StringValue ''n1'', NetworkResourceModel.Name = StringValue ''example'',
      NetworkResourceModel.Description = StringNull,
      NetworkResourceModel.Routers = ListNull StringType,
      NetworkResourceModel.RoutingPeersCount = Int64Value 0,
      NetworkResourceModel.Resources = ListNull StringType,
      NetworkResourceModel.Policies = ListNull StringType\<rparr>\<rparr>,
      [\<lparr>Via = NewClient ''https://api.netbird.io'' [] ''nbp_abc'',
        Sent = \<lparr>Method = ''GET'', URL = ''https://api.netbird.io/api/networks/n1'',
                Header = [''Authorization'' \<mapsto> [''Token nbp_abc'']], Body = None\<rparr>\<rparr>])"
  by (simp add: NetworkResource_Read_def NetworkResource_readIntoModel_def NewRequest_def
      doRequest_def doRequest_headers_def Header_Set_def NewClient_def Let_def HasError_def
      AddError_def Errorf_def)

text \<open>
  C6.  When the GET succeeds and the body decodes to \<open>responseData\<close>: if the
  description of \<open>responseData\<close> is absent or empty and the local description reads as
  the empty string, \<open>readIntoModel\<close> leaves the local description as it was; if the
  description of \<open>responseData\<close> is a non-empty string, the local description becomes
  that string.
\<close>

theorem NetworkResource_readIntoModel_description:
  assumes "NewRequest_url w (BaseUrl c @ ''/api/networks/'' @ ValueString (NetworkResourceModel.ID data)) = Inr u"
    and "Do w log \<lparr>Via = c, Sent = doRequest_headers c
           \<lparr>Method = ''GET'',
            URL = u,
            Header = Map.empty, Body = None\<rparr>\<rparr> = Inr resp"
    and "ReadAll resp = Inr body" and "StatusCode resp < 400"
    and "Unmarshal_Network w body = Inr responseData"
  shows
   "(let data' = snd (fst (NetworkResource_readIntoModel c w data log)) in
      ((netbirdApi_Network.Description responseData = None
          \<or> netbirdApi_Network.Description responseData = Some [])
        \<and> ValueString (NetworkResourceModel.Description data) = []
        \<longrightarrow> NetworkResourceModel.Description data' = NetworkResourceModel.Description data)
    \<and> (\<forall>d. netbirdApi_Network.Description responseData = Some d \<and> d \<noteq> []
        \<longrightarrow> NetworkResourceModel.Description data' = StringValue d))"
  using assms
  by (auto simp: NetworkResource_readIntoModel_def NewRequest_def Let_def doRequest_ok)

theorem NetworkResource_readIntoModel_description_witness:
  "NetworkResourceModel.Description (snd (fst (NetworkResource_readIntoModel (NewClient ''https://api.netbird.io'' [] ''nbp_abc'')
       \<lparr>NewRequest_url = (\<lambda>u. Inr u),
         Do = (\<lambda>_ _. Inr \<lparr>StatusCode = 200, ReadAll = Inr ''{}''\<rparr>),
         Unmarshal_Network = (\<lambda>_. Inr \<lparr>netbirdApi_Network.Description = None, netbirdApi_Network.Name = ''example'',
             netbirdApi_Network.Policies = None, netbirdApi_Network.Resources = None,
             netbirdApi_Network.Routers = Some [''r1''], netbirdApi_Network.RoutingPeersCount = 1\<rparr>),
         Unmarshal_NameserverGroup = (\<lambda>_. Inl (GoError ''unexpected end of JSON input''))\<rparr>
       \<lparr>NetworkResourceModel.ID = StringValue ''n1'', NetworkResourceModel.Name = StringValue ''example'',
      NetworkResourceModel.Description = StringNull,
      NetworkResourceModel.Routers = ListNull StringType,
      NetworkResourceModel.RoutingPeersCount = Int64Value 0,
      NetworkResourceModel.Resources = ListNull StringType,
      NetworkResourceModel.Policies = ListNull StringType\<rparr> [])))
     = StringNull
   \<and> NetworkResourceModel.Description (snd (fst (NetworkResource_readIntoModel (NewClient ''https://api.netbird.io'' [] ''nbp_abc'')
       \<lparr>NewRequest_url = (\<lambda>u. Inr u),
         Do = (\<lambda>_ _. Inr \<lparr>StatusCode = 200, ReadAll = Inr ''{}''\<rparr>),
         Unmarshal_Network = (\<lambda>_. Inr \<lparr>netbirdApi_Network.Description = Some ''production'', netbirdApi_Network.Name = ''example'',
             netbirdApi_Network.Policies = None, netbirdApi_Network.Resources = None,
             netbirdApi_Network.Routers = Some [''r1''], netbirdApi_Network.RoutingPeersCount = 1\<rparr>),
         Unmarshal_NameserverGroup = (\<lambda>_. Inl (GoError ''unexpected end of JSON input''))\<rparr>
       \<lparr>NetworkResourceModel.ID = StringValue ''n1'', NetworkResourceModel.Name = StringValue ''example'',
      NetworkResourceModel.Description = StringNull,
      NetworkResourceModel.Routers = ListNull StringType,
      NetworkResourceModel.RoutingPeersCount = Int64Value 0,
      NetworkResourceModel.Resources = ListNull StringType,
      NetworkResourceModel.Policies = ListNull StringType\<rparr> [])))
     = StringValue ''production''"
  using
    NetworkResource_readIntoModel_description
      [where c = "NewClient ''https://api.netbird.io'' [] ''nbp_abc''"
         and w = "\<lparr>NewRequest_url = (\<lambda>u. Inr u),
         Do = (\<lambda>_ _. Inr \<lparr>StatusCode = 200, ReadAll = Inr ''{}''\<rparr>),
         Unmarshal_Network = (\<lambda>_. Inr \<lparr>netbirdApi_Network.Description = None, netbirdApi_Network.Name = ''example'',
             netbirdApi_Network.Policies = None, netbirdApi_Network.Resources = None,
             netbirdApi_Network.Routers = Some [''r1''], netbirdApi_Network.RoutingPeersCount = 1\<rparr>),
         Unmarshal_NameserverGroup = (\<lambda>_. Inl (GoError ''unexpected end of JSON input''))\<rparr>"
         and data = "\<lparr>NetworkResourceModel.ID = StringValue ''n1'', NetworkResourceModel.Name = StringValue ''example'',
      NetworkResourceModel.Description = StringNull,
      NetworkResourceModel.Routers = ListNull StringType,
      NetworkResourceModel.RoutingPeersCount = Int64Value 0,
      NetworkResourceModel.Resources = ListNull StringType,
      NetworkResourceModel.Policies = ListNull StringType\<rparr>"
         and log = "[]"
         and u = "''https://api.netbird.io/api/networks/n1''"
         and resp = "\<lparr>StatusCode = 200, ReadAll = Inr ''{}''\<rparr>"
         and body = "''{}''"
         and responseData = "\<lparr>netbirdApi_Network.Description = None, netbirdApi_Network.Name = ''example'',
             netbirdApi_Network.Policies = None, netbirdApi_Network.Resources = None,
             netbirdApi_Network.Routers = Some [''r1''], netbirdApi_Network.RoutingPeersCount = 1\<rparr>"]
    NetworkResource_readIntoModel_description
      [where c = "NewClient ''https://api.netbird.io'' [] ''nbp_abc''"
         and w = "\<lparr>NewRequest_url = (\<lambda>u. Inr u),
         Do = (\<lambda>_ _. Inr \<lparr>StatusCode = 200, ReadAll = Inr ''{}''\<rparr>),
         Unmarshal_Network = (\<lambda>_. Inr \<lparr>netbirdApi_Network.Description = Some ''production'', netbirdApi_Network.Name = ''example'',
             netbirdApi_Network.Policies = None, netbirdApi_Network.Resources = None,
             netbirdApi_Network.Routers = Some [''r1''], netbirdApi_Network.RoutingPeersCount = 1\<rparr>),
         Unmarshal_NameserverGroup = (\<lambda>_. Inl (GoError ''unexpected end of JSON input''))\<rparr>"
         and data = "\<lparr>NetworkResourceModel.ID = StringValue ''n1'', NetworkResourceModel.Name = StringValue ''example'',
      NetworkResourceModel.Description = StringNull,
      NetworkResourceModel.Routers = ListNull StringType,
      NetworkResourceModel.RoutingPeersCount = Int64Value 0,
      NetworkResourceModel.Resources = ListNull StringType,
      NetworkResourceModel.Policies = ListNull StringType\<rparr>"
         and log = "[]"
         and u = "''https://api.netbird.io/api/networks/n1''"
         and resp = "\<lparr>StatusCode = 200, ReadAll = Inr ''{}''\<rparr>"
         and body = "''{}''"
         and responseData = "\<lparr>netbirdApi_Network.Description = Some ''production'', netbirdApi_Network.Name = ''example'',
             netbirdApi_Network.Policies = None, netbirdApi_Network.Resources = None,
             netbirdApi_Network.Routers = Some [''r1''], netbirdApi_Network.RoutingPeersCount = 1\<rparr>"]
  by (simp add: Let_def NewClient_def)

section \<open>Reading a nameserver group\<close>

lemma readNameserverGroupIntoModel_ok:
  assumes "NewRequest_url w (BaseUrl c @ ''/api/dns/nameservers/'' @ ValueString (NameserverGroupResourceModel.ID data)) = Inr u"
    and "Do w log \<lparr>Via = c, Sent = doRequest_headers c
           \<lparr>Method = ''GET'',
            URL = u,
            Header = Map.empty, Body = None\<rparr>\<rparr> = Inr resp"
    and "ReadAll resp = Inr body" and "StatusCode resp < 400"
    and "Unmarshal_NameserverGroup w body = Inr responseData"
  shows "fst (fst (readNameserverGroupIntoModel c w data log)) = []
       \<and> NameserverGroupResourceModel.Description (snd (fst (readNameserverGroupIntoModel c w data log)))
           = nullStringToEmptyString (StringValue (netbirdApi_NameserverGroup.Description responseData))"
  using assms
  by (simp add: readNameserverGroupIntoModel_def NewRequest_def Let_def doRequest_ok
      convertStringSliceToListValue_no_diags HasError_Nil derefString_def)

lemma NameserverGroupResource_Read_empty_description:
  assumes "\<not> HasError got"
    and "NewRequest_url w (BaseUrl c @ ''/api/dns/nameservers/'' @ ValueString (NameserverGroupResourceModel.ID state)) = Inr u"
    and "Do w log \<lparr>Via = c, Sent = doRequest_headers c
           \<lparr>Method = ''GET'',
            URL = u,
            Header = Map.empty, Body = None\<rparr>\<rparr> = Inr resp"
    and "ReadAll resp = Inr body" and "StatusCode resp < 400"
    and "Unmarshal_NameserverGroup w body = Inr responseData"
    and "netbirdApi_NameserverGroup.Description responseData = []"
  shows "\<exists>m. State (fst (NameserverGroupResource_Read c w state got log)) = Some m
              \<and> NameserverGroupResourceModel.Description m = StringNull"
proof -
  obtain diags data' log' where
    r: "readNameserverGroupIntoModel c w state log = ((diags, data'), log')"
    by (metis surj_pair)
  have "diags = []" and "NameserverGroupResourceModel.Description data' = StringNull"
    using readNameserverGroupIntoModel_ok[OF assms(2-6)] assms(7) r
    by (simp_all add: nullStringToEmptyString_def)
  then show ?thesis
    using assms(1) r
    by (simp add: NameserverGroupResource_Read_def Let_def HasError_Append HasError_Nil)
qed

text \<open>
  C10.  \<open>nullStringToEmptyString\<close> gives the null string for every string value that
  reads as the empty string (the null string, the unknown string and the known empty
  string) and gives back every other string value unchanged.  So when the GET of a
  nameserver group succeeds and the decoded description is the empty string, \<open>Read\<close>
  stores a state whose description is null.
\<close>

theorem nullStringToEmptyString_null_on_empty:
  "nullStringToEmptyString input = (if ValueString input = [] then StringNull else input)
   \<and> nullStringToEmptyString StringNull = StringNull
   \<and> nullStringToEmptyString StringUnknown = StringNull
   \<and> nullStringToEmptyString (StringValue []) = StringNull
   \<and> (\<not> HasError got
      \<and> NewRequest_url w (BaseUrl c @ ''/api/dns/nameservers/'' @ ValueString (NameserverGroupResourceModel.ID state)) = Inr u
      \<and> Do w log \<lparr>Via = c, Sent = doRequest_headers c
           \<lparr>Method = ''GET'',
            URL = u,
            Header = Map.empty, Body = None\<rparr>\<rparr> = Inr resp
      \<and> ReadAll resp = Inr body \<and> StatusCode resp < 400
      \<and> Unmarshal_NameserverGroup w body = Inr responseData
      \<and> netbirdApi_NameserverGroup.Description responseData = []
      \<longrightarrow> (\<exists>m. State (fst (NameserverGroupResource_Read c w state got log)) = Some m
              \<and> NameserverGroupResourceModel.Description m = StringNull))"
  using NameserverGroupResource_Read_empty_description
    [where got = got and w = w and c = c and state = state and log = log and resp = resp
       and body = body and responseData = responseData and u = u]
  by (simp add: nullStringToEmptyString_def)

theorem nullStringToEmptyString_null_on_empty_witness:
  "\<not> HasError []
   \<and> nullStringToEmptyString (StringValue ''dns'') = StringValue ''dns''
   \<and> (\<exists>m. State (fst (NameserverGroupResource_Read (NewClient ''https://api.netbird.io'' [] ''nbp_abc'')
        \<lparr>NewRequest_url = (\<lambda>u. Inr u),
         Do = (\<lambda>_ _. Inr \<lparr>StatusCode = 200, ReadAll = Inr ''{}''\<rparr>),
         Unmarshal_Network = (\<lambda>_. Inl (GoError ''unexpected end of JSON input'')),
         Unmarshal_NameserverGroup = (\<lambda>_. Inr \<lparr>netbirdApi_NameserverGroup.Description = [],
             netbirdApi_NameserverGroup.Domains = None,
             netbirdApi_NameserverGroup.Enabled = True,
             netbirdApi_NameserverGroup.Groups = Some [''g1''],
             netbirdApi_NameserverGroup.Id = ''ns1'',
             netbirdApi_NameserverGroup.Name = ''dns'',
             netbirdApi_NameserverGroup.Nameservers =
               Some [\<lparr>netbirdApi_Nameserver.Ip = ''8.8.8.8'', netbirdApi_Nameserver.NsType = ''udp'',
                      netbirdApi_Nameserver.Port = 53\<rparr>],
             netbirdApi_NameserverGroup.Primary = True,
             netbirdApi_NameserverGroup.SearchDomainsEnabled = False\<rparr>)\<rparr>
        \<lparr>NameserverGroupResourceModel.ID = StringValue ''ns1'',
         NameserverGroupResourceModel.Name = StringValue ''dns'',
         NameserverGroupResourceModel.Description = StringValue ''old text'',
         NameserverGroupResourceModel.Nameservers = None,
         NameserverGroupResourceModel.PeerGroups = ListNull StringType,
         NameserverGroupResourceModel.Domains = ListNull StringType,
         NameserverGroupResourceModel.Primary = BoolValue True,
         NameserverGroupResourceModel.SearchDomainsEnabled = BoolValue False,
         NameserverGroupResourceModel.Enabled = BoolValue True\<rparr> [] [])) = Some m
          \<and> NameserverGroupResourceModel.Description m = StringNull)"
  using nullStringToEmptyString_null_on_empty
    [where c = "NewClient ''https://api.netbird.io'' [] ''nbp_abc''"
       and w = "\<lparr>NewRequest_url = (\<lambda>u. Inr u),
         Do = (\<lambda>_ _. Inr \<lparr>StatusCode = 200, ReadAll = Inr ''{}''\<rparr>),
         Unmarshal_Network = (\<lambda>_. Inl (GoError ''unexpected end of JSON input'')),
         Unmarshal_NameserverGroup = (\<lambda>_. Inr \<lparr>netbirdApi_NameserverGroup.Description = [],
             netbirdApi_NameserverGroup.Domains = None,
             netbirdApi_NameserverGroup.Enabled = True,
             netbirdApi_NameserverGroup.Groups = Some [''g1''],
             netbirdApi_NameserverGroup.Id = ''ns1'',
             netbirdApi_NameserverGroup.Name = ''dns'',
             netbirdApi_NameserverGroup.Nameservers =
               Some [\<lparr>netbirdApi_Nameserver.Ip = ''8.8.8.8'', netbirdApi_Nameserver.NsType = ''udp'',
                      netbirdApi_Nameserver.Port = 53\<rparr>],
             netbirdApi_NameserverGroup.Primary = True,
             netbirdApi_NameserverGroup.SearchDomainsEnabled = False\<rparr>)\<rparr>"
       and state = "\<lparr>NameserverGroupResourceModel.ID = StringValue ''ns1'',
         NameserverGroupResourceModel.Name = StringValue ''dns'',
         NameserverGroupResourceModel.Description = StringValue ''old text'',
         NameserverGroupResourceModel.Nameservers = None,
         NameserverGroupResourceModel.PeerGroups = ListNull StringType,
         NameserverGroupResourceModel.Domains = ListNull StringType,
         NameserverGroupResourceModel.Primary = BoolValue True,
         NameserverGroupResourceModel.SearchDomainsEnabled = BoolValue False,
         NameserverGroupResourceModel.Enabled = BoolValue True\<rparr>"
       and got = "[]" and log = "[]"
       and u = "''https://api.netbird.io/api/dns/nameservers/ns1''"
       and resp = "\<lparr>StatusCode = 200, ReadAll = Inr ''{}''\<rparr>"
       and body = "''{}''"
       and responseData = "\<lparr>netbirdApi_NameserverGroup.Description = [],
             netbirdApi_NameserverGroup.Domains = None,
             netbirdApi_NameserverGroup.Enabled = True,
             netbirdApi_NameserverGroup.Groups = Some [''g1''],
             netbirdApi_NameserverGroup.Id = ''ns1'',
             netbirdApi_NameserverGroup.Name = ''dns'',
             netbirdApi_NameserverGroup.Nameservers =
               Some [\<lparr>netbirdApi_Nameserver.Ip = ''8.8.8.8'', netbirdApi_Nameserver.NsType = ''udp'',
                      netbirdApi_Nameserver.Port = 53\<rparr>],
             netbirdApi_NameserverGroup.Primary = True,
             netbirdApi_NameserverGroup.SearchDomainsEnabled = False\<rparr>"
       and input = "StringValue ''dns''"]
  by (simp add: HasError_Nil NewClient_def)

section \<open>Policy rules\<close>

text \<open>
  C4 at a failing input.  Of two rules, the first with no source resource and the
  destination resource \<open>res1\<close>, \<open>convertToRulesUpdateApiModel\<close> returns one rule,
  the first, and its \<open>DestinationResource\<close> is nil: the loop returns after the first
  rule, and the destination resource is converted from the source resource.
\<close>

theorem convertToRulesUpdateApiModel_two_rules:
  "(let rule1 = \<lparr>PolicyRuleModel.ID = StringNull, PolicyRuleModel.Name = StringValue ''first'',
                 PolicyRuleModel.Description = StringValue [],
                 PolicyRuleModel.Enabled = BoolValue True,
                 PolicyRuleModel.Action = StringValue ''accept'',
                 PolicyRuleModel.Bidirectional = BoolValue True,
                 PolicyRuleModel.Protocol = StringValue ''tcp'',
                 PolicyRuleModel.Ports = ListNull StringType,
                 PolicyRuleModel.PortRanges = None,
                 PolicyRuleModel.Sources = ListKnown StringType [StringV (StringValue ''g1'')],
                 PolicyRuleModel.Destinations = ListNull StringType,
                 PolicyRuleModel.SourceResource = None,
                 PolicyRuleModel.DestinationResource =
                   Some \<lparr>ResourceModel.ID = StringValue ''res1'',
                         ResourceModel.Type = StringValue ''host''\<rparr>\<rparr>;
        rule2 = rule1\<lparr>PolicyRuleModel.Name := StringValue ''second''\<rparr>;
        out = convertToRulesUpdateApiModel (Some (Some [rule1, rule2]))
    in slice_len (fst out) = 1
     \<and> map netbirdApi_PolicyRuleUpdate.Name (elems (fst out)) = [''first'']
     \<and> map netbirdApi_PolicyRuleUpdate.DestinationResource (elems (fst out)) = [None]
     \<and> snd out = [])"
  by (simp add: convertToRulesUpdateApiModel_def convertListToStringSlice_def
      convertToRulesPortRangesApiModel_def convertToRulesResourcesApiModel_def
      Let_def HasError_def elems_def slice_len_def append1_def)

section \<open>Delete\<close>

text \<open>
  What each \<open>Delete\<close> sends and stores when the prior state decodes without an error
  and \<open>http.NewRequest\<close> makes the URL \<open>u\<close> of the string it is given.
\<close>

lemma GroupResource_Delete_request:
  assumes "\<not> HasError got"
    and "NewRequest_url w (BaseUrl c @ ''/api/groups/'' @ ValueString (GroupResourceModel.ID grp)) = Inr u"
  shows
   "(let req = \<lparr>Method = ''DELETE'', URL = u, Header = Map.empty, Body = None\<rparr>;
              out = GroupResource_Delete c w grp got log
          in snd out = log @ [\<lparr>Via = c, Sent = doRequest_headers c req\<rparr>]
           \<and> State (fst out) = (if snd (fst (doRequest c w req log)) = None then None else Some grp))"
  using assms
  by (simp add: GroupResource_Delete_def NewRequest_def Let_def HasError_Append HasError_Nil
      case_prod_beta doRequest_log split: option.splits)

lemma NetworkResource_Delete_request:
  assumes "\<not> HasError got"
    and "NewRequest_url w (BaseUrl c @ ''/api/networks/'' @ ValueString (NetworkResourceModel.ID nw)) = Inr u"
  shows
   "(let req = \<lparr>Method = ''DELETE'', URL = u, Header = Map.empty, Body = None\<rparr>;
              out = NetworkResource_Delete c w nw got log
          in snd out = log @ [\<lparr>Via = c, Sent = doRequest_headers c req\<rparr>]
           \<and> State (fst out) = (if snd (fst (doRequest c w req log)) = None then None else Some nw))"
  using assms
  by (simp add: NetworkResource_Delete_def NewRequest_def Let_def HasError_Append HasError_Nil
      case_prod_beta doRequest_log split: option.splits)

lemma NetworkRouterResource_Delete_request:
  assumes "\<not> HasError got"
    and "NewRequest_url w (BaseUrl c @ ''/api/networks/'' @ ValueString (NetworkRouterResourceModel.NetworkId rt)
            @ ''/routers/'' @ ValueString (NetworkRouterResourceModel.ID rt)) = Inr u"
  shows
   "(let req = \<lparr>Method = ''DELETE'', URL = u, Header = Map.empty, Body = None\<rparr>;
              out = NetworkRouterResource_Delete c w rt got log
          in snd out = log @ [\<lparr>Via = c, Sent = doRequest_headers c req\<rparr>]
           \<and> State (fst out) = (if snd (fst (doRequest c w req log)) = None then None else Some rt))"
  using assms
  by (simp add: NetworkRouterResource_Delete_def NewRequest_def Let_def HasError_Append HasError_Nil
      case_prod_beta doRequest_log split: option.splits)

lemma NetworkResourceResource_Delete_request:
  assumes "\<not> HasError got"
    and "NewRequest_url w (BaseUrl c @ ''/api/networks/'' @ ValueString (NetworkResourceResourceModel.NetworkId nr)
            @ ''/resources/'' @ ValueString (NetworkResourceResourceModel.ID nr)) = Inr u"
  shows
   "(let req = \<lparr>Method = ''DELETE'', URL = u, Header = Map.empty, Body = None\<rparr>;
              out = NetworkResourceResource_Delete c w nr got log
          in snd out = log @ [\<lparr>Via = c, Sent = doRequest_headers c req\<rparr>]
           \<and> State (fst out) = (if snd (fst (doRequest c w req log)) = None then None else Some nr))"
  using assms
  by (simp add: NetworkResourceResource_Delete_def NewRequest_def Let_def HasError_Append HasError_Nil
      case_prod_beta doRequest_log split: option.splits)

lemma PolicyResource_Delete_request:
  assumes "\<not> HasError got"
    and "NewRequest_url w (BaseUrl c @ ''/api/policies/'' @ ValueString (PolicyModel.ID pol)) = Inr u"
  shows
   "(let req = \<lparr>Method = ''DELETE'', URL = u, Header = Map.empty, Body = None\<rparr>;
              out = PolicyResource_Delete c w pol got log
          in snd out = log @ [\<lparr>Via = c, Sent = doRequest_headers c req\<rparr>]
           \<and> State (fst out) = (if snd (fst (doRequest c w req log)) = None then None else Some pol))"
  using assms
  by (simp add: PolicyResource_Delete_def NewRequest_def Let_def HasError_Append HasError_Nil
      case_prod_beta doRequest_log split: option.splits)

lemma NameserverGroupResource_Delete_request:
  assumes "\<not> HasError got"
    and "NewRequest_url w (BaseUrl c @ ''/api/dns/nameservers/'' @ ValueString (NameserverGroupResourceModel.ID nsg)) = Inr u"
  shows
   "(let req = \<lparr>Method = ''DELETE'', URL = u, Header = Map.empty, Body = None\<rparr>;
              out = NameserverGroupResource_Delete c w nsg got log
          in snd out = log @ [\<lparr>Via = c, Sent = doRequest_headers c req\<rparr>]
           \<and> State (fst out) = (if snd (fst (doRequest c w req log)) = None then None else Some nsg))"
  using assms
  by (simp add: NameserverGroupResource_Delete_def NewRequest_def Let_def HasError_Append HasError_Nil
      case_prod_beta doRequest_log split: option.splits)

lemma DnsSettingsResource_Delete_request:
  assumes "\<not> HasError got"
    and "NewRequest_url w (BaseUrl c @ ''/api/dns/settings'') = Inr u"
  shows
   "(let req = \<lparr>Method = ''PUT'', URL = u, Header = [''Content-Type'' \<mapsto> [''application/json'']], Body = Some (JObject [(''disabled_management_groups'', JArray [])])\<rparr>;
              out = DnsSettingsResource_Delete c w dns got log
          in snd out = log @ [\<lparr>Via = c, Sent = doRequest_headers c req\<rparr>]
           \<and> State (fst out) = (if snd (fst (doRequest c w req log)) = None then None else Some dns))"
  using assms
  by (simp add: DnsSettingsResource_Delete_def NewRequest_def Let_def HasError_Append HasError_Nil
      case_prod_beta doRequest_log Header_Set_def split: option.splits)

text \<open>
  C5, amended.  When the prior state decodes without an error: for the group, network,
  network router, network resource, policy and nameserver group resources, if
  \<open>http.NewRequest\<close> accepts the URL string that ends in the identifier of the entity
  (the base URL, the path of the collection and the identifier) and makes the URL
  \<open>u\<close> of it, \<open>Delete\<close> makes exactly one call, a DELETE to \<open>u\<close>, and removes the
  resource from the state exactly when \<open>doRequest\<close> reports no error for it (otherwise
  the state stays).  For the DNS settings resource, if \<open>http.NewRequest\<close> accepts the
  base URL followed by \<open>/api/dns/settings\<close>, \<open>Delete\<close> makes exactly one call too,
  but it is a PUT whose body sets \<open>disabled_management_groups\<close> to the empty list, and
  the resource is removed from the state exactly when that call reports no error.
\<close>

theorem Delete_single_request:
  assumes "\<not> HasError got"
  shows
   "(\<forall>u. NewRequest_url w (BaseUrl c @ ''/api/groups/'' @ ValueString (GroupResourceModel.ID grp)) = Inr u \<longrightarrow>
         (let req = \<lparr>Method = ''DELETE'', URL = u, Header = Map.empty, Body = None\<rparr>;
              out = GroupResource_Delete c w grp got log
          in snd out = log @ [\<lparr>Via = c, Sent = doRequest_headers c req\<rparr>]
           \<and> State (fst out) = (if snd (fst (doRequest c w req log)) = None then None else Some grp)))
    \<and> (\<forall>u. NewRequest_url w (BaseUrl c @ ''/api/networks/'' @ ValueString (NetworkResourceModel.ID nw)) = Inr u \<longrightarrow>
         (let req = \<lparr>Method = ''DELETE'', URL = u, Header = Map.empty, Body = None\<rparr>;
              out = NetworkResource_Delete c w nw got log
          in snd out = log @ [\<lparr>Via = c, Sent = doRequest_headers c req\<rparr>]
           \<and> State (fst out) = (if snd (fst (doRequest c w req log)) = None then None else Some nw)))
    \<and> (\<forall>u. NewRequest_url w (BaseUrl c @ ''/api/networks/'' @ ValueString (NetworkRouterResourceModel.NetworkId rt)
            @ ''/routers/'' @ ValueString (NetworkRouterResourceModel.ID rt)) = Inr u \<longrightarrow>
         (let req = \<lparr>Method = ''DELETE'', URL = u, Header = Map.empty, Body = None\<rparr>;
              out = NetworkRouterResource_Delete c w rt got log
          in snd out = log @ [\<lparr>Via = c, Sent = doRequest_headers c req\<rparr>]
           \<and> State (fst out) = (if snd (fst (doRequest c w req log)) = None then None else Some rt)))
    \<and> (\<forall>u. NewRequest_url w (BaseUrl c @ ''/api/networks/'' @ ValueString (NetworkResourceResourceModel.NetworkId nr)
            @ ''/resources/'' @ ValueString (NetworkResourceResourceModel.ID nr)) = Inr u \<longrightarrow>
         (let req = \<lparr>Method = ''DELETE'', URL = u, Header = Map.empty, Body = None\<rparr>;
              out = NetworkResourceResource_Delete c w nr got log
          in snd out = log @ [\<lparr>Via = c, Sent = doRequest_headers c req\<rparr>]
           \<and> State (fst out) = (if snd (fst (doRequest c w req log)) = None then None else Some nr)))
    \<and> (\<forall>u. NewRequest_url w (BaseUrl c @ ''/api/policies/'' @ ValueString (PolicyModel.ID pol)) = Inr u \<longrightarrow>
         (let req = \<lparr>Method = ''DELETE'', URL = u, Header = Map.empty, Body = None\<rparr>;
              out = PolicyResource_Delete c w pol got log
          in snd out = log @ [\<lparr>Via = c, Sent = doRequest_headers c req\<rparr>]
           \<and> State (fst out) = (if snd (fst (doRequest c w req log)) = None then None else Some pol)))
    \<and> (\<forall>u. NewRequest_url w (BaseUrl c @ ''/api/dns/nameservers/'' @ ValueString (NameserverGroupResourceModel.ID nsg)) = Inr u \<longrightarrow>
         (let req = \<lparr>Method = ''DELETE'', URL = u, Header = Map.empty, Body = None\<rparr>;
              out = NameserverGroupResource_Delete c w nsg got log
          in snd out = log @ [\<lparr>Via = c, Sent = doRequest_headers c req\<rparr>]
           \<and> State (fst out) = (if snd (fst (doRequest c w req log)) = None then None else Some nsg)))
    \<and> (\<forall>u. NewRequest_url w (BaseUrl c @ ''/api/dns/settings'') = Inr u \<longrightarrow>
         (let req = \<lparr>Method = ''PUT'', URL = u, Header = [''Content-Type'' \<mapsto> [''application/json'']], Body = Some (JObject [(''disabled_management_groups'', JArray [])])\<rparr>;
              out = DnsSettingsResource_Delete c w dns got log
          in snd out = log @ [\<lparr>Via = c, Sent = doRequest_headers c req\<rparr>]
           \<and> State (fst out) = (if snd (fst (doRequest c w req log)) = None then None else Some dns)))"
  using assms
    GroupResource_Delete_request[where got = got and w = w and c = c and log = log and grp = grp]
    NetworkResource_Delete_request[where got = got and w = w and c = c and log = log and nw = nw]
    NetworkRouterResource_Delete_request[where got = got and w = w and c = c and log = log and rt = rt]
    NetworkResourceResource_Delete_request[where got = got and w = w and c = c and log = log and nr = nr]
    PolicyResource_Delete_request[where got = got and w = w and c = c and log = log and pol = pol]
    NameserverGroupResource_Delete_request[where got = got and w = w and c = c and log = log and nsg = nsg]
    DnsSettingsResource_Delete_request[where got = got and w = w and c = c and log = log and dns = dns]
  by simp

theorem Delete_single_request_witness:
  "\<not> HasError []
   \<and> map (\<lambda>cl. (Method (Sent cl), URL (Sent cl)))
        (snd (GroupResource_Delete (NewClient ''https://api.netbird.io'' [] ''nbp_abc'')
        \<lparr>NewRequest_url = (\<lambda>u. Inr u),
         Do = (\<lambda>_ _. Inr \<lparr>StatusCode = 200, ReadAll = Inr ''{}''\<rparr>),
         Unmarshal_Network = (\<lambda>_. Inl (GoError ''unexpected end of JSON input'')),
         Unmarshal_NameserverGroup = (\<lambda>_. Inl (GoError ''unexpected end of JSON input''))\<rparr>
        \<lparr>GroupResourceModel.ID = StringValue ''g1'', GroupResourceModel.Name = StringValue ''Test Group'',
         GroupResourceModel.Peers = ListNull StringType, GroupResourceModel.Resources = None,
         GroupResourceModel.PeersCount = Int64Value 0, GroupResourceModel.ResourcesCount = Int64Value 0,
         GroupResourceModel.Issued = StringValue ''api''\<rparr> [] []))
      = [(''DELETE'', ''https://api.netbird.io/api/groups/g1'')]
   \<and> State (fst (GroupResource_Delete (NewClient ''https://api.netbird.io'' [] ''nbp_abc'')
        \<lparr>NewRequest_url = (\<lambda>u. Inr u),
         Do = (\<lambda>_ _. Inr \<lparr>StatusCode = 200, ReadAll = Inr ''{}''\<rparr>),
         Unmarshal_Network = (\<lambda>_. Inl (GoError ''unexpected end of JSON input'')),
         Unmarshal_NameserverGroup = (\<lambda>_. Inl (GoError ''unexpected end of JSON input''))\<rparr>
        \<lparr>GroupResourceModel.ID = StringValue ''g1'', GroupResourceModel.Name = StringValue ''Test Group'',
         GroupResourceModel.Peers = ListNull StringType, GroupResourceModel.Resources = None,
         GroupResourceModel.PeersCount = Int64Value 0, GroupResourceModel.ResourcesCount = Int64Value 0,
         GroupResourceModel.Issued = StringValue ''api''\<rparr> [] [])) = None"
  using Delete_single_request
    [where c = "NewClient ''https://api.netbird.io'' [] ''nbp_abc''"
       and w = "\<lparr>NewRequest_url = (\<lambda>u. Inr u),
         Do = (\<lambda>_ _. Inr \<lparr>StatusCode = 200, ReadAll = Inr ''{}''\<rparr>),
         Unmarshal_Network = (\<lambda>_. Inl (GoError ''unexpected end of JSON input'')),
         Unmarshal_NameserverGroup = (\<lambda>_. Inl (GoError ''unexpected end of JSON input''))\<rparr>"
       and grp = "\<lparr>GroupResourceModel.ID = StringValue ''g1'', GroupResourceModel.Name = StringValue ''Test Group'',
         GroupResourceModel.Peers = ListNull StringType, GroupResourceModel.Resources = None,
         GroupResourceModel.PeersCount = Int64Value 0, GroupResourceModel.ResourcesCount = Int64Value 0,
         GroupResourceModel.Issued = StringValue ''api''\<rparr>"
       and got = "[]" and log = "[]", THEN conjunct1]
  by (simp add: HasError_Nil Let_def NewClient_def doRequest_def doRequest_headers_def Header_Set_def)

text \<open>
  C5 as stated fails for the DNS settings resource: its \<open>Delete\<close> sends one request,
  a PUT to \<open>/api/dns/settings\<close>, and no DELETE.
\<close>

theorem DnsSettingsResource_Delete_counterexample:
  "map (\<lambda>cl. (Method (Sent cl), URL (Sent cl), Body (Sent cl)))
        (snd (DnsSettingsResource_Delete (NewClient ''https://api.netbird.io'' [] ''nbp_abc'')
        \<lparr>NewRequest_url = (\<lambda>u. Inr u),
         Do = (\<lambda>_ _. Inr \<lparr>StatusCode = 200, ReadAll = Inr ''{}''\<rparr>),
         Unmarshal_Network = (\<lambda>_. Inl (GoError ''unexpected end of JSON input'')),
         Unmarshal_NameserverGroup = (\<lambda>_. Inl (GoError ''unexpected end of JSON input''))\<rparr>
        \<lparr>DnsSettingsResourceModel.ID = StringValue ''dns-settings'',
         DnsSettingsResourceModel.DisabledManagementGroups = ListNull StringType\<rparr> [] []))
      = [(''PUT'', ''https://api.netbird.io/api/dns/settings'',
          Some (JObject [(''disabled_management_groups'', JArray [])]))]
   \<and> State (fst (DnsSettingsResource_Delete (NewClient ''https://api.netbird.io'' [] ''nbp_abc'')
        \<lparr>NewRequest_url = (\<lambda>u. Inr u),
         Do = (\<lambda>_ _. Inr \<lparr>StatusCode = 200, ReadAll = Inr ''{}''\<rparr>),
         Unmarshal_Network = (\<lambda>_. Inl (GoError ''unexpected end of JSON input'')),
         Unmarshal_NameserverGroup = (\<lambda>_. Inl (GoError ''unexpected end of JSON input''))\<rparr>
        \<lparr>DnsSettingsResourceModel.ID = StringValue ''dns-settings'',
         DnsSettingsResourceModel.DisabledManagementGroups = ListNull StringType\<rparr> [] [])) = None"
  by (simp add: DnsSettingsResource_Delete_def NewRequest_def Let_def HasError_def NewClient_def
      doRequest_def doRequest_headers_def Header_Set_def)

section \<open>The shared client\<close>

text \<open>The calls that the handlers add to the log.\<close>

lemma calls_through_iff:
  "calls_through c k log log' \<longleftrightarrow>
     (\<exists>new. log' = log @ new \<and> length new \<le> k \<and> list_all (\<lambda>cl. Via cl = c) new)"
proof
  assume a: "calls_through c k log log'"
  then have "log' = log @ drop (length log) log'"
    by (metis append_take_drop_id calls_through_def)
  moreover have "length (drop (length log) log') \<le> k"
    using a by (auto simp: calls_through_def)
  moreover have "list_all (\<lambda>cl. Via cl = c) (drop (length log) log')"
    using a by (simp add: calls_through_def)
  ultimately show "\<exists>new. log' = log @ new \<and> length new \<le> k \<and> list_all (\<lambda>cl. Via cl = c) new"
    by blast
next
  assume "\<exists>new. log' = log @ new \<and> length new \<le> k \<and> list_all (\<lambda>cl. Via cl = c) new"
  then show "calls_through c k log log'"
    by (auto simp: calls_through_def)
qed

lemma calls_through_refl: "calls_through c k log log"
  by (simp add: calls_through_def)

lemma calls_through_trans:
  assumes "calls_through c j l0 l1" and "calls_through c k l1 l2"
  shows "calls_through c (j + k) l0 l2"
proof -
  obtain n1 where n1: "l1 = l0 @ n1" "length n1 \<le> j" "list_all (\<lambda>cl. Via cl = c) n1"
    using assms(1) unfolding calls_through_iff by blast
  obtain n2 where n2: "l2 = l1 @ n2" "length n2 \<le> k" "list_all (\<lambda>cl. Via cl = c) n2"
    using assms(2) unfolding calls_through_iff by blast
  have "l2 = l0 @ (n1 @ n2)" "length (n1 @ n2) \<le> j + k" "list_all (\<lambda>cl. Via cl = c) (n1 @ n2)"
    using n1 n2 by simp_all
  then show ?thesis unfolding calls_through_iff by blast
qed

lemma calls_through_doRequest:
  "1 \<le> k \<Longrightarrow> calls_through c k log (snd (doRequest c w req log))"
  by (simp add: calls_through_def doRequest_log)

lemma NetworkResource_readIntoModel_calls:
  "1 \<le> k \<Longrightarrow> calls_through c k log (snd (NetworkResource_readIntoModel c w data log))"
  by (simp add: NetworkResource_readIntoModel_def NewRequest_def Let_def case_prod_beta
      calls_through_refl calls_through_doRequest split: option.split sum.split)

lemma NetworkResource_readIntoModel_after_doRequest:
  "calls_through c 2 log (snd (NetworkResource_readIntoModel c w data (snd (doRequest c w req log))))"
  using calls_through_trans[OF
      calls_through_doRequest[where k = 1 and c = c and log = log and w = w and req = req]
      NetworkResource_readIntoModel_calls[where k = 1 and c = c and w = w and data = data
        and log = "snd (doRequest c w req log)"]]
  by (simp only: one_add_one order_refl)

lemma NetworkRouterResource_readIntoModel_calls:
  "1 \<le> k \<Longrightarrow> calls_through c k log (snd (NetworkRouterResource_readIntoModel c w lb data log))"
  by (simp add: NetworkRouterResource_readIntoModel_def NewRequest_def Let_def case_prod_beta
      calls_through_refl calls_through_doRequest split: option.split sum.split)

lemma NetworkRouterResource_readIntoModel_after_doRequest:
  "calls_through c 2 log (snd (NetworkRouterResource_readIntoModel c w lb data (snd (doRequest c w req log))))"
  using calls_through_trans[OF
      calls_through_doRequest[where k = 1 and c = c and log = log and w = w and req = req]
      NetworkRouterResource_readIntoModel_calls[where k = 1 and c = c and w = w and lb = lb and data = data
        and log = "snd (doRequest c w req log)"]]
  by (simp only: one_add_one order_refl)

lemma NetworkResourceResource_readIntoModel_calls:
  "1 \<le> k \<Longrightarrow> calls_through c k log (snd (NetworkResourceResource_readIntoModel c w lb data log))"
  by (simp add: NetworkResourceResource_readIntoModel_def NewRequest_def Let_def case_prod_beta
      calls_through_refl calls_through_doRequest split: option.split sum.split)

lemma NetworkResourceResource_readIntoModel_after_doRequest:
  "calls_through c 2 log (snd (NetworkResourceResource_readIntoModel c w lb data (snd (doRequest c w req log))))"
  using calls_through_trans[OF
      calls_through_doRequest[where k = 1 and c = c and log = log and w = w and req = req]
      NetworkResourceResource_readIntoModel_calls[where k = 1 and c = c and w = w and lb = lb and data = data
        and log = "snd (doRequest c w req log)"]]
  by (simp only: one_add_one order_refl)

lemma readNameserverGroupIntoModel_calls:
  "1 \<le> k \<Longrightarrow> calls_through c k log (snd (readNameserverGroupIntoModel c w data log))"
  by (simp add: readNameserverGroupIntoModel_def NewRequest_def Let_def case_prod_beta
      calls_through_refl calls_through_doRequest split: option.split sum.split)

lemma readNameserverGroupIntoModel_after_doRequest:
  "calls_through c 2 log (snd (readNameserverGroupIntoModel c w data (snd (doRequest c w req log))))"
  using calls_through_trans[OF
      calls_through_doRequest[where k = 1 and c = c and log = log and w = w and req = req]
      readNameserverGroupIntoModel_calls[where k = 1 and c = c and w = w and data = data
        and log = "snd (doRequest c w req log)"]]
  by (simp only: one_add_one order_refl)

lemma readDnsSettingsIntoModel_calls:
  "1 \<le> k \<Longrightarrow> calls_through c k log (snd (readDnsSettingsIntoModel c w lb data log))"
  by (simp add: readDnsSettingsIntoModel_def NewRequest_def Let_def case_prod_beta
      calls_through_refl calls_through_doRequest split: option.split sum.split)

lemma readDnsSettingsIntoModel_after_doRequest:
  "calls_through c 2 log (snd (readDnsSettingsIntoModel c w lb data (snd (doRequest c w req log))))"
  using calls_through_trans[OF
      calls_through_doRequest[where k = 1 and c = c and log = log and w = w and req = req]
      readDnsSettingsIntoModel_calls[where k = 1 and c = c and w = w and lb = lb and data = data
        and log = "snd (doRequest c w req log)"]]
  by (simp only: one_add_one order_refl)

lemma updateDnsSettings_calls:
  "1 \<le> k \<Longrightarrow> calls_through c k log (snd (updateDnsSettings c w lb data log))"
  by (simp add: updateDnsSettings_def NewRequest_def Let_def case_prod_beta
      calls_through_refl calls_through_doRequest split: option.split sum.split)

lemma readDnsSettingsIntoModel_after_update:
  "calls_through c 2 log
     (snd (readDnsSettingsIntoModel c w lb data (snd (updateDnsSettings c w lb data' log))))"
  using calls_through_trans[OF
      updateDnsSettings_calls[where k = 1 and c = c and w = w and lb = lb and data = data' and log = log]
      readDnsSettingsIntoModel_calls[where k = 1 and c = c and w = w and lb = lb and data = data
        and log = "snd (updateDnsSettings c w lb data' log)"]]
  by (simp only: one_add_one order_refl)

lemma NetworkResource_Create_calls:
  "calls_through c 2 log (snd (NetworkResource_Create c w lb nw got log))"
  by (simp add: NetworkResource_Create_def NewRequest_def Let_def case_prod_beta
      calls_through_refl calls_through_doRequest NetworkResource_readIntoModel_after_doRequest
      split: option.split sum.split go_any.split)

lemma NetworkResource_Read_calls:
  "calls_through c 1 log (snd (NetworkResource_Read c w nw got log))"
  by (simp add: NetworkResource_Read_def NewRequest_def Let_def case_prod_beta
      calls_through_refl calls_through_doRequest NetworkResource_readIntoModel_calls
      split: option.split sum.split)

lemma NetworkResource_Update_calls:
  "calls_through c 2 log (snd (NetworkResource_Update c w nw got nw0 log))"
  by (simp add: NetworkResource_Update_def NewRequest_def Let_def case_prod_beta
      calls_through_refl calls_through_doRequest NetworkResource_readIntoModel_after_doRequest
      split: option.split sum.split)

lemma NetworkResource_Delete_calls:
  "calls_through c 1 log (snd (NetworkResource_Delete c w nw got log))"
  by (simp add: NetworkResource_Delete_def NewRequest_def Let_def case_prod_beta
      calls_through_refl calls_through_doRequest 
      split: option.split sum.split)

lemma NetworkRouterResource_Create_calls:
  "calls_through c 2 log (snd (NetworkRouterResource_Create c w lb rt got log))"
  by (simp add: NetworkRouterResource_Create_def NewRequest_def Let_def case_prod_beta
      calls_through_refl calls_through_doRequest NetworkRouterResource_readIntoModel_after_doRequest
      split: option.split sum.split)

lemma NetworkRouterResource_Read_calls:
  "calls_through c 1 log (snd (NetworkRouterResource_Read c w lb rt got log))"
  by (simp add: NetworkRouterResource_Read_def NewRequest_def Let_def case_prod_beta
      calls_through_refl calls_through_doRequest NetworkRouterResource_readIntoModel_calls
      split: option.split sum.split)

lemma NetworkRouterResource_Update_calls:
  "calls_through c 2 log (snd (NetworkRouterResource_Update c w lb rt got rt0 log))"
  by (simp add: NetworkRouterResource_Update_def NewRequest_def Let_def case_prod_beta
      calls_through_refl calls_through_doRequest NetworkRouterResource_readIntoModel_after_doRequest
      split: option.split sum.split)

lemma NetworkRouterResource_Delete_calls:
  "calls_through c 1 log (snd (NetworkRouterResource_Delete c w rt got log))"
  by (simp add: NetworkRouterResource_Delete_def NewRequest_def Let_def case_prod_beta
      calls_through_refl calls_through_doRequest 
      split: option.split sum.split)

lemma NetworkResourceResource_Create_calls:
  "calls_through c 2 log (snd (NetworkResourceResource_Create c w lb nr got log))"
  by (simp add: NetworkResourceResource_Create_def NewRequest_def Let_def case_prod_beta
      calls_through_refl calls_through_doRequest NetworkResourceResource_readIntoModel_after_doRequest
      split: option.split sum.split)

lemma NetworkResourceResource_Read_calls:
  "calls_through c 1 log (snd (NetworkResourceResource_Read c w lb nr got log))"
  by (simp add: NetworkResourceResource_Read_def NewRequest_def Let_def case_prod_beta
      calls_through_refl calls_through_doRequest NetworkResourceResource_readIntoModel_calls
      split: option.split sum.split)

lemma NetworkResourceResource_Update_calls:
  "calls_through c 2 log (snd (NetworkResourceResource_Update c w lb nr got nr0 log))"
  by (simp add: NetworkResourceResource_Update_def NewRequest_def Let_def case_prod_beta
      calls_through_refl calls_through_doRequest NetworkResourceResource_readIntoModel_after_doRequest
      split: option.split sum.split)

lemma NetworkResourceResource_Delete_calls:
  "calls_through c 1 log (snd (NetworkResourceResource_Delete c w nr got log))"
  by (simp add: NetworkResourceResource_Delete_def NewRequest_def Let_def case_prod_beta
      calls_through_refl calls_through_doRequest 
      split: option.split sum.split)

lemma GroupResource_Create_calls:
  "calls_through c 1 log (snd (GroupResource_Create c w lb grp got log))"
  by (simp add: GroupResource_Create_def NewRequest_def Let_def case_prod_beta
      calls_through_refl calls_through_doRequest 
      split: option.split sum.split)

lemma GroupResource_Read_calls:
  "calls_through c 1 log (snd (GroupResource_Read c w lb grp got log))"
  by (simp add: GroupResource_Read_def NewRequest_def Let_def case_prod_beta
      calls_through_refl calls_through_doRequest 
      split: option.split sum.split)

lemma GroupResource_Update_calls:
  "calls_through c 1 log (snd (GroupResource_Update c w lb grp got grp0 log))"
  by (simp add: GroupResource_Update_def NewRequest_def Let_def case_prod_beta
      calls_through_refl calls_through_doRequest 
      split: option.split sum.split)

lemma GroupResource_Delete_calls:
  "calls_through c 1 log (snd (GroupResource_Delete c w grp got log))"
  by (simp add: GroupResource_Delete_def NewRequest_def Let_def case_prod_beta
      calls_through_refl calls_through_doRequest 
      split: option.split sum.split)

lemma PolicyResource_Create_calls:
  "calls_through c 1 log (snd (PolicyResource_Create c w lb pol got log))"
  by (simp add: PolicyResource_Create_def NewRequest_def Let_def case_prod_beta
      calls_through_refl calls_through_doRequest 
      split: option.split sum.split)

lemma PolicyResource_Read_calls:
  "calls_through c 1 log (snd (PolicyResource_Read c w lb pol got log))"
  by (simp add: PolicyResource_Read_def NewRequest_def Let_def case_prod_beta
      calls_through_refl calls_through_doRequest 
      split: option.split sum.split)

lemma PolicyResource_Update_calls:
  "calls_through c 1 log (snd (PolicyResource_Update c w lb pol got pol0 log))"
  by (simp add: PolicyResource_Update_def NewRequest_def Let_def case_prod_beta
      calls_through_refl calls_through_doRequest 
      split: option.split sum.split)

lemma PolicyResource_Delete_calls:
  "calls_through c 1 log (snd (PolicyResource_Delete c w pol got log))"
  by (simp add: PolicyResource_Delete_def NewRequest_def Let_def case_prod_beta
      calls_through_refl calls_through_doRequest 
      split: option.split sum.split)

lemma NameserverGroupResource_Create_calls:
  "calls_through c 2 log (snd (NameserverGroupResource_Create c w lb nsg got log))"
  by (simp add: NameserverGroupResource_Create_def NewRequest_def Let_def case_prod_beta
      calls_through_refl calls_through_doRequest readNameserverGroupIntoModel_after_doRequest
      split: option.split sum.split)

lemma NameserverGroupResource_Read_calls:
  "calls_through c 1 log (snd (NameserverGroupResource_Read c w nsg got log))"
  by (simp add: NameserverGroupResource_Read_def NewRequest_def Let_def case_prod_beta
      calls_through_refl calls_through_doRequest readNameserverGroupIntoModel_calls
      split: option.split sum.split)

lemma NameserverGroupResource_Update_calls:
  "calls_through c 2 log (snd (NameserverGroupResource_Update c w lb nsg got nsg0 log))"
  by (simp add: NameserverGroupResource_Update_def NewRequest_def Let_def case_prod_beta
      calls_through_refl calls_through_doRequest readNameserverGroupIntoModel_after_doRequest
      split: option.split sum.split)

lemma NameserverGroupResource_Delete_calls:
  "calls_through c 1 log (snd (NameserverGroupResource_Delete c w nsg got log))"
  by (simp add: NameserverGroupResource_Delete_def NewRequest_def Let_def case_prod_beta
      calls_through_refl calls_through_doRequest 
      split: option.split sum.split)

lemma DnsSettingsResource_Create_calls:
  "calls_through c 2 log (snd (DnsSettingsResource_Create c w lb dns got log))"
  by (simp add: DnsSettingsResource_Create_def NewRequest_def Let_def case_prod_beta
      calls_through_refl calls_through_doRequest readDnsSettingsIntoModel_after_update updateDnsSettings_calls
      split: option.split sum.split)

lemma DnsSettingsResource_Read_calls:
  "calls_through c 1 log (snd (DnsSettingsResource_Read c w lb dns got log))"
  by (simp add: DnsSettingsResource_Read_def NewRequest_def Let_def case_prod_beta
      calls_through_refl calls_through_doRequest readDnsSettingsIntoModel_calls
      split: option.split sum.split)

lemma DnsSettingsResource_Update_calls:
  "calls_through c 2 log (snd (DnsSettingsResource_Update c w lb dns got dns0 log))"
  by (simp add: DnsSettingsResource_Update_def NewRequest_def Let_def case_prod_beta
      calls_through_refl calls_through_doRequest readDnsSettingsIntoModel_after_update updateDnsSettings_calls
      split: option.split sum.split)

lemma DnsSettingsResource_Delete_calls:
  "calls_through c 1 log (snd (DnsSettingsResource_Delete c w dns got log))"
  by (simp add: DnsSettingsResource_Delete_def NewRequest_def Let_def case_prod_beta
      calls_through_refl calls_through_doRequest 
      split: option.split sum.split)

lemma PeersDataSource_Read_calls:
  "calls_through c 1 log (snd (PeersDataSource_Read c w lb peers got log))"
  by (simp add: PeersDataSource_Read_def NewRequest_def Let_def case_prod_beta
      calls_through_refl calls_through_doRequest 
      split: option.split sum.split)

lemma PeersDataSource_Read_all_calls:
  "calls_through c 1 log (snd (PeersDataSource_Read_all c w lb peers got log))"
  by (simp add: PeersDataSource_Read_all_def NewRequest_def Let_def case_prod_beta
      calls_through_refl calls_through_doRequest 
      split: option.split sum.split)

lemma PeerDataSource_Read_calls:
  "calls_through c 1 log (snd (PeerDataSource_Read c w lb peer got log))"
  by (simp add: PeerDataSource_Read_def NewRequest_def Let_def case_prod_beta
      calls_through_refl calls_through_doRequest 
      split: option.split sum.split)

text \<open>
  C7, amended.  For every base URL, bearer token and access token, the HTTP client of
  the client \<open>c\<close> that \<open>NewClient\<close> builds has the timeout 60 seconds
  (\<open>time.Duration\<close> counts nanoseconds).  Provider \<open>Configure\<close> hands one and the same
  client to resources and data sources, and that client is built by \<open>NewClient\<close>.
  Whatever the API and the library answer and whatever calls were made before, each
  operation of each resource and data source adds to the log only calls made through
  \<open>c\<close>, so under that timeout: at most one call for every \<open>Read\<close> and \<open>Delete\<close>, for
  both versions of the peers data source and the peer data source, and for \<open>Create\<close>
  and \<open>Update\<close> of groups and policies; at most two for \<open>Create\<close> and \<open>Update\<close> of
  networks, network routers, network resources, nameserver groups and DNS settings,
  which read the record back.  The setup key resource is not among them: the provider
  does not register it, and its methods read fields that its model does not have.
\<close>

theorem shared_client_timeout:
  "(\<forall>shared. ResourceData (Configure env config) = Some shared
                 \<or> DataSourceData (Configure env config) = Some shared
         \<longrightarrow> ResourceData (Configure env config) = DataSourceData (Configure env config)
             \<and> (\<exists>b t a. shared = NewClient b t a))
   \<and> (let c = NewClient baseURL bearerToken accessToken in
        Timeout (httpClient c) = 60 * Second
      \<and> 60 * Second = (60000000000::int)
      \<and> calls_through c 2 log (snd (NetworkResource_Create c w lb nw got log))
      \<and> calls_through c 1 log (snd (NetworkResource_Read c w nw got log))
      \<and> calls_through c 2 log (snd (NetworkResource_Update c w nw got nw0 log))
      \<and> calls_through c 1 log (snd (NetworkResource_Delete c w nw got log))
      \<and> calls_through c 2 log (snd (NetworkRouterResource_Create c w lb rt got log))
      \<and> calls_through c 1 log (snd (NetworkRouterResource_Read c w lb rt got log))
      \<and> calls_through c 2 log (snd (NetworkRouterResource_Update c w lb rt got rt0 log))
      \<and> calls_through c 1 log (snd (NetworkRouterResource_Delete c w rt got log))
      \<and> calls_through c 2 log (snd (NetworkResourceResource_Create c w lb nr got log))
      \<and> calls_through c 1 log (snd (NetworkResourceResource_Read c w lb nr got log))
      \<and> calls_through c 2 log (snd (NetworkResourceResource_Update c w lb nr got nr0 log))
      \<and> calls_through c 1 log (snd (NetworkResourceResource_Delete c w nr got log))
      \<and> calls_through c 1 log (snd (GroupResource_Create c w lb grp got log))
      \<and> calls_through c 1 log (snd (GroupResource_Read c w lb grp got log))
      \<and> calls_through c 1 log (snd (GroupResource_Update c w lb grp got grp0 log))
      \<and> calls_through c 1 log (snd (GroupResource_Delete c w grp got log))
      \<and> calls_through c 1 log (snd (PolicyResource_Create c w lb pol got log))
      \<and> calls_through c 1 log (snd (PolicyResource_Read c w lb pol got log))
      \<and> calls_through c 1 log (snd (PolicyResource_Update c w lb pol got pol0 log))
      \<and> calls_through c 1 log (snd (PolicyResource_Delete c w pol got log))
      \<and> calls_through c 2 log (snd (NameserverGroupResource_Create c w lb nsg got log))
      \<and> calls_through c 1 log (snd (NameserverGroupResource_Read c w nsg got log))
      \<and> calls_through c 2 log (snd (NameserverGroupResource_Update c w lb nsg got nsg0 log))
      \<and> calls_through c 1 log (snd (NameserverGroupResource_Delete c w nsg got log))
      \<and> calls_through c 2 log (snd (DnsSettingsResource_Create c w lb dns got log))
      \<and> calls_through c 1 log (snd (DnsSettingsResource_Read c w lb dns got log))
      \<and> calls_through c 2 log (snd (DnsSettingsResource_Update c w lb dns got dns0 log))
      \<and> calls_through c 1 log (snd (DnsSettingsResource_Delete c w dns got log))
      \<and> calls_through c 1 log (snd (PeersDataSource_Read c w lb peers got log))
      \<and> calls_through c 1 log (snd (PeersDataSource_Read_all c w lb peers got log))
      \<and> calls_through c 1 log (snd (PeerDataSource_Read c w lb peer got log)))"
proof -
  have shared: "\<forall>shared. ResourceData (Configure env config) = Some shared
                 \<or> DataSourceData (Configure env config) = Some shared
         \<longrightarrow> ResourceData (Configure env config) = DataSourceData (Configure env config)
             \<and> (\<exists>b t a. shared = NewClient b t a)"
    by (auto simp: Configure_def Let_def split: if_splits)
  have timeout: "Timeout (httpClient (NewClient baseURL bearerToken accessToken)) = 60 * Second"
    by (simp add: NewClient_def)
  have seconds: "60 * Second = (60000000000::int)"
    by (simp add: Second_def)
  show ?thesis
    unfolding Let_def
    using shared timeout seconds
    NetworkResource_Create_calls[where c = "NewClient baseURL bearerToken accessToken" and w = w and lb = lb and nw = nw and got = got and log = log]
    NetworkResource_Read_calls[where c = "NewClient baseURL bearerToken accessToken" and w = w and nw = nw and got = got and log = log]
    NetworkResource_Update_calls[where c = "NewClient baseURL bearerToken accessToken" and w = w and nw = nw and got = got and nw0 = nw0 and log = log]
    NetworkResource_Delete_calls[where c = "NewClient baseURL bearerToken accessToken" and w = w and nw = nw and got = got and log = log]
    NetworkRouterResource_Create_calls[where c = "NewClient baseURL bearerToken accessToken" and w = w and lb = lb and rt = rt and got = got and log = log]
    NetworkRouterResource_Read_calls[where c = "NewClient baseURL bearerToken accessToken" and w = w and lb = lb and rt = rt and got = got and log = log]
    NetworkRouterResource_Update_calls[where c = "NewClient baseURL bearerToken accessToken" and w = w and lb = lb and rt = rt and got = got and rt0 = rt0 and log = log]
    NetworkRouterResource_Delete_calls[where c = "NewClient baseURL bearerToken accessToken" and w = w and rt = rt and got = got and log = log]
    NetworkResourceResource_Create_calls[where c = "NewClient baseURL bearerToken accessToken" and w = w and lb = lb and nr = nr and got = got and log = log]
    NetworkResourceResource_Read_calls[where c = "NewClient baseURL bearerToken accessToken" and w = w and lb = lb and nr = nr and got = got and log = log]
    NetworkResourceResource_Update_calls[where c = "NewClient baseURL bearerToken accessToken" and w = w and lb = lb and nr = nr and got = got and nr0 = nr0 and log = log]
    NetworkResourceResource_Delete_calls[where c = "NewClient baseURL bearerToken accessToken" and w = w and nr = nr and got = got and log = log]
    GroupResource_Create_calls[where c = "NewClient baseURL bearerToken accessToken" and w = w and lb = lb and grp = grp and got = got and log = log]
    GroupResource_Read_calls[where c = "NewClient baseURL bearerToken accessToken" and w = w and lb = lb and grp = grp and got = got and log = log]
    GroupResource_Update_calls[where c = "NewClient baseURL bearerToken accessToken" and w = w and lb = lb and grp = grp and got = got and grp0 = grp0 and log = log]
    GroupResource_Delete_calls[where c = "NewClient baseURL bearerToken accessToken" and w = w and grp = grp and got = got and log = log]
    PolicyResource_Create_calls[where c = "NewClient baseURL bearerToken accessToken" and w = w and lb = lb and pol = pol and got = got and log = log]
    PolicyResource_Read_calls[where c = "NewClient baseURL bearerToken accessToken" and w = w and lb = lb and pol = pol and got = got and log = log]
    PolicyResource_Update_calls[where c = "NewClient baseURL bearerToken accessToken" and w = w and lb = lb and pol = pol and got = got and pol0 = pol0 and log = log]
    PolicyResource_Delete_calls[where c = "NewClient baseURL bearerToken accessToken" and w = w and pol = pol and got = got and log = log]
    NameserverGroupResource_Create_calls[where c = "NewClient baseURL bearerToken accessToken" and w = w and lb = lb and nsg = nsg and got = got and log = log]
    NameserverGroupResource_Read_calls[where c = "NewClient baseURL bearerToken accessToken" and w = w and nsg = nsg and got = got and log = log]
    NameserverGroupResource_Update_calls[where c = "NewClient baseURL bearerToken accessToken" and w = w and lb = lb and nsg = nsg and got = got and nsg0 = nsg0 and log = log]
    NameserverGroupResource_Delete_calls[where c = "NewClient baseURL bearerToken accessToken" and w = w and nsg = nsg and got = got and log = log]
    DnsSettingsResource_Create_calls[where c = "NewClient baseURL bearerToken accessToken" and w = w and lb = lb and dns = dns and got = got and log = log]
    DnsSettingsResource_Read_calls[where c = "NewClient baseURL bearerToken accessToken" and w = w and lb = lb and dns = dns and got = got and log = log]
    DnsSettingsResource_Update_calls[where c = "NewClient baseURL bearerToken accessToken" and w = w and lb = lb and dns = dns and got = got and dns0 = dns0 and log = log]
    DnsSettingsResource_Delete_calls[where c = "NewClient baseURL bearerToken accessToken" and w = w and dns = dns and got = got and log = log]
    PeersDataSource_Read_calls[where c = "NewClient baseURL bearerToken accessToken" and w = w and lb = lb and peers = peers and got = got and log = log]
    PeersDataSource_Read_all_calls[where c = "NewClient baseURL bearerToken accessToken" and w = w and lb = lb and peers = peers and got = got and log = log]
    PeerDataSource_Read_calls[where c = "NewClient baseURL bearerToken accessToken" and w = w and lb = lb and peer = peer and got = got and log = log]
    by (intro conjI) assumption+
qed

theorem shared_client_timeout_witness:
  "ResourceData (Configure (Map.empty(''NETBIRD_ACCESS_TOKEN'' \<mapsto> ''nbp_abc''))
       (\<lparr>Endpoint = StringNull, BearerToken = StringNull, AccessToken = StringNull\<rparr>, [])) = Some (NewClient ''https://api.netbird.io'' [] ''nbp_abc'')
   \<and> DataSourceData (Configure (Map.empty(''NETBIRD_ACCESS_TOKEN'' \<mapsto> ''nbp_abc''))
       (\<lparr>Endpoint = StringNull, BearerToken = StringNull, AccessToken = StringNull\<rparr>, [])) = Some (NewClient ''https://api.netbird.io'' [] ''nbp_abc'')
   \<and> (\<exists>b t a. NewClient ''https://api.netbird.io'' [] ''nbp_abc'' = NewClient b t a)
   \<and> Timeout (httpClient (NewClient ''https://api.netbird.io'' [] ''nbp_abc'')) = 60000000000
   \<and> calls_through (NewClient ''https://api.netbird.io'' [] ''nbp_abc'') 2 []
        (snd (NetworkResource_Update (NewClient ''https://api.netbird.io'' [] ''nbp_abc'')
        \<lparr>NewRequest_url = (\<lambda>u. Inr u),
         Do = (\<lambda>_ _. Inr \<lparr>StatusCode = 200, ReadAll = Inr ''{}''\<rparr>),
         Unmarshal_Network = (\<lambda>_. Inr \<lparr>netbirdApi_Network.Description = None,
             netbirdApi_Network.Name = ''example'',
             netbirdApi_Network.Policies = None, netbirdApi_Network.Resources = None,
             netbirdApi_Network.Routers = Some [''r1''], netbirdApi_Network.RoutingPeersCount = 1\<rparr>),
         Unmarshal_NameserverGroup = (\<lambda>_. Inl (GoError ''unexpected end of JSON input''))\<rparr>
        \<lparr>NetworkResourceModel.ID = StringValue ''n1'', NetworkResourceModel.Name = StringValue ''example'',
         NetworkResourceModel.Description = StringNull,
         NetworkResourceModel.Routers = ListNull StringType,
         NetworkResourceModel.RoutingPeersCount = Int64Value 0,
         NetworkResourceModel.Resources = ListNull StringType,
         NetworkResourceModel.Policies = ListNull StringType\<rparr> []
        \<lparr>NetworkResourceModel.ID = StringValue ''n1'', NetworkResourceModel.Name = StringValue ''example'',
         NetworkResourceModel.Description = StringNull,
         NetworkResourceModel.Routers = ListNull StringType,
         NetworkResourceModel.RoutingPeersCount = Int64Value 0,
         NetworkResourceModel.Resources = ListNull StringType,
         NetworkResourceModel.Policies = ListNull StringType\<rparr> []))"
  using shared_client_timeout
    [where env = "Map.empty(''NETBIRD_ACCESS_TOKEN'' \<mapsto> ''nbp_abc'')"
       and config = "(\<lparr>Endpoint = StringNull, BearerToken = StringNull, AccessToken = StringNull\<rparr>, [])"
       and baseURL = "''https://api.netbird.io''" and bearerToken = "[]"
       and accessToken = "''nbp_abc''" and log = "[]" and got = "[]"
       and w = "\<lparr>NewRequest_url = (\<lambda>u. Inr u),
         Do = (\<lambda>_ _. Inr \<lparr>StatusCode = 200, ReadAll = Inr ''{}''\<rparr>),
         Unmarshal_Network = (\<lambda>_. Inr \<lparr>netbirdApi_Network.Description = None,
             netbirdApi_Network.Name = ''example'',
             netbirdApi_Network.Policies = None, netbirdApi_Network.Resources = None,
             netbirdApi_Network.Routers = Some [''r1''], netbirdApi_Network.RoutingPeersCount = 1\<rparr>),
         Unmarshal_NameserverGroup = (\<lambda>_. Inl (GoError ''unexpected end of JSON input''))\<rparr>"
       and nw = "\<lparr>NetworkResourceModel.ID = StringValue ''n1'', NetworkResourceModel.Name = StringValue ''example'',
         NetworkResourceModel.Description = StringNull,
         NetworkResourceModel.Routers = ListNull StringType,
         NetworkResourceModel.RoutingPeersCount = Int64Value 0,
         NetworkResourceModel.Resources = ListNull StringType,
         NetworkResourceModel.Policies = ListNull StringType\<rparr>"
       and nw0 = "\<lparr>NetworkResourceModel.ID = StringValue ''n1'', NetworkResourceModel.Name = StringValue ''example'',
         NetworkResourceModel.Description = StringNull,
         NetworkResourceModel.Routers = ListNull StringType,
         NetworkResourceModel.RoutingPeersCount = Int64Value 0,
         NetworkResourceModel.Resources = ListNull StringType,
         NetworkResourceModel.Policies = ListNull StringType\<rparr>"]
  by (simp add: Configure_def Let_def Getenv_def HasError_def AddError_def)

text \<open>
  C7 as stated fails: with an API that answers every request with status 200,
  \<open>Update\<close> of the network resource performs two HTTP calls, a PUT and then a GET.
\<close>

theorem NetworkResource_Update_two_calls_counterexample:
  "map (\<lambda>cl. (Method (Sent cl), URL (Sent cl)))
     (snd (NetworkResource_Update (NewClient ''https://api.netbird.io'' [] ''nbp_abc'')
        \<lparr>NewRequest_url = (\<lambda>u. Inr u),
         Do = (\<lambda>_ _. Inr \<lparr>StatusCode = 200, ReadAll = Inr ''{}''\<rparr>),
         Unmarshal_Network = (\<lambda>_. Inr \<lparr>netbirdApi_Network.Description = None,
             netbirdApi_Network.Name = ''example'',
             netbirdApi_Network.Policies = None, netbirdApi_Network.Resources = None,
             netbirdApi_Network.Routers = Some [''r1''], netbirdApi_Network.RoutingPeersCount = 1\<rparr>),
         Unmarshal_NameserverGroup = (\<lambda>_. Inl (GoError ''unexpected end of JSON input''))\<rparr>
        \<lparr>NetworkResourceModel.ID = StringValue ''n1'', NetworkResourceModel.Name = StringValue ''example'',
         NetworkResourceModel.Description = StringNull,
         NetworkResourceModel.Routers = ListNull StringType,
         NetworkResourceModel.RoutingPeersCount = Int64Value 0,
         NetworkResourceModel.Resources = ListNull StringType,
         NetworkResourceModel.Policies = ListNull StringType\<rparr> []
        \<lparr>NetworkResourceModel.ID = StringValue ''n1'', NetworkResourceModel.Name = StringValue ''example'',
         NetworkResourceModel.Description = StringNull,
         NetworkResourceModel.Routers = ListNull StringType,
         NetworkResourceModel.RoutingPeersCount = Int64Value 0,
         NetworkResourceModel.Resources = ListNull StringType,
         NetworkResourceModel.Policies = ListNull StringType\<rparr> []))
   = [(''PUT'', ''https://api.netbird.io/api/networks/n1''),
      (''GET'', ''https://api.netbird.io/api/networks/n1'')]"
  by (simp add: NetworkResource_Update_def NetworkResource_readIntoModel_def NewRequest_def
      Let_def HasError_def NewClient_def doRequest_def doRequest_headers_def Header_Set_def
      ListValueFrom_def)

end
